theory Spec2Isabelle
  imports Complex_Main
begin

section \<open>DesktopImage: a shallow embedding of \<open>index.js\<close>\<close>

text \<open>
  The program is a Node.js command-line tool. Everything it does goes through the
  operating system (files, external capture tools, the clock) or the JavaScript runtime
  (number parsing and printing, \<open>path\<close>, \<open>JSON\<close>). The embedding keeps the control flow
  of every function of \<open>index.js\<close> and makes the outside explicit:

  \<^item> a \<open>world\<close> holds the paths visible to the process, the chronological trace of the
    operations the program attempted, and the number of \<open>Date.now()\<close> reads so far;
  \<^item> an \<open>env\<close> holds what the program cannot decide: the platform strings, the outcome
    of each external operation and the date that \<open>new Date()\<close> gives (as functions of the
    world in which they are attempted or read), and the runtime's library functions that are
    not part of the repository;
  \<^item> an awaited call that may reject is a function \<open>world \<Rightarrow> (string + 'a) \<times> world\<close>, with
    \<open>Inl\<close> carrying the \<open>message\<close> of the thrown \<open>Error\<close>;
  \<^item> strings are lists of 8-bit characters. The two glyphs U+2713 and U+2717 of the console
    messages are written as their UTF-8 bytes; white space is the ASCII part of
    JavaScript's white space.
\<close>

subsection \<open>JavaScript values\<close>

text \<open>
  The numbers of the program (\<open>argv.display\<close>, monitor coordinates) are IEEE doubles,
  \<open>NaN\<close> or \<open>undefined\<close>. Every finite double is a rational, so \<open>Finite r\<close> covers
  them; comparison and the sign of a difference agree with IEEE arithmetic on them.
\<close>

datatype jsval = Undefined | NaN | NegInf | Finite rat | PosInf

fun is_number :: "jsval \<Rightarrow> bool" where
  "is_number Undefined = False"
| "is_number NaN = False"
| "is_number _ = True"

text \<open>\<open>a < b\<close>: false as soon as one side converts to \<open>NaN\<close>.\<close>

fun js_lt :: "jsval \<Rightarrow> jsval \<Rightarrow> bool" where
  "js_lt (Finite a) (Finite b) = (a < b)"
| "js_lt (Finite a) PosInf = True"
| "js_lt NegInf (Finite b) = True"
| "js_lt NegInf PosInf = True"
| "js_lt _ _ = False"

definition js_gt :: "jsval \<Rightarrow> jsval \<Rightarrow> bool" where
  "js_gt a b = js_lt b a"

text \<open>\<open>a <= b\<close>\<close>

definition js_le :: "jsval \<Rightarrow> jsval \<Rightarrow> bool" where
  "js_le a b = (is_number a \<and> is_number b \<and> \<not> js_lt b a)"

text \<open>\<open>a === b\<close> on these values: \<open>NaN\<close> equals nothing, \<open>undefined\<close> only itself.\<close>

definition js_seq :: "jsval \<Rightarrow> jsval \<Rightarrow> bool" where
  "js_seq a b = (a \<noteq> NaN \<and> a = b)"

text \<open>\<open>a - b\<close>\<close>

fun js_minus :: "jsval \<Rightarrow> jsval \<Rightarrow> jsval" where
  "js_minus (Finite a) (Finite b) = Finite (a - b)"
| "js_minus (Finite a) PosInf = NegInf"
| "js_minus (Finite a) NegInf = PosInf"
| "js_minus PosInf (Finite b) = PosInf"
| "js_minus PosInf NegInf = PosInf"
| "js_minus NegInf (Finite b) = NegInf"
| "js_minus NegInf PosInf = NegInf"
| "js_minus _ _ = NaN"

text \<open>\<open>Math.max(0, v)\<close>\<close>

fun Math_max0 :: "jsval \<Rightarrow> jsval" where
  "Math_max0 (Finite a) = Finite (max 0 a)"
| "Math_max0 PosInf = PosInf"
| "Math_max0 NegInf = Finite 0"
| "Math_max0 _ = NaN"

subsection \<open>Strings\<close>

definition digit_char :: "nat \<Rightarrow> char" where
  "digit_char d = ''0123456789'' ! d"

text \<open>\<open>String(n)\<close> for a natural number: its decimal digits.\<close>

fun String_nat :: "nat \<Rightarrow> string" where
  "String_nat n =
     (if 10 \<le> n then String_nat (n div 10) @ [digit_char (n mod 10)] else [digit_char n])"

declare String_nat.simps [simp del]

text \<open>\<open>String(i)\<close> for an integer.\<close>

definition String_int :: "int \<Rightarrow> string" where
  "String_int i = (if 0 \<le> i then String_nat (nat i) else CHR ''-'' # String_nat (nat (- i)))"

text \<open>\<open>s.padStart(2, '0')\<close>\<close>

definition padStart2 :: "string \<Rightarrow> string" where
  "padStart2 s = replicate (2 - length s) (CHR ''0'') @ s"

definition js_space :: "char \<Rightarrow> bool" where
  "js_space c = (c \<in> set [CHR 0x09, CHR 0x0A, CHR 0x0B, CHR 0x0C, CHR 0x0D, CHR 0x20])"

text \<open>\<open>s.trim()\<close>\<close>

definition js_trim :: "string \<Rightarrow> string" where
  "js_trim s = rev (dropWhile js_space (rev (dropWhile js_space s)))"

text \<open>\<open>s.startsWith(p)\<close>, used to write \<open>split\<close>, \<open>replace\<close> and \<open>includes\<close>.\<close>

definition starts_with :: "string \<Rightarrow> string \<Rightarrow> bool" where
  "starts_with p s = (take (length p) s = p)"

text \<open>\<open>s.split(sep)\<close> for a non-empty separator: \<open>acc\<close> is the piece being read.\<close>

fun split_from :: "string \<Rightarrow> string \<Rightarrow> string \<Rightarrow> string list" where
  "split_from sep acc [] = [acc]"
| "split_from [] acc (c # cs) = split_from [] (acc @ [c]) cs"
| "split_from (p # ps) acc (c # cs) =
     (if starts_with (p # ps) (c # cs) then acc # split_from (p # ps) [] (drop (length ps) cs)
      else split_from (p # ps) (acc @ [c]) cs)"

definition js_split :: "string \<Rightarrow> string \<Rightarrow> string list" where
  "js_split sep s = split_from sep [] s"

text \<open>\<open>s.includes(p)\<close>\<close>

fun js_includes :: "string \<Rightarrow> string \<Rightarrow> bool" where
  "js_includes p [] = (p = [])"
| "js_includes p (c # cs) = (starts_with p (c # cs) \<or> js_includes p cs)"

text \<open>\<open>s.replace(p, r)\<close> with a string pattern: the first occurrence only.\<close>

fun replace_first :: "string \<Rightarrow> string \<Rightarrow> string \<Rightarrow> string" where
  "replace_first p r [] = (if p = [] then r else [])"
| "replace_first p r (c # cs) =
     (if starts_with p (c # cs) then r @ drop (length p) (c # cs)
      else c # replace_first p r cs)"

text \<open>\<open>s.replace(/c/g, r)\<close> for a one-character pattern: every occurrence.\<close>

definition replace_all_char :: "char \<Rightarrow> string \<Rightarrow> string \<Rightarrow> string" where
  "replace_all_char c r s = concat (map (\<lambda>d. if d = c then r else [d]) s)"

definition backslash :: string where
  "backslash = [CHR 0x5C]"

subsection \<open>The world outside the program\<close>

datatype event =
    WriteFile string string
  | Unlink string
  | CopyFile string string
  | Mkdir string
  | Exec string
  | JimpRead string
  | JimpWrite string "jsval option"
  | ConsoleLog string
  | ConsoleError string

record world =
  files :: "string set"
  trace :: "event list"
  ticks :: nat

text \<open>What \<open>child_process.exec\<close> reports for one command, and the files the tool left.\<close>

record exec_out =
  ex_error :: "string option"
  ex_stdout :: string
  ex_stderr :: string
  ex_created :: "string list"

text \<open>What \<open>new Date()\<close> reads: the local calendar fields, \<open>getMonth\<close> counting from 0.\<close>

record jsdate =
  getFullYear :: int
  getMonth :: nat
  getDate :: nat
  getHours :: nat
  getMinutes :: nat
  getSeconds :: nat

record env =
  os_platform :: string
  os_homedir :: string
  os_tmpdir :: string
  process_cwd :: string
  path_basename :: "string \<Rightarrow> string"
  path_join :: "string \<Rightarrow> string \<Rightarrow> string"
  new_Date :: "world \<Rightarrow> jsdate"
  Date_now :: "nat \<Rightarrow> nat"
  fails :: "world \<Rightarrow> event \<Rightarrow> string option"
  enoent :: "string \<Rightarrow> string"
  exec_result :: "world \<Rightarrow> string \<Rightarrow> exec_out"
  js_Number :: "string \<Rightarrow> jsval"
  js_parseInt :: "string \<Rightarrow> jsval"
  js_numstr :: "rat \<Rightarrow> string"
  json_displays :: "string \<Rightarrow> string option list option"
  typeerror_msg :: string

type_synonym 'a io = "world \<Rightarrow> (string + 'a) \<times> world"

definition ret :: "'a \<Rightarrow> 'a io" where
  "ret a w = (Inr a, w)"

definition throw :: "string \<Rightarrow> 'a io" where
  "throw msg w = (Inl msg, w)"

text \<open>Sequencing of awaited calls: a rejection skips the rest.\<close>

definition bind_io :: "'a io \<Rightarrow> ('a \<Rightarrow> 'b io) \<Rightarrow> 'b io" where
  "bind_io m f w = (case m w of (Inl e, w') \<Rightarrow> (Inl e, w') | (Inr a, w') \<Rightarrow> f a w')"

text \<open>\<open>try { m } catch (error) { h(error.message) }\<close>\<close>

definition catch_io :: "'a io \<Rightarrow> (string \<Rightarrow> 'a io) \<Rightarrow> 'a io" where
  "catch_io m h w = (case m w of (Inl e, w') \<Rightarrow> h e w' | (Inr a, w') \<Rightarrow> (Inr a, w'))"

definition emit :: "event \<Rightarrow> world \<Rightarrow> world" where
  "emit e w = w\<lparr>trace := trace w @ [e]\<rparr>"

definition console_log :: "string \<Rightarrow> unit io" where
  "console_log s w = (Inr (), emit (ConsoleLog s) w)"

definition console_error :: "string \<Rightarrow> unit io" where
  "console_error s w = (Inr (), emit (ConsoleError s) w)"

text \<open>\<open>Date.now()\<close>: the next value of the clock.\<close>

definition Date_now_io :: "env \<Rightarrow> nat io" where
  "Date_now_io env w = (Inr (Date_now env (ticks w)), w\<lparr>ticks := Suc (ticks w)\<rparr>)"

text \<open>\<open>fs.access(p)\<close>: resolves exactly when the path is visible.\<close>

definition fs_access :: "env \<Rightarrow> string \<Rightarrow> unit io" where
  "fs_access env p w = (if p \<in> files w then (Inr (), w) else (Inl (enoent env p), w))"

definition fs_writeFile :: "env \<Rightarrow> string \<Rightarrow> string \<Rightarrow> unit io" where
  "fs_writeFile env p content w =
     (case fails env w (WriteFile p content) of
        Some msg \<Rightarrow> (Inl msg, emit (WriteFile p content) w)
      | None \<Rightarrow> (Inr (), emit (WriteFile p content) (w\<lparr>files := insert p (files w)\<rparr>)))"

definition fs_unlink :: "env \<Rightarrow> string \<Rightarrow> unit io" where
  "fs_unlink env p w =
     (case fails env w (Unlink p) of
        Some msg \<Rightarrow> (Inl msg, emit (Unlink p) w)
      | None \<Rightarrow>
          if p \<in> files w then (Inr (), emit (Unlink p) (w\<lparr>files := files w - {p}\<rparr>))
          else (Inl (enoent env p), emit (Unlink p) w))"

definition fs_copyFile :: "env \<Rightarrow> string \<Rightarrow> string \<Rightarrow> unit io" where
  "fs_copyFile env src dst w =
     (case fails env w (CopyFile src dst) of
        Some msg \<Rightarrow> (Inl msg, emit (CopyFile src dst) w)
      | None \<Rightarrow>
          if src \<in> files w then (Inr (), emit (CopyFile src dst) (w\<lparr>files := insert dst (files w)\<rparr>))
          else (Inl (enoent env src), emit (CopyFile src dst) w))"

definition fs_mkdir :: "env \<Rightarrow> string \<Rightarrow> unit io" where
  "fs_mkdir env p w =
     (case fails env w (Mkdir p) of
        Some msg \<Rightarrow> (Inl msg, emit (Mkdir p) w)
      | None \<Rightarrow> (Inr (), emit (Mkdir p) (w\<lparr>files := insert p (files w)\<rparr>)))"

text \<open>\<open>execAsync(cmd)\<close>: resolves with \<open>(stdout, stderr)\<close> or rejects; either way the
  tool ran and may have written files.\<close>

definition execAsync :: "env \<Rightarrow> string \<Rightarrow> (string \<times> string) io" where
  "execAsync env cmd w =
     (let r = exec_result env w cmd;
          w' = emit (Exec cmd) (w\<lparr>files := files w \<union> set (ex_created r)\<rparr>)
      in case ex_error r of
           Some msg \<Rightarrow> (Inl msg, w')
         | None \<Rightarrow> (Inr (ex_stdout r, ex_stderr r), w'))"

subsection \<open>\<open>getTimestamp\<close> and \<open>generateFilename\<close>\<close>

record timestamp =
  year :: int
  month :: string
  day :: string
  hours :: string
  minutes :: string
  seconds :: string

text \<open>\<open>getTimestamp()\<close> reads the clock, by \<open>new Date()\<close>, in the world where it is called.\<close>

definition getTimestamp :: "env \<Rightarrow> world \<Rightarrow> timestamp" where
  "getTimestamp env w =
     (let now = new_Date env w
      in \<lparr> year = getFullYear now,
           month = padStart2 (String_nat (getMonth now + 1)),
           day = padStart2 (String_nat (getDate now)),
           hours = padStart2 (String_nat (getHours now)),
           minutes = padStart2 (String_nat (getMinutes now)),
           seconds = padStart2 (String_nat (getSeconds now)) \<rparr>)"

definition generateFilename :: "string \<Rightarrow> string \<Rightarrow> timestamp \<Rightarrow> string" where
  "generateFilename prefix format ts =
     prefix @ ''_'' @ String_int (year ts) @ ''-'' @ month ts @ ''-'' @ day ts @ ''_'' @
     hours ts @ ''-'' @ minutes ts @ ''-'' @ seconds ts @ ''.'' @ format"

subsection \<open>\<open>detectPlatform\<close>\<close>

definition detectPlatform :: "env \<Rightarrow> string io" where
  "detectPlatform env =
     (let platform = os_platform env in
      if platform = ''linux'' then
        catch_io (bind_io (fs_access env ''/mnt/c'') (\<lambda>_. ret ''wsl''))
                 (\<lambda>_. ret ''linux'')
      else ret platform)"

subsection \<open>Temporary paths\<close>

text \<open>
  \<open>getScreenInfo\<close> and \<open>captureScreen\<close> choose the path of each temporary file by the
  same block, written three times in the source (lines 92-112, 236-255, 263-282) with
  the names \<open>getmonitors_\<close>, \<open>screenshot_\<close> and \<open>capture_\<close>: under \<open>wsl\<close> the user's
  Windows temp directory when it is visible, with its Windows spelling, else \<open>/tmp\<close>
  with the path unchanged; on every other platform \<open>os.tmpdir()\<close>.
  The result is the pair (path for this process, path given to the Windows tool).
\<close>

definition tempPaths :: "env \<Rightarrow> string \<Rightarrow> string \<Rightarrow> string \<Rightarrow> (string \<times> string) io" where
  "tempPaths env platform name ext =
     (if platform = ''wsl'' then
        (let userHome = os_homedir env;
             userName = path_basename env userHome;
             fallbackTemp = ''/mnt/c/Users/'' @ userName @ ''/AppData/Local/Temp''
         in catch_io
              (bind_io (fs_access env fallbackTemp) (\<lambda>_.
               bind_io (Date_now_io env) (\<lambda>t.
               let p = fallbackTemp @ ''/'' @ name @ String_nat t @ ext
               in ret (p, replace_all_char (CHR ''/'') backslash (replace_first ''/mnt/c'' ''C:'' p)))))
              (\<lambda>_. bind_io (Date_now_io env) (\<lambda>t.
               let p = ''/tmp/'' @ name @ String_nat t @ ext
               in ret (p, p))))
      else
        bind_io (Date_now_io env) (\<lambda>t.
        let p = path_join env (os_tmpdir env) (name @ String_nat t @ ext)
        in ret (p, p)))"

text \<open>\<open>await fs.unlink(p).catch(() => {})\<close>\<close>

definition unlink_quiet :: "env \<Rightarrow> string \<Rightarrow> unit io" where
  "unlink_quiet env p = catch_io (fs_unlink env p) (\<lambda>_. ret ())"

text \<open>A template literal that starts with a line break and ends each line with one.\<close>

definition template_lines :: "string list \<Rightarrow> string" where
  "template_lines ls = concat (map (\<lambda>l. l @ [CHR 0x0A]) ls)"

definition powershell_cmd :: "string \<Rightarrow> string \<Rightarrow> string" where
  \<open>powershell_cmd platform psScriptWin =
     (if platform = ''wsl''
      then ''powershell.exe -NoProfile -ExecutionPolicy Bypass -File "'' @ psScriptWin @ ''"''
      else ''powershell -NoProfile -ExecutionPolicy Bypass -File "'' @ psScriptWin @ ''"'')\<close>

subsection \<open>\<open>getScreenInfo\<close>\<close>

record monitor =
  mon_index :: nat
  mon_x :: jsval
  mon_y :: jsval
  mon_width :: jsval
  mon_height :: jsval

definition getmonitors_psContent :: string where
  \<open>getmonitors_psContent = [CHR 0x0A] @ template_lines
     [''Add-Type -AssemblyName System.Windows.Forms'',
      ''Add-Type @"'',
      ''using System;'',
      ''using System.Runtime.InteropServices;'',
      '''',
      ''public class DPIAware {'',
      ''    [DllImport("user32.dll")]'',
      ''    public static extern bool SetProcessDPIAware();'',
      ''    '',
      ''    [DllImport("shcore.dll")]'',
      ''    public static extern int SetProcessDpiAwareness(int value);'',
      ''}'',
      ''"@'',
      '''',
      ''# Set DPI awareness'',
      ''try {'',
      ''    [DPIAware]::SetProcessDpiAwareness(2) # Per-monitor DPI aware'',
      ''} catch {'',
      ''    [DPIAware]::SetProcessDPIAware()'',
      ''}'',
      '''',
      ''# Get all screens with actual pixel dimensions'',
      ''$screens = [System.Windows.Forms.Screen]::AllScreens'',
      ''foreach ($screen in $screens) {'',
      ''    $x = $screen.Bounds.X'',
      ''    $y = $screen.Bounds.Y'',
      ''    $width = $screen.Bounds.Width'',
      ''    $height = $screen.Bounds.Height'',
      ''    Write-Output "$x,$y,$width,$height"'',
      ''}'']\<close>

text \<open>Reading past the end of an array gives \<open>undefined\<close>.\<close>

definition js_nth :: "jsval list \<Rightarrow> nat \<Rightarrow> jsval" where
  "js_nth xs i = (if i < length xs then xs ! i else Undefined)"

text \<open>The callback of \<open>monitors.map\<close> (lines 165-168): \<open>index\<close> is the array position.\<close>

definition parseMonitorLine :: "env \<Rightarrow> nat \<Rightarrow> string \<Rightarrow> monitor" where
  "parseMonitorLine env index line =
     (let fields = map (js_Number env) (js_split '','' (js_trim line))
      in \<lparr> mon_index = index + 1, mon_x = js_nth fields 0, mon_y = js_nth fields 1,
           mon_width = js_nth fields 2, mon_height = js_nth fields 3 \<rparr>)"

text \<open>The comparison function given to \<open>sort\<close> (lines 171-174).\<close>

definition compareMonitors :: "monitor \<Rightarrow> monitor \<Rightarrow> jsval" where
  "compareMonitors a b =
     (if \<not> js_seq (mon_y a) (mon_y b) then js_minus (mon_y a) (mon_y b)
      else js_minus (mon_x a) (mon_x b))"

text \<open>
  \<open>Array.prototype.sort\<close> is a stable sort: an element moves behind another only when
  the comparison function returns a value above 0 for the pair. It is written here as
  an insertion sort from the right. Where the function is not a consistent order
  (\<open>NaN\<close> results against unequal elements) ECMAScript leaves the order to the engine,
  and this definition is one of the permitted outcomes.
\<close>

fun sort_insert :: "('a \<Rightarrow> 'a \<Rightarrow> jsval) \<Rightarrow> 'a \<Rightarrow> 'a list \<Rightarrow> 'a list" where
  "sort_insert cmp a [] = [a]"
| "sort_insert cmp a (b # bs) =
     (if js_gt (cmp a b) (Finite 0) then b # sort_insert cmp a bs else a # b # bs)"

definition Array_sort :: "('a \<Rightarrow> 'a \<Rightarrow> jsval) \<Rightarrow> 'a list \<Rightarrow> 'a list" where
  "Array_sort cmp xs = foldr (sort_insert cmp) xs []"

text \<open>\<open>monitorList.forEach((m, i) => m.index = i + 1)\<close>\<close>

definition reindex :: "monitor list \<Rightarrow> monitor list" where
  "reindex ms = map (\<lambda>(i, m). m\<lparr>mon_index := i + 1\<rparr>) (enumerate 0 ms)"

text \<open>Lines 163-179: from the tool's output to the returned list.\<close>

definition monitorList :: "env \<Rightarrow> string \<Rightarrow> monitor list" where
  "monitorList env stdout =
     (let monitors = filter (\<lambda>line. js_trim line \<noteq> []) (js_split [CHR 0x0A] (js_trim stdout));
          parsed = map (\<lambda>(index, monitor). parseMonitorLine env index monitor) (enumerate 0 monitors);
          kept = filter (\<lambda>m. js_gt (mon_width m) (Finite 0) \<and> js_gt (mon_height m) (Finite 0)) parsed
      in reindex (Array_sort compareMonitors kept))"

text \<open>
  The regular expression of the Linux branch,
  \<open>/(\S+) connected.*?(\d+)x(\d+)\+(\d+)\+(\d+)/\<close>, as a sequence of atoms: a literal,
  a greedy captured \<open>c+\<close>, a lazy \<open>c*\<close>. The matcher backtracks in the engine's order:
  a greedy atom tries the longest run first, a lazy one the shortest.
\<close>

datatype atom = Lit string | CapPlus "char \<Rightarrow> bool" | LazyStar "char \<Rightarrow> bool"

fun first_some :: "'a option list \<Rightarrow> 'a option" where
  "first_some [] = None"
| "first_some (Some a # _) = Some a"
| "first_some (None # xs) = first_some xs"

fun re_match :: "atom list \<Rightarrow> string \<Rightarrow> string list \<Rightarrow> string list option" where
  "re_match [] s caps = Some caps"
| "re_match (Lit l # r) s caps =
     (if starts_with l s then re_match r (drop (length l) s) caps else None)"
| "re_match (CapPlus c # r) s caps =
     first_some (map (\<lambda>n. re_match r (drop n s) (caps @ [take n s]))
                     (rev [1..<Suc (length (takeWhile c s))]))"
| "re_match (LazyStar c # r) s caps =
     first_some (map (\<lambda>n. re_match r (drop n s) caps)
                     [0..<Suc (length (takeWhile c s))])"

text \<open>\<open>s.match(re)\<close> without the \<open>g\<close> flag: the leftmost start that matches; the result
  is the list of the groups, \<open>match[1]\<close> first.\<close>

definition re_search :: "atom list \<Rightarrow> string \<Rightarrow> string list option" where
  "re_search re s = first_some (map (\<lambda>i. re_match re (drop i s) []) [0..<Suc (length s)])"

definition re_digit :: "char \<Rightarrow> bool" where
  "re_digit c = (c \<in> set ''0123456789'')"

definition re_dot :: "char \<Rightarrow> bool" where
  "re_dot c = (c \<noteq> CHR 0x0A \<and> c \<noteq> CHR 0x0D)"

definition xrandr_re :: "atom list" where
  "xrandr_re =
     [CapPlus (\<lambda>c. \<not> js_space c), Lit '' connected'', LazyStar re_dot,
      CapPlus re_digit, Lit ''x'', CapPlus re_digit, Lit ''+'', CapPlus re_digit,
      Lit ''+'', CapPlus re_digit]"

text \<open>The loop of lines 208-219: \<open>monitors\<close> is the array filled so far.\<close>

fun xrandr_monitors :: "env \<Rightarrow> string list \<Rightarrow> monitor list \<Rightarrow> monitor list" where
  "xrandr_monitors env [] monitors = monitors"
| "xrandr_monitors env (line # lines) monitors =
     (case re_search xrandr_re line of
        None \<Rightarrow> xrandr_monitors env lines monitors
      | Some groups \<Rightarrow>
          xrandr_monitors env lines
            (monitors @
               [\<lparr> mon_index = length monitors + 1,
                  mon_x = js_parseInt env (groups ! 3),
                  mon_y = js_parseInt env (groups ! 4),
                  mon_width = js_parseInt env (groups ! 1),
                  mon_height = js_parseInt env (groups ! 2) \<rparr>]))"

text \<open>
  The macOS branch reads \<open>JSON.parse(stdout).SPDisplaysDataType[0].spdisplays_ndrvs || []\<close>
  and, of each display, \<open>_spdisplays_resolution\<close>. The runtime's \<open>json_displays\<close> stands
  for that navigation: \<open>None\<close> when any step of it throws, else the resolution string of
  each display (\<open>None\<close> for a display without one).
  \<open>darwin_dim res i dflt\<close> is \<open>parseInt(res?.split(' x ')[i] || dflt)\<close>.
\<close>

definition darwin_dim :: "env \<Rightarrow> string option \<Rightarrow> nat \<Rightarrow> string \<Rightarrow> jsval" where
  "darwin_dim env res i dflt =
     js_parseInt env
       (case res of
          None \<Rightarrow> dflt
        | Some r \<Rightarrow>
            (let parts = js_split '' x '' r
             in if i < length parts \<and> parts ! i \<noteq> [] then parts ! i else dflt))"

text \<open>The block of \<open>case 'win32': case 'wsl':\<close> (lines 90-184).\<close>

definition getScreenInfo_windows :: "env \<Rightarrow> string \<Rightarrow> monitor list io" where
  "getScreenInfo_windows env platform =
     bind_io (tempPaths env platform ''getmonitors_'' ''.ps1'') (\<lambda>(psScript, psScriptWin).
     catch_io
       (bind_io (fs_writeFile env psScript getmonitors_psContent) (\<lambda>_.
        bind_io (execAsync env (powershell_cmd platform psScriptWin)) (\<lambda>(stdout, stderr).
        bind_io (if stderr \<noteq> [] then console_error (''Error in getScreenInfo: '' @ stderr)
                 else ret ()) (\<lambda>_.
        bind_io (unlink_quiet env psScript) (\<lambda>_.
        if stdout = [] \<or> js_trim stdout = [] then ret []
        else ret (monitorList env stdout))))))
       (\<lambda>message.
        bind_io (console_error (''Error getting screen info: '' @ message)) (\<lambda>_.
        bind_io (unlink_quiet env psScript) (\<lambda>_.
        ret []))))"

text \<open>The block of \<open>case 'darwin':\<close> (lines 186-200).\<close>

definition getScreenInfo_darwin :: "env \<Rightarrow> monitor list io" where
  "getScreenInfo_darwin env =
     catch_io
       (bind_io (execAsync env ''system_profiler SPDisplaysDataType -json'') (\<lambda>(stdout, stderr).
        case json_displays env stdout of
          None \<Rightarrow> throw (typeerror_msg env)
        | Some displays \<Rightarrow>
            ret (map (\<lambda>(index, res).
                       \<lparr> mon_index = index + 1, mon_x = Finite 0, mon_y = Finite 0,
                         mon_width = darwin_dim env res 0 ''1920'',
                         mon_height = darwin_dim env res 1 ''1080'' \<rparr>)
                     (enumerate 0 displays))))
       (\<lambda>_. ret [])"

text \<open>The block of \<open>case 'linux':\<close> (lines 203-224).\<close>

definition getScreenInfo_linux :: "env \<Rightarrow> monitor list io" where
  "getScreenInfo_linux env =
     catch_io
       (bind_io (execAsync env ''xrandr --query'') (\<lambda>(stdout, stderr).
        ret (xrandr_monitors env (js_split [CHR 0x0A] stdout) [])))
       (\<lambda>_. ret [])"

definition getScreenInfo :: "env \<Rightarrow> monitor list io" where
  "getScreenInfo env =
     bind_io (detectPlatform env) (\<lambda>platform.
     if platform = ''win32'' \<or> platform = ''wsl'' then getScreenInfo_windows env platform
     else if platform = ''darwin'' then getScreenInfo_darwin env
     else if platform = ''linux'' then getScreenInfo_linux env
     else ret [])"

subsection \<open>\<open>captureScreen\<close>\<close>

text \<open>
  A number inside a template literal. Integers up to \<open>2^53\<close> in magnitude print as their
  decimal digits; the printing of every other finite double is the runtime's.
\<close>

definition js_tostring :: "env \<Rightarrow> jsval \<Rightarrow> string" where
  "js_tostring env v =
     (case v of
        Undefined \<Rightarrow> ''undefined''
      | NaN \<Rightarrow> ''NaN''
      | NegInf \<Rightarrow> ''-Infinity''
      | PosInf \<Rightarrow> ''Infinity''
      | Finite r \<Rightarrow>
          if of_int \<lfloor>r\<rfloor> = r \<and> \<bar>r\<bar> \<le> 2 ^ 53 then String_int \<lfloor>r\<rfloor> else js_numstr env r)"

text \<open>
  The script of a monitor capture (lines 288-306). The four numbers arrive already
  printed; \<open>savePath\<close> is the Windows path with every backslash doubled.
\<close>

definition monitor_psContent :: "string \<Rightarrow> string \<Rightarrow> string \<Rightarrow> string \<Rightarrow> string \<Rightarrow> string" where
  \<open>monitor_psContent x y width height savePath = [CHR 0x0A] @ template_lines
     [''Add-Type -AssemblyName System.Drawing'',
      ''Add-Type -AssemblyName System.Windows.Forms'',
      ''$x = '' @ x,
      ''$y = '' @ y,
      ''$width = '' @ width,
      ''$height = '' @ height,
      ''if ($width -le 0 -or $height -le 0) {'',
      ''    Write-Error "Invalid dimensions: $width x $height"'',
      ''    exit 1'',
      ''}'',
      ''$bounds = [System.Drawing.Rectangle]::FromLTRB($x, $y, ($x + $width), ($y + $height))'',
      ''$bitmap = New-Object System.Drawing.Bitmap($width, $height)'',
      ''$graphics = [System.Drawing.Graphics]::FromImage($bitmap)'',
      ''$graphics.CopyFromScreen($bounds.Location, [System.Drawing.Point]::Empty, $bounds.Size)'',
      ''$bitmap.Save('' @ [CHR 0x27] @ savePath @ [CHR 0x27] @ '', [System.Drawing.Imaging.ImageFormat]::Png)'',
      ''$graphics.Dispose()'',
      ''$bitmap.Dispose()'']\<close>

text \<open>The script of a whole-desktop capture (lines 307-356).\<close>

definition desktop_psContent :: "string \<Rightarrow> string" where
  \<open>desktop_psContent savePath = [CHR 0x0A] @ template_lines
     [''Add-Type -AssemblyName System.Drawing'',
      ''Add-Type -AssemblyName System.Windows.Forms'',
      ''Add-Type @"'',
      ''using System;'',
      ''using System.Runtime.InteropServices;'',
      '''',
      ''public class DPIAware {'',
      ''    [DllImport("user32.dll")]'',
      ''    public static extern bool SetProcessDPIAware();'',
      ''    '',
      ''    [DllImport("shcore.dll")]'',
      ''    public static extern int SetProcessDpiAwareness(int value);'',
      ''}'',
      ''"@'',
      '''',
      ''# Set DPI awareness to get actual pixel dimensions'',
      ''try {'',
      ''    [DPIAware]::SetProcessDpiAwareness(2) # Per-monitor DPI aware'',
      ''} catch {'',
      ''    [DPIAware]::SetProcessDPIAware()'',
      ''}'',
      '''',
      ''# Use SystemInformation.VirtualScreen for most accurate multi-monitor capture'',
      ''$virtualScreen = [System.Windows.Forms.SystemInformation]::VirtualScreen'',
      '''',
      ''$x = $virtualScreen.X'',
      ''$y = $virtualScreen.Y'',
      ''$width = $virtualScreen.Width'',
      ''$height = $virtualScreen.Height'',
      '''',
      ''# Get actual screens to verify we're capturing everything'',
      ''# $screens = [System.Windows.Forms.Screen]::AllScreens'',
      ''# Write-Host "Found $($screens.Count) screens"'',
      ''# foreach ($screen in $screens) {'',
      ''#     Write-Host "  Screen: $($screen.DeviceName) at $($screen.Bounds.X),$($screen.Bounds.Y) size $($screen.Bounds.Width)x$($screen.Bounds.Height)"'',
      ''# }'',
      ''# Write-Host "Virtual screen area: $x, $y size $width x $height"'',
      '''',
      ''# Create bitmap for entire virtual screen'',
      ''$bitmap = New-Object System.Drawing.Bitmap($width, $height)'',
      ''$graphics = [System.Drawing.Graphics]::FromImage($bitmap)'',
      '''',
      ''# Capture the entire virtual screen'',
      ''$graphics.CopyFromScreen($x, $y, 0, 0, [System.Drawing.Size]::new($width, $height))'',
      '''',
      ''$bitmap.Save('' @ [CHR 0x27] @ savePath @ [CHR 0x27] @ '', [System.Drawing.Imaging.ImageFormat]::Png)'',
      ''$graphics.Dispose()'',
      ''$bitmap.Dispose()'']\<close>

definition capture_psContent :: "env \<Rightarrow> monitor option \<Rightarrow> string \<Rightarrow> string" where
  "capture_psContent env monitor windowsTempFile =
     (let savePath = replace_all_char (CHR 0x5C) (backslash @ backslash) windowsTempFile
      in case monitor of
           Some m \<Rightarrow>
             monitor_psContent (js_tostring env (Math_max0 (mon_x m)))
               (js_tostring env (Math_max0 (mon_y m)))
               (js_tostring env (mon_width m)) (js_tostring env (mon_height m)) savePath
         | None \<Rightarrow> desktop_psContent savePath)"

text \<open>Lines 283-285: the message of the error thrown for a monitor with
  \<open>monitor.width <= 0 || monitor.height <= 0\<close>, if any.\<close>

definition dimension_error :: "env \<Rightarrow> monitor option \<Rightarrow> string option" where
  "dimension_error env monitor =
     (case monitor of
        None \<Rightarrow> None
      | Some m \<Rightarrow>
          if js_le (mon_width m) (Finite 0) \<or> js_le (mon_height m) (Finite 0)
          then Some (''Invalid monitor dimensions: '' @ js_tostring env (mon_width m) @ ''x'' @
                     js_tostring env (mon_height m))
          else None)"

definition macCmd :: "env \<Rightarrow> monitor option \<Rightarrow> string \<Rightarrow> string" where
  \<open>macCmd env monitor tempFile =
     (case monitor of
        Some m \<Rightarrow>
          ''screencapture -x -R'' @ js_tostring env (mon_x m) @ '','' @ js_tostring env (mon_y m) @
          '','' @ js_tostring env (mon_width m) @ '','' @ js_tostring env (mon_height m) @
          '' "'' @ tempFile @ ''"''
      | None \<Rightarrow> ''screencapture -x "'' @ tempFile @ ''"'')\<close>

definition linuxCmd :: "env \<Rightarrow> monitor option \<Rightarrow> string \<Rightarrow> string" where
  \<open>linuxCmd env monitor tempFile =
     (case monitor of
        Some m \<Rightarrow>
          ''import -window root -crop '' @ js_tostring env (mon_width m) @ ''x'' @
          js_tostring env (mon_height m) @ ''+'' @ js_tostring env (mon_x m) @ ''+'' @
          js_tostring env (mon_y m) @ '' "'' @ tempFile @ ''"''
      | None \<Rightarrow> ''import -window root "'' @ tempFile @ ''"'')\<close>

text \<open>The block of \<open>case 'win32': case 'wsl':\<close> inside the \<open>try\<close> of \<open>captureScreen\<close>
  (lines 261-375). \<open>monitor = None\<close> is the call without a monitor.\<close>

definition captureScreen_windows ::
  "env \<Rightarrow> string \<Rightarrow> monitor option \<Rightarrow> string \<Rightarrow> string \<Rightarrow> string io" where
  "captureScreen_windows env platform monitor tempFile windowsTempFile =
     bind_io (tempPaths env platform ''capture_'' ''.ps1'') (\<lambda>(psScript, psScriptWin).
     case dimension_error env monitor of
       Some message \<Rightarrow> throw message
     | None \<Rightarrow>
         bind_io (fs_writeFile env psScript (capture_psContent env monitor windowsTempFile)) (\<lambda>_.
         bind_io (execAsync env (powershell_cmd platform psScriptWin)) (\<lambda>(stdout, stderr).
         bind_io (if stderr \<noteq> [] \<and> \<not> js_includes ''DeprecationWarning'' stderr
                  then console_error (''PowerShell stderr: '' @ stderr) else ret ()) (\<lambda>_.
         bind_io (unlink_quiet env psScript) (\<lambda>_.
         bind_io (fs_access env tempFile) (\<lambda>_.
         ret tempFile))))))"

definition captureScreen :: "env \<Rightarrow> monitor option \<Rightarrow> string io" where
  "captureScreen env monitor =
     bind_io (detectPlatform env) (\<lambda>platform.
     bind_io (tempPaths env platform ''screenshot_'' ''.png'') (\<lambda>(tempFile, windowsTempFile).
     catch_io
       (if platform = ''win32'' \<or> platform = ''wsl'' then
          captureScreen_windows env platform monitor tempFile windowsTempFile
        else if platform = ''darwin'' then
          bind_io (execAsync env (macCmd env monitor tempFile)) (\<lambda>_. ret tempFile)
        else if platform = ''linux'' then
          bind_io (execAsync env (linuxCmd env monitor tempFile)) (\<lambda>_. ret tempFile)
        else throw (''Unsupported platform: '' @ platform))
       (\<lambda>message. throw (''Failed to capture screen: '' @ message))))"

subsection \<open>\<open>convertImage\<close>\<close>

text \<open>\<open>Jimp.read(p)\<close> needs the file; \<open>image.writeAsync(p)\<close>, after \<open>image.quality(q)\<close>
  when a quality is given, leaves the output file.\<close>

definition Jimp_read :: "env \<Rightarrow> string \<Rightarrow> unit io" where
  "Jimp_read env p w =
     (case fails env w (JimpRead p) of
        Some msg \<Rightarrow> (Inl msg, emit (JimpRead p) w)
      | None \<Rightarrow>
          if p \<in> files w then (Inr (), emit (JimpRead p) w)
          else (Inl (enoent env p), emit (JimpRead p) w))"

definition Jimp_write :: "env \<Rightarrow> string \<Rightarrow> jsval option \<Rightarrow> unit io" where
  "Jimp_write env p q w =
     (case fails env w (JimpWrite p q) of
        Some msg \<Rightarrow> (Inl msg, emit (JimpWrite p q) w)
      | None \<Rightarrow> (Inr (), emit (JimpWrite p q) (w\<lparr>files := insert p (files w)\<rparr>)))"

definition convertImage :: "env \<Rightarrow> string \<Rightarrow> string \<Rightarrow> string \<Rightarrow> jsval \<Rightarrow> unit io" where
  "convertImage env inputPath outputPath format quality =
     catch_io
       (bind_io (Jimp_read env inputPath) (\<lambda>_.
        if format = ''jpg'' \<or> format = ''jpeg'' then Jimp_write env outputPath (Some quality)
        else Jimp_write env outputPath None))
       (\<lambda>message. throw (''Failed to convert image: '' @ message))"

subsection \<open>\<open>main\<close>\<close>

record argv =
  arg_display :: jsval
  arg_output :: "string option"
  arg_format :: string
  arg_quality :: jsval

text \<open>\<open>argv.output || process.cwd()\<close>\<close>

definition outputDir_of :: "env \<Rightarrow> argv \<Rightarrow> string" where
  "outputDir_of env args =
     (case arg_output args of
        None \<Rightarrow> process_cwd env
      | Some d \<Rightarrow> if d = [] then process_cwd env else d)"

text \<open>
  The block that places one captured image, written three times in \<open>main\<close>
  (lines 444-450, 462-468, 485-491).
\<close>

definition placeImage :: "env \<Rightarrow> string \<Rightarrow> string \<Rightarrow> string \<Rightarrow> jsval \<Rightarrow> unit io" where
  "placeImage env screenshot output format quality =
     (if format \<noteq> ''png'' then
        bind_io (convertImage env screenshot output format quality) (\<lambda>_.
        fs_unlink env screenshot)
      else
        bind_io (fs_copyFile env screenshot output) (\<lambda>_.
        fs_unlink env screenshot))"

definition check_mark :: string where
  "check_mark = [CHR 0xE2, CHR 0x9C, CHR 0x93]"

definition cross_mark :: string where
  "cross_mark = [CHR 0xE2, CHR 0x9C, CHR 0x97]"

definition displayOutput :: "env \<Rightarrow> string \<Rightarrow> string \<Rightarrow> timestamp \<Rightarrow> monitor \<Rightarrow> string" where
  "displayOutput env outputDir format ts m =
     path_join env outputDir
       (generateFilename (''DisplayImage'' @ String_nat (mon_index m)) format ts)"

text \<open>The body of the loop over the monitors (lines 478-497), with its \<open>catch\<close>.\<close>

definition captureDisplay ::
  "env \<Rightarrow> string \<Rightarrow> string \<Rightarrow> jsval \<Rightarrow> timestamp \<Rightarrow> monitor \<Rightarrow> string list \<Rightarrow> string list io" where
  "captureDisplay env outputDir format quality ts m screenshots =
     catch_io
       (bind_io (captureScreen env (Some m)) (\<lambda>monitorScreenshot.
        let monitorOutput = displayOutput env outputDir format ts m in
        bind_io (placeImage env monitorScreenshot monitorOutput format quality) (\<lambda>_.
        bind_io (console_log (check_mark @ '' Display '' @ String_nat (mon_index m) @
                              '' screenshot saved: '' @ monitorOutput)) (\<lambda>_.
        ret (screenshots @ [monitorOutput])))))
       (\<lambda>message.
        bind_io (console_error (cross_mark @ '' Failed to capture display '' @
                                String_nat (mon_index m) @ '': '' @ message)) (\<lambda>_.
        ret screenshots))"

fun captureDisplays ::
  "env \<Rightarrow> string \<Rightarrow> string \<Rightarrow> jsval \<Rightarrow> timestamp \<Rightarrow> monitor list \<Rightarrow> string list \<Rightarrow> string list io" where
  "captureDisplays env outputDir format quality ts [] screenshots = ret screenshots"
| "captureDisplays env outputDir format quality ts (m # ms) screenshots =
     bind_io (captureDisplay env outputDir format quality ts m screenshots)
       (captureDisplays env outputDir format quality ts ms)"

text \<open>\<open>screenshots.forEach(file => console.log(`  - ${file}`))\<close>\<close>

fun log_files :: "string list \<Rightarrow> unit io" where
  "log_files [] = ret ()"
| "log_files (file # rest) = bind_io (console_log (''  - '' @ file)) (\<lambda>_. log_files rest)"

text \<open>Lines 502-504; the block then ends, and the process exits with code 0.\<close>

definition report :: "string list \<Rightarrow> nat io" where
  "report screenshots =
     bind_io (console_log ([CHR 0x0A] @ check_mark @ '' All screenshots captured successfully!'')) (\<lambda>_.
     bind_io (console_log ''Files saved:'') (\<lambda>_.
     bind_io (log_files screenshots) (\<lambda>_.
     ret 0)))"

text \<open>The branch for \<open>--display\<close> (lines 430-453). \<open>monitors.find\<close> gives \<open>undefined\<close>
  when no index equals the number; reading \<open>monitor.index\<close> then throws a \<open>TypeError\<close>.
  \<open>process.exit(1)\<close> ends the run at once: the block's value is the exit code.\<close>

definition singleDisplay ::
  "env \<Rightarrow> string \<Rightarrow> string \<Rightarrow> jsval \<Rightarrow> timestamp \<Rightarrow> jsval \<Rightarrow> monitor list \<Rightarrow> nat io" where
  "singleDisplay env outputDir format quality ts displayNumber monitors =
     (if js_lt displayNumber (Finite 1) \<or> js_gt displayNumber (Finite (of_nat (length monitors))) then
        bind_io (console_error (''Error: Display '' @ js_tostring env displayNumber @
                                '' not found. Available displays: 1-'' @
                                String_nat (length monitors))) (\<lambda>_.
        ret 1)
      else
        (let monitor = find (\<lambda>m. js_seq (Finite (of_nat (mon_index m))) displayNumber) monitors in
         bind_io (console_log (''Capturing display '' @ js_tostring env displayNumber @ ''...'')) (\<lambda>_.
         bind_io (captureScreen env monitor) (\<lambda>monitorScreenshot.
         case monitor of
           None \<Rightarrow> throw (typeerror_msg env)
         | Some m \<Rightarrow>
             (let monitorOutput = displayOutput env outputDir format ts m in
              bind_io (placeImage env monitorScreenshot monitorOutput format quality) (\<lambda>_.
              bind_io (console_log (check_mark @ '' Display '' @ String_nat (mon_index m) @
                                    '' screenshot saved: '' @ monitorOutput)) (\<lambda>_.
              report [monitorOutput])))))))"

text \<open>The branch without \<open>--display\<close> (lines 455-499).\<close>

definition allDisplays ::
  "env \<Rightarrow> string \<Rightarrow> string \<Rightarrow> jsval \<Rightarrow> timestamp \<Rightarrow> monitor list \<Rightarrow> nat io" where
  "allDisplays env outputDir format quality ts monitors =
     bind_io (console_log ''Capturing desktop screenshot...'') (\<lambda>_.
     bind_io (captureScreen env None) (\<lambda>mainScreenshot.
     let mainOutput = path_join env outputDir (generateFilename ''DesktopImage'' format ts) in
     bind_io (placeImage env mainScreenshot mainOutput format quality) (\<lambda>_.
     bind_io (console_log (check_mark @ '' Main desktop screenshot saved: '' @ mainOutput)) (\<lambda>_.
     bind_io (if monitors \<noteq> [] then
                bind_io (console_log (''Capturing '' @ String_nat (length monitors) @
                                      '' individual displays...'')) (\<lambda>_.
                captureDisplays env outputDir format quality ts monitors [mainOutput])
              else ret [mainOutput]) (\<lambda>screenshots.
     report screenshots)))))"

text \<open>The \<open>try\<close> block of \<open>main\<close> (lines 417-504), started in the world \<open>w\<close>: the
  timestamp is read there, once.\<close>

definition main_try :: "env \<Rightarrow> argv \<Rightarrow> nat io" where
  "main_try env args w =
     (let timestamp = getTimestamp env w;
          outputDir = outputDir_of env args;
          format = arg_format args;
          quality = arg_quality args;
          displayNumber = arg_display args
      in bind_io (fs_mkdir env outputDir) (\<lambda>_.
         bind_io (getScreenInfo env) (\<lambda>monitors.
         if displayNumber \<noteq> Undefined
         then singleDisplay env outputDir format quality timestamp displayNumber monitors
         else allDisplays env outputDir format quality timestamp monitors))) w"

text \<open>\<open>main\<close>: the exit code of the process and the world it leaves.\<close>

definition main :: "env \<Rightarrow> argv \<Rightarrow> world \<Rightarrow> nat \<times> world" where
  "main env args w =
     (case main_try env args w of
        (Inl message, w') \<Rightarrow> (1, emit (ConsoleError (''Error: '' @ message)) w')
      | (Inr code, w') \<Rightarrow> (code, w'))"

subsection \<open>A concrete runtime for the examples\<close>

text \<open>
  The examples below run the program on concrete inputs, and need concrete library
  functions. These agree with Node's on the inputs the examples use:
  \<open>Number_literal\<close> with \<open>Number\<close> on decimal integer literals (optional sign,
  surrounding white space, magnitude up to \<open>2^53\<close>), on the empty string and on text
  that is no numeric literal at all; \<open>parseInt_literal\<close> with \<open>parseInt\<close> on text that
  starts with decimal digits up to \<open>2^53\<close>; \<open>halves_numstr\<close> with the printing of
  numbers on \<open>k + 1/2\<close>; \<open>posix_join\<close> with \<open>path.join\<close> on a directory without a
  trailing slash and a plain file name.
\<close>

definition digits_value :: "string \<Rightarrow> nat" where
  "digits_value ds = foldl (\<lambda>acc c. 10 * acc + (of_char c - 48)) 0 ds"

definition unsigned_literal :: "string \<Rightarrow> jsval" where
  "unsigned_literal s =
     (if s \<noteq> [] \<and> list_all re_digit s then Finite (of_nat (digits_value s)) else NaN)"

definition Number_literal :: "string \<Rightarrow> jsval" where
  "Number_literal s =
     (case js_trim s of
        [] \<Rightarrow> Finite 0
      | c # cs \<Rightarrow>
          if c = CHR ''-'' then
            (case unsigned_literal cs of Finite r \<Rightarrow> Finite (- r) | v \<Rightarrow> v)
          else if c = CHR ''+'' then unsigned_literal cs
          else unsigned_literal (c # cs))"

definition parseInt_literal :: "string \<Rightarrow> jsval" where
  "parseInt_literal s = unsigned_literal (takeWhile re_digit (dropWhile js_space s))"

text \<open>The printing of \<open>k + 1/2\<close> for a natural number \<open>k\<close>, as in \<open>String(1.5)\<close>.\<close>

definition halves_numstr :: "rat \<Rightarrow> string" where
  "halves_numstr r =
     (if 0 \<le> r \<and> r < 2 ^ 52 \<and> of_int \<lfloor>r\<rfloor> \<noteq> r \<and> of_int \<lfloor>2 * r\<rfloor> = 2 * r
      then String_int \<lfloor>r\<rfloor> @ ''.5'' else ''?'')"

definition posix_join :: "string \<Rightarrow> string \<Rightarrow> string" where
  "posix_join dir name = dir @ ''/'' @ name"

definition posix_basename :: "string \<Rightarrow> string" where
  "posix_basename p = rev (takeWhile (\<lambda>c. c \<noteq> CHR ''/'') (rev p))"

definition empty_world :: world where
  "empty_world = \<lparr> files = {}, trace = [], ticks = 0 \<rparr>"

definition noon :: jsdate where
  "noon = \<lparr> getFullYear = 2024, getMonth = 0, getDate = 20, getHours = 14,
            getMinutes = 30, getSeconds = 5 \<rparr>"

text \<open>A tool that writes nothing and prints nothing.\<close>

definition silent :: exec_out where
  "silent = \<lparr> ex_error = None, ex_stdout = [], ex_stderr = [], ex_created = [] \<rparr>"

text \<open>A machine on which every file operation succeeds and every tool is silent, and
  whose calendar clock is one second further at each \<open>Date.now()\<close>; the examples override
  \<open>os_platform\<close> and \<open>exec_result\<close>.\<close>

definition base_env :: env where
  "base_env =
     \<lparr> os_platform = ''win32'', os_homedir = ''/home/user'', os_tmpdir = ''/tmp'',
       process_cwd = ''/work'', path_basename = posix_basename, path_join = posix_join,
       new_Date = (\<lambda>w. noon\<lparr>getSeconds := getSeconds noon + ticks w\<rparr>), Date_now = (\<lambda>n. 1700000000000 + n),
       fails = (\<lambda>w e. None), enoent = (\<lambda>p. ''ENOENT: '' @ p),
       exec_result = (\<lambda>w cmd. silent),
       js_Number = Number_literal, js_parseInt = parseInt_literal,
       js_numstr = halves_numstr, json_displays = (\<lambda>s. None),
       typeerror_msg = ''Cannot read properties of undefined'' \<rparr>"

subsection \<open>Scripted machines for the examples\<close>

text \<open>
  A Windows machine with two screens side by side. The enumeration script prints the
  result of the DPI call first, then one line per screen, the right-hand screen first.
\<close>

definition crlf :: string where
  "crlf = [CHR 0x0D, CHR 0x0A]"

definition two_screens_stdout :: string where
  "two_screens_stdout = ''0'' @ crlf @ ''1920,0,1280,1024'' @ crlf @ ''0,0,1920,1080'' @ crlf"

definition two_monitors :: "monitor list" where
  "two_monitors =
     [\<lparr> mon_index = 1, mon_x = Finite 0, mon_y = Finite 0,
        mon_width = Finite 1920, mon_height = Finite 1080 \<rparr>,
      \<lparr> mon_index = 2, mon_x = Finite 1920, mon_y = Finite 0,
        mon_width = Finite 1280, mon_height = Finite 1024 \<rparr>]"

text \<open>The number of tools run so far.\<close>

definition execs :: "world \<Rightarrow> nat" where
  "execs w = length (filter (\<lambda>e. case e of Exec cmd \<Rightarrow> True | _ \<Rightarrow> False) (trace w))"

text \<open>The enumeration script printing the two screens.\<close>

definition enumerate_ok :: "world \<Rightarrow> exec_out" where
  "enumerate_ok w = silent\<lparr>ex_stdout := two_screens_stdout\<rparr>"

text \<open>A capture script that writes its image: the path was chosen two clock reads
  before the script runs.\<close>

definition capture_ok :: "world \<Rightarrow> exec_out" where
  "capture_ok w =
     silent\<lparr>ex_created := [''/tmp/screenshot_'' @ String_nat (Date_now base_env (ticks w - 2)) @ ''.png'']\<rparr>"

text \<open>A tool that exits with an error and writes nothing.\<close>

definition tool_failed :: "world \<Rightarrow> exec_out" where
  "tool_failed w = silent\<lparr>ex_error := Some ''Command failed''\<rparr>"

text \<open>\<open>scripted plan jimp_error\<close>: the \<open>n\<close>-th tool run behaves as \<open>plan n\<close>, and
  \<open>Jimp.read\<close> fails with \<open>jimp_error\<close> if one is given.\<close>

definition scripted :: "(nat \<Rightarrow> world \<Rightarrow> exec_out) \<Rightarrow> string option \<Rightarrow> env" where
  "scripted plan jimp_error =
     base_env\<lparr> exec_result := (\<lambda>w cmd. plan (execs w) w),
               fails := (\<lambda>w e. case e of JimpRead p \<Rightarrow> jimp_error | _ \<Rightarrow> None) \<rparr>"

text \<open>Enumeration, then every capture succeeds.\<close>

definition plan_ok :: "nat \<Rightarrow> world \<Rightarrow> exec_out" where
  "plan_ok n = (if n = 0 then enumerate_ok else capture_ok)"

text \<open>The capture of the first monitor (the third tool run) fails.\<close>

definition plan_first_fails :: "nat \<Rightarrow> world \<Rightarrow> exec_out" where
  "plan_first_fails n = (if n = 0 then enumerate_ok else if n = 2 then tool_failed else capture_ok)"

text \<open>Every tool run is a capture that succeeds.\<close>

definition plan_capture :: "nat \<Rightarrow> world \<Rightarrow> exec_out" where
  "plan_capture n = capture_ok"

text \<open>Every capture fails.\<close>

definition plan_capture_fails :: "nat \<Rightarrow> world \<Rightarrow> exec_out" where
  "plan_capture_fails n = (if n = 0 then enumerate_ok else tool_failed)"

definition run_args :: "jsval \<Rightarrow> string \<Rightarrow> argv" where
  "run_args display format =
     \<lparr> arg_display = display, arg_output = None, arg_format = format, arg_quality = Finite 100 \<rparr>"

text \<open>A Linux machine whose \<open>xrandr\<close> reports a connected output of size 0.\<close>

definition xrandr_zero_env :: env where
  "xrandr_zero_env =
     base_env\<lparr> os_platform := ''linux'',
               exec_result := (\<lambda>w cmd. silent\<lparr>ex_stdout := ''X connected 0x0+0+0''\<rparr>) \<rparr>"

text \<open>The worlds a run on a scripted machine goes through, from the empty one: after
  \<open>mkdir\<close>, after the enumeration, after the capture of the whole desktop, and after
  the placing of its image as \<open>png\<close>.\<close>

definition world_made :: world where
  "world_made = \<lparr> files = {''/work''}, trace = [Mkdir ''/work''], ticks = 0 \<rparr>"

definition world_enumerated :: world where
  "world_enumerated =
     \<lparr> files = {''/work''},
       trace = [Mkdir ''/work'',
                WriteFile ''/tmp/getmonitors_1700000000000.ps1'' getmonitors_psContent,
                Exec (powershell_cmd ''win32'' ''/tmp/getmonitors_1700000000000.ps1''),
                Unlink ''/tmp/getmonitors_1700000000000.ps1''],
       ticks = 1 \<rparr>"

definition world_captured :: "env \<Rightarrow> string \<Rightarrow> world" where
  "world_captured env announcement =
     \<lparr> files = {''/tmp/screenshot_1700000000001.png'', ''/work''},
       trace = trace world_enumerated @
               [ConsoleLog announcement,
                WriteFile ''/tmp/capture_1700000000002.ps1''
                  (capture_psContent env None ''/tmp/screenshot_1700000000001.png''),
                Exec (powershell_cmd ''win32'' ''/tmp/capture_1700000000002.ps1''),
                Unlink ''/tmp/capture_1700000000002.ps1''],
       ticks = 3 \<rparr>"

definition world_placed :: "env \<Rightarrow> world" where
  "world_placed env =
     \<lparr> files = {''/work/DesktopImage_2024-01-20_14-30-05.png'', ''/work''},
       trace = trace (world_captured env ''Capturing desktop screenshot...'') @
               [CopyFile ''/tmp/screenshot_1700000000001.png''
                  ''/work/DesktopImage_2024-01-20_14-30-05.png'',
                Unlink ''/tmp/screenshot_1700000000001.png''],
       ticks = 3 \<rparr>"

text \<open>
  The worlds of a run without \<open>--display\<close> and with \<open>png\<close> on the machine of
  \<open>plan_first_fails\<close>, after the placing of the desktop: when the loop starts; after the
  failed capture of the first monitor, whose script is left behind; after the printing of
  that failure; after the capture of the second monitor; after the placing of its image;
  and at the end of the run.
\<close>

definition world_listed :: "env \<Rightarrow> world" where
  "world_listed env =
     emit (ConsoleLog ''Capturing 2 individual displays...'')
       (emit (ConsoleLog (check_mark @
                '' Main desktop screenshot saved: /work/DesktopImage_2024-01-20_14-30-05.png''))
          (world_placed env))"

definition world_stuck :: "env \<Rightarrow> world" where
  "world_stuck env =
     \<lparr> files = {''/tmp/capture_1700000000004.ps1'', ''/work/DesktopImage_2024-01-20_14-30-05.png'',
                 ''/work''},
       trace = trace (world_listed env) @
               [WriteFile ''/tmp/capture_1700000000004.ps1''
                  (capture_psContent env (Some (two_monitors ! 0)) ''/tmp/screenshot_1700000000003.png''),
                Exec (powershell_cmd ''win32'' ''/tmp/capture_1700000000004.ps1'')],
       ticks = 5 \<rparr>"

definition world_skipped :: "env \<Rightarrow> world" where
  "world_skipped env =
     emit (ConsoleError (cross_mark @
             '' Failed to capture display 1: Failed to capture screen: Command failed''))
       (world_stuck env)"

definition world_second :: "env \<Rightarrow> world" where
  "world_second env =
     \<lparr> files = {''/tmp/screenshot_1700000000005.png'', ''/tmp/capture_1700000000004.ps1'',
                 ''/work/DesktopImage_2024-01-20_14-30-05.png'', ''/work''},
       trace = trace (world_skipped env) @
               [WriteFile ''/tmp/capture_1700000000006.ps1''
                  (capture_psContent env (Some (two_monitors ! 1)) ''/tmp/screenshot_1700000000005.png''),
                Exec (powershell_cmd ''win32'' ''/tmp/capture_1700000000006.ps1''),
                Unlink ''/tmp/capture_1700000000006.ps1''],
       ticks = 7 \<rparr>"

definition world_second_placed :: "env \<Rightarrow> world" where
  "world_second_placed env =
     \<lparr> files = {''/work/DisplayImage2_2024-01-20_14-30-05.png'', ''/tmp/capture_1700000000004.ps1'',
                 ''/work/DesktopImage_2024-01-20_14-30-05.png'', ''/work''},
       trace = trace (world_second env) @
               [CopyFile ''/tmp/screenshot_1700000000005.png''
                  ''/work/DisplayImage2_2024-01-20_14-30-05.png'',
                Unlink ''/tmp/screenshot_1700000000005.png''],
       ticks = 7 \<rparr>"

definition world_done :: "env \<Rightarrow> world" where
  "world_done env =
     \<lparr> files = {''/work/DisplayImage2_2024-01-20_14-30-05.png'', ''/tmp/capture_1700000000004.ps1'',
                 ''/work/DesktopImage_2024-01-20_14-30-05.png'', ''/work''},
       trace = trace (world_second_placed env) @
               [ConsoleLog (check_mark @
                  '' Display 2 screenshot saved: /work/DisplayImage2_2024-01-20_14-30-05.png''),
                ConsoleLog ([CHR 0x0A] @ check_mark @ '' All screenshots captured successfully!''),
                ConsoleLog ''Files saved:'',
                ConsoleLog ''  - /work/DesktopImage_2024-01-20_14-30-05.png'',
                ConsoleLog ''  - /work/DisplayImage2_2024-01-20_14-30-05.png''],
       ticks = 7 \<rparr>"

text \<open>A monitor record with no width, as a caller could pass to \<open>captureScreen\<close>.\<close>

definition flat_monitor :: monitor where
  "flat_monitor =
     \<lparr> mon_index = 1, mon_x = Finite (- 1920), mon_y = Finite 0,
       mon_width = Finite 0, mon_height = Finite 1080 \<rparr>"

text \<open>A monitor to the left of the primary screen.\<close>

definition left_monitor :: monitor where
  "left_monitor =
     \<lparr> mon_index = 1, mon_x = Finite (- 1920), mon_y = Finite 0,
       mon_width = Finite 1920, mon_height = Finite 1080 \<rparr>"

text \<open>The monitor that \<open>xrandr_zero_env\<close> enumerates.\<close>

definition zero_monitor :: monitor where
  "zero_monitor =
     \<lparr> mon_index = 1, mon_x = Finite 0, mon_y = Finite 0,
       mon_width = Finite 0, mon_height = Finite 0 \<rparr>"

subsection \<open>Predicates used in the statements and proofs\<close>

text \<open>An awaited call that never rejects, whatever the world.\<close>

definition never_throws :: "'a io \<Rightarrow> bool" where
  "never_throws m = (\<forall>w. \<exists>a w'. m w = (Inr a, w'))"

text \<open>What an awaited call can resolve with.\<close>

definition returns :: "('a \<Rightarrow> bool) \<Rightarrow> 'a io \<Rightarrow> bool" where
  "returns Q m = (\<forall>w a w'. m w = (Inr a, w') \<longrightarrow> Q a)"

text \<open>The Windows family: \<open>detectPlatform\<close> answers \<open>win32\<close> or \<open>wsl\<close>.\<close>

definition windows_family :: "env \<Rightarrow> world \<Rightarrow> bool" where
  "windows_family env w =
     (fst (detectPlatform env w) = Inr ''win32'' \<or> fst (detectPlatform env w) = Inr ''wsl'')"

text \<open>Reading order: \<open>(a.y, a.x) <= (b.y, b.x)\<close>, lexicographically, with the
  comparisons of JavaScript.\<close>

definition reading_order :: "monitor \<Rightarrow> monitor \<Rightarrow> bool" where
  "reading_order a b =
     (js_lt (mon_y a) (mon_y b) \<or> (js_seq (mon_y a) (mon_y b) \<and> js_le (mon_x a) (mon_x b)))"

text \<open>A monitor whose two coordinates are numbers.\<close>

definition placed :: "monitor \<Rightarrow> bool" where
  "placed m = (is_number (mon_x m) \<and> is_number (mon_y m))"

text \<open>Every operation an awaited call adds to the trace satisfies \<open>P\<close>.\<close>

definition adds_only :: "(event \<Rightarrow> bool) \<Rightarrow> 'a io \<Rightarrow> bool" where
  "adds_only P m = (\<forall>w. \<exists>evs. trace (snd (m w)) = trace w @ evs \<and> list_all P evs)"

text \<open>The operations that neither copy nor convert an image.\<close>

fun housekeeping :: "event \<Rightarrow> bool" where
  "housekeeping (CopyFile src dst) = False"
| "housekeeping (JimpRead p) = False"
| "housekeeping (JimpWrite p q) = False"
| "housekeeping e = True"

text \<open>The operations of a run: what the trace holds beyond the initial world's.\<close>

definition new_events :: "world \<Rightarrow> world \<Rightarrow> event list" where
  "new_events w w' = drop (length (trace w)) (trace w')"

text \<open>The file an operation places, if it places one.\<close>

fun output_of :: "event \<Rightarrow> string option" where
  "output_of (CopyFile src dst) = Some dst"
| "output_of (JimpWrite dst q) = Some dst"
| "output_of e = None"



text \<open>The prefix of an output name: the whole desktop, or a monitor by its index.\<close>

definition image_prefix :: "string \<Rightarrow> bool" where
  "image_prefix p = (p = ''DesktopImage'' \<or> (\<exists>i. p = ''DisplayImage'' @ String_nat i))"

text \<open>The calendar fields a \<open>Date\<close> can hold.\<close>

definition calendar :: "jsdate \<Rightarrow> bool" where
  "calendar now =
     (getMonth now \<le> 11 \<and> 1 \<le> getDate now \<and> getDate now \<le> 31 \<and> getHours now \<le> 23 \<and>
      getMinutes now \<le> 59 \<and> getSeconds now \<le> 59)"

text \<open>Two decimal digits, the leading one possibly 0.\<close>

definition two_digits :: "nat \<Rightarrow> string" where
  "two_digits n = [digit_char (n div 10), digit_char (n mod 10)]"

text \<open>The prefix of the output of a capture target: the whole desktop (no monitor), or a
  monitor by its index.\<close>

definition target_prefix :: "monitor option \<Rightarrow> string" where
  "target_prefix target =
     (case target of None \<Rightarrow> ''DesktopImage'' | Some m \<Rightarrow> ''DisplayImage'' @ String_nat (mon_index m))"

text \<open>The path of the output of a capture target, for a run started in the world \<open>w\<close>: in
  the output directory, named by \<open>generateFilename\<close> with the timestamp of \<open>w\<close>.\<close>

definition image_name :: "env \<Rightarrow> argv \<Rightarrow> world \<Rightarrow> monitor option \<Rightarrow> string" where
  "image_name env args w target =
     path_join env (outputDir_of env args)
       (generateFilename (target_prefix target) (arg_format args) (getTimestamp env w))"

text \<open>
  Where a run of \<open>main\<close> started in \<open>w\<close> calls \<open>captureScreen\<close> for an image it goes on to
  place: \<open>capture_site env args w target W\<close> says that the run calls
  \<open>captureScreen(target)\<close> in the world \<open>W\<close>. There are three such calls in \<open>main\<close>: for the
  monitor found for \<open>--display\<close> (line 438), for the whole desktop (line 459), and in the
  loop for the monitor at each position \<open>j\<close>, in the world the loop has reached after the
  monitors before it (line 479).
\<close>

inductive capture_site :: "env \<Rightarrow> argv \<Rightarrow> world \<Rightarrow> monitor option \<Rightarrow> world \<Rightarrow> bool"
  for env args w where
  display_site:
    "fs_mkdir env (outputDir_of env args) w = (Inr (), w1) \<Longrightarrow>
     getScreenInfo env w1 = (Inr monitors, w2) \<Longrightarrow>
     arg_display args \<noteq> Undefined \<Longrightarrow>
     \<not> js_lt (arg_display args) (Finite 1) \<Longrightarrow>
     \<not> js_gt (arg_display args) (Finite (of_nat (length monitors))) \<Longrightarrow>
     find (\<lambda>m. js_seq (Finite (of_nat (mon_index m))) (arg_display args)) monitors = Some m \<Longrightarrow>
     capture_site env args w (Some m)
       (emit (ConsoleLog (''Capturing display '' @ js_tostring env (arg_display args) @ ''...'')) w2)"
| desktop_site:
    "fs_mkdir env (outputDir_of env args) w = (Inr (), w1) \<Longrightarrow>
     getScreenInfo env w1 = (Inr monitors, w2) \<Longrightarrow>
     arg_display args = Undefined \<Longrightarrow>
     capture_site env args w None (emit (ConsoleLog ''Capturing desktop screenshot...'') w2)"
| monitor_site:
    "fs_mkdir env (outputDir_of env args) w = (Inr (), w1) \<Longrightarrow>
     getScreenInfo env w1 = (Inr monitors, w2) \<Longrightarrow>
     arg_display args = Undefined \<Longrightarrow>
     captureScreen env None (emit (ConsoleLog ''Capturing desktop screenshot...'') w2) =
       (Inr mainScreenshot, w3) \<Longrightarrow>
     placeImage env mainScreenshot (image_name env args w None) (arg_format args) (arg_quality args) w3 =
       (Inr (), w4) \<Longrightarrow>
     j < length monitors \<Longrightarrow>
     captureDisplays env (outputDir_of env args) (arg_format args) (arg_quality args)
       (getTimestamp env w) (take j monitors) [image_name env args w None]
       (emit (ConsoleLog (''Capturing '' @ String_nat (length monitors) @ '' individual displays...''))
          (emit (ConsoleLog (check_mark @ '' Main desktop screenshot saved: '' @ image_name env args w None))
             w4)) = (Inr shots, W0) \<Longrightarrow>
     capture_site env args w (Some (monitors ! j)) W0"

text \<open>An awaited call that only appends to the trace, and after which every path that was
  visible is still visible unless the call unlinked it.\<close>

definition tidy :: "'a io \<Rightarrow> bool" where
  "tidy m = (\<forall>w. \<exists>evs. trace (snd (m w)) = trace w @ evs \<and>
               (\<forall>p\<in>files w. p \<in> files (snd (m w)) \<or> Unlink p \<in> set evs))"

section \<open>Properties\<close>

subsection \<open>Sequencing\<close>

lemma bind_io_Inr: "m w = (Inr a, w') \<Longrightarrow> bind_io m f w = f a w'"
  by (simp add: bind_io_def)

lemma bind_io_Inl: "m w = (Inl e, w') \<Longrightarrow> bind_io m f w = (Inl e, w')"
  by (simp add: bind_io_def)

lemma catch_io_Inr: "m w = (Inr a, w') \<Longrightarrow> catch_io m h w = (Inr a, w')"
  by (simp add: catch_io_def)

lemma catch_io_Inl: "m w = (Inl e, w') \<Longrightarrow> catch_io m h w = h e w'"
  by (simp add: catch_io_def)

lemma never_throws_ret: "never_throws (ret a)"
  by (simp add: never_throws_def ret_def)

lemma never_throws_bind:
  "never_throws m \<Longrightarrow> (\<And>a. never_throws (f a)) \<Longrightarrow> never_throws (bind_io m f)"
  unfolding never_throws_def bind_io_def
  by (metis (mono_tags, lifting) old.prod.case sum.simps(6))

lemma never_throws_catch:
  "(\<And>e. never_throws (h e)) \<Longrightarrow> never_throws (catch_io m h)"
  unfolding never_throws_def catch_io_def
  by (auto split: prod.splits sum.splits)

lemma never_throws_prod: "(\<And>a b. never_throws (f a b)) \<Longrightarrow> never_throws (case_prod f x)"
  by (cases x) simp

lemma never_throws_if:
  "(c \<Longrightarrow> never_throws a) \<Longrightarrow> (\<not> c \<Longrightarrow> never_throws b) \<Longrightarrow> never_throws (if c then a else b)"
  by simp

lemma never_throws_console_error: "never_throws (console_error s)"
  by (simp add: never_throws_def console_error_def)

lemma never_throws_console_log: "never_throws (console_log s)"
  by (simp add: never_throws_def console_log_def)

lemma never_throws_Date_now: "never_throws (Date_now_io env)"
  by (simp add: never_throws_def Date_now_io_def)

lemma never_throws_unlink_quiet: "never_throws (unlink_quiet env p)"
  unfolding unlink_quiet_def by (intro never_throws_catch never_throws_ret)

lemma never_throws_tempPaths: "never_throws (tempPaths env platform name ext)"
  unfolding tempPaths_def Let_def
  by (intro never_throws_if never_throws_catch never_throws_bind never_throws_Date_now never_throws_ret)

subsection \<open>Platform detection\<close>

lemma detectPlatform_eq:
  "detectPlatform env w =
     (Inr (if os_platform env = ''linux''
           then (if ''/mnt/c'' \<in> files w then ''wsl'' else ''linux'')
           else os_platform env), w)"
  by (simp add: detectPlatform_def catch_io_def bind_io_def fs_access_def ret_def)

text \<open>
  C9. \<open>detectPlatform\<close> never rejects, in any world. Under \<open>linux\<close> it answers \<open>wsl\<close>
  exactly when \<open>/mnt/c\<close> is visible and \<open>linux\<close> when it is not; any other family is
  returned as reported. The probe leaves the world as it was.
\<close>

theorem detectPlatform_never_fails:
  "never_throws (detectPlatform env) \<and>
   fst (detectPlatform env w) =
     Inr (if os_platform env = ''linux''
          then if ''/mnt/c'' \<in> files w then ''wsl'' else ''linux''
          else os_platform env) \<and>
   snd (detectPlatform env w) = w"
proof -
  have "never_throws (detectPlatform env)"
    unfolding detectPlatform_def Let_def
    by (intro never_throws_if never_throws_catch never_throws_ret)
  moreover have "detectPlatform env w =
     (Inr (if os_platform env = ''linux''
           then (if ''/mnt/c'' \<in> files w then ''wsl'' else ''linux'')
           else os_platform env), w)"
    by (simp add: detectPlatform_def catch_io_def bind_io_def fs_access_def ret_def)
  ultimately show ?thesis by simp
qed

subsection \<open>Sorting the monitors\<close>

lemma set_sort_insert: "set (sort_insert cmp a xs) = insert a (set xs)"
  by (induction xs) auto

lemma set_Array_sort: "set (Array_sort cmp xs) = set xs"
  by (induction xs) (simp_all add: Array_sort_def set_sort_insert)

lemma js_lt_trans: "js_lt a b \<Longrightarrow> js_lt b c \<Longrightarrow> js_lt a c"
  by (cases a; cases b; cases c) auto

lemma js_lt_irrefl: "\<not> js_lt a a"
  by (cases a) auto

lemma js_lt_asym: "js_lt a b \<Longrightarrow> \<not> js_lt b a"
  by (cases a; cases b) auto

lemma js_lt_cases: "is_number a \<Longrightarrow> is_number b \<Longrightarrow> js_lt a b \<or> a = b \<or> js_lt b a"
  by (cases a; cases b) auto

lemma js_minus_sign:
  "is_number a \<Longrightarrow> is_number b \<Longrightarrow> js_gt (js_minus a b) (Finite 0) = js_lt b a"
  by (cases a; cases b) (auto simp: js_gt_def)

lemma js_seq_number: "is_number a \<Longrightarrow> js_seq a b = (a = b)"
  by (cases a) (auto simp: js_seq_def)

lemma compare_sign:
  assumes "placed a" "placed b"
  shows "js_gt (compareMonitors a b) (Finite 0) = (\<not> reading_order a b)"
proof (cases "mon_y a = mon_y b")
  case True
  with assms show ?thesis
    by (auto simp: compareMonitors_def reading_order_def placed_def js_seq_number js_minus_sign
        js_le_def js_lt_irrefl)
next
  case False
  with assms js_lt_cases [of "mon_y a" "mon_y b"] js_lt_trans [of "mon_y a" "mon_y b" "mon_y a"]
  show ?thesis
    by (auto simp: compareMonitors_def reading_order_def placed_def js_seq_number js_minus_sign
        js_lt_irrefl dest: js_lt_asym)
qed

lemma reading_order_total:
  assumes "placed a" "placed b" "\<not> reading_order a b"
  shows "reading_order b a"
  using assms js_lt_cases [of "mon_y a" "mon_y b"] js_lt_cases [of "mon_x a" "mon_x b"]
  by (auto simp: reading_order_def placed_def js_seq_number js_le_def js_lt_irrefl dest: js_lt_asym)

lemma reading_order_trans:
  assumes "placed a" "placed b" "placed c" "reading_order a b" "reading_order b c"
  shows "reading_order a c"
proof -
  have y: "is_number (mon_y a)" "is_number (mon_y b)" "is_number (mon_y c)"
    and x: "is_number (mon_x a)" "is_number (mon_x b)" "is_number (mon_x c)"
    using assms by (simp_all add: placed_def)
  consider "js_lt (mon_y a) (mon_y b)" | "mon_y a = mon_y b" "\<not> js_lt (mon_x b) (mon_x a)"
    using assms(4) x y by (auto simp: reading_order_def js_seq_number js_le_def)
  then show ?thesis
  proof cases
    case 1
    then have "js_lt (mon_y a) (mon_y c)"
      using assms(5) y js_lt_trans [of "mon_y a" "mon_y b" "mon_y c"]
      by (auto simp: reading_order_def js_seq_number)
    then show ?thesis by (simp add: reading_order_def)
  next
    case 2
    consider "js_lt (mon_y b) (mon_y c)" | "mon_y b = mon_y c" "\<not> js_lt (mon_x c) (mon_x b)"
      using assms(5) x y by (auto simp: reading_order_def js_seq_number js_le_def)
    then show ?thesis
    proof cases
      case 1
      with 2 show ?thesis by (simp add: reading_order_def)
    next
      case 2
      have "\<not> js_lt (mon_x c) (mon_x a)"
      proof
        assume ca: "js_lt (mon_x c) (mon_x a)"
        from js_lt_cases [OF x(1) x(2)] \<open>\<not> js_lt (mon_x b) (mon_x a)\<close>
        have "js_lt (mon_x a) (mon_x b) \<or> mon_x a = mon_x b" by blast
        then have "js_lt (mon_x c) (mon_x b)"
          using ca js_lt_trans [of "mon_x c" "mon_x a" "mon_x b"] by auto
        with 2 show False by simp
      qed
      with 2 \<open>mon_y a = mon_y b\<close> x y show ?thesis
        by (simp add: reading_order_def js_seq_number js_le_def)
    qed
  qed
qed

lemma sorted_sort_insert:
  assumes "placed a" "\<forall>m\<in>set xs. placed m" "sorted_wrt reading_order xs"
  shows "sorted_wrt reading_order (sort_insert compareMonitors a xs)"
  using assms
proof (induction xs)
  case Nil
  then show ?case by simp
next
  case (Cons b bs)
  show ?case
  proof (cases "js_gt (compareMonitors a b) (Finite 0)")
    case True
    then have ba: "reading_order b a"
      using Cons.prems compare_sign [of a b] reading_order_total [of a b] by simp
    have "sorted_wrt reading_order (sort_insert compareMonitors a bs)"
      using Cons by simp
    with True ba Cons.prems show ?thesis
      by (auto simp: set_sort_insert)
  next
    case False
    then have ab: "reading_order a b"
      using Cons.prems compare_sign [of a b] by simp
    have "\<forall>m\<in>set bs. reading_order a m"
    proof
      fix m assume m: "m \<in> set bs"
      with Cons.prems have "reading_order b m" "placed m" by auto
      with ab Cons.prems show "reading_order a m"
        using reading_order_trans [of a b m] by simp
    qed
    with False ab Cons.prems show ?thesis by simp
  qed
qed

lemma sorted_Array_sort:
  "\<forall>m\<in>set xs. placed m \<Longrightarrow> sorted_wrt reading_order (Array_sort compareMonitors xs)"
proof (induction xs)
  case Nil
  then show ?case by (simp add: Array_sort_def)
next
  case (Cons a xs)
  then have "sorted_wrt reading_order (Array_sort compareMonitors xs)" by simp
  moreover have "\<forall>m\<in>set (Array_sort compareMonitors xs). placed m"
    using Cons.prems by (simp add: set_Array_sort)
  ultimately have "sorted_wrt reading_order (sort_insert compareMonitors a (Array_sort compareMonitors xs))"
    using Cons.prems sorted_sort_insert by simp
  then show ?case by (simp add: Array_sort_def)
qed

subsection \<open>Enumeration on the Windows family\<close>

lemma returns_ret: "Q a \<Longrightarrow> returns Q (ret a)"
  by (simp add: returns_def ret_def)

lemma returns_throw: "returns Q (throw e)"
  by (simp add: returns_def throw_def)

lemma returns_bind: "(\<And>a. returns Q (f a)) \<Longrightarrow> returns Q (bind_io m f)"
  unfolding returns_def bind_io_def
  by (auto split: prod.splits sum.splits)

lemma returns_catch: "returns Q m \<Longrightarrow> (\<And>e. returns Q (h e)) \<Longrightarrow> returns Q (catch_io m h)"
  unfolding returns_def catch_io_def
  by (auto split: prod.splits sum.splits)

lemma returns_prod: "(\<And>a b. returns Q (f a b)) \<Longrightarrow> returns Q (case_prod f x)"
  by (cases x) simp

lemma returns_if:
  "(c \<Longrightarrow> returns Q a) \<Longrightarrow> (\<not> c \<Longrightarrow> returns Q b) \<Longrightarrow> returns Q (if c then a else b)"
  by simp

lemma returns_getScreenInfo_windows:
  assumes "Q []" "\<And>stdout. Q (monitorList env stdout)"
  shows "returns Q (getScreenInfo_windows env platform)"
  unfolding getScreenInfo_windows_def
  by (intro returns_bind returns_prod returns_catch returns_if returns_ret assms)

lemma getScreenInfo_windows_family:
  assumes "windows_family env w"
  shows "\<exists>platform. getScreenInfo env w = getScreenInfo_windows env platform w"
  using assms
  by (auto simp: windows_family_def getScreenInfo_def detectPlatform_eq bind_io_def split: if_splits)

lemma length_reindex: "length (reindex ms) = length ms"
  by (simp add: reindex_def)

lemma nth_reindex: "i < length ms \<Longrightarrow> reindex ms ! i = (ms ! i)\<lparr>mon_index := i + 1\<rparr>"
  by (simp add: reindex_def nth_enumerate_eq)

lemma reindex_fields:
  "m \<in> set (reindex ms) \<Longrightarrow>
   \<exists>k\<in>set ms. mon_x m = mon_x k \<and> mon_y m = mon_y k \<and> mon_width m = mon_width k \<and> mon_height m = mon_height k"
  by (auto simp: reindex_def enumerate_eq_zip dest!: set_zip_rightD)

lemma monitorList_positive:
  assumes "m \<in> set (monitorList env stdout)"
  shows "js_gt (mon_width m) (Finite 0) \<and> js_gt (mon_height m) (Finite 0)"
proof -
  from assms obtain k where
    "k \<in> set (Array_sort compareMonitors
        (filter (\<lambda>m. js_gt (mon_width m) (Finite 0) \<and> js_gt (mon_height m) (Finite 0))
          (map (\<lambda>(index, monitor). parseMonitorLine env index monitor)
            (enumerate 0 (filter (\<lambda>line. js_trim line \<noteq> []) (js_split [CHR 0x0A] (js_trim stdout)))))))"
    and "mon_width m = mon_width k" "mon_height m = mon_height k"
    unfolding monitorList_def Let_def using reindex_fields by blast
  then show ?thesis by (simp add: set_Array_sort)
qed

lemma placed_reindex: "(\<forall>m\<in>set (reindex ms). placed m) \<Longrightarrow> (\<forall>m\<in>set ms. placed m)"
proof
  fix k assume a: "\<forall>m\<in>set (reindex ms). placed m" and k: "k \<in> set ms"
  then obtain i where i: "i < length ms" "ms ! i = k" by (auto simp: in_set_conv_nth)
  then have "reindex ms ! i \<in> set (reindex ms)" by (simp add: length_reindex)
  with a have "placed (reindex ms ! i)" by blast
  with i show "placed k" by (simp add: nth_reindex placed_def)
qed

lemma monitorList_indexed:
  "i < length (monitorList env stdout) \<Longrightarrow> mon_index (monitorList env stdout ! i) = i + 1"
  by (simp add: monitorList_def Let_def length_reindex nth_reindex)

lemma monitorList_sorted:
  assumes "\<forall>m\<in>set (monitorList env stdout). placed m" "i < j" "j < length (monitorList env stdout)"
  shows "reading_order (monitorList env stdout ! i) (monitorList env stdout ! j)"
proof -
  define kept where "kept = Array_sort compareMonitors
        (filter (\<lambda>m. js_gt (mon_width m) (Finite 0) \<and> js_gt (mon_height m) (Finite 0))
          (map (\<lambda>(index, monitor). parseMonitorLine env index monitor)
            (enumerate 0 (filter (\<lambda>line. js_trim line \<noteq> []) (js_split [CHR 0x0A] (js_trim stdout))))))"
  have ml: "monitorList env stdout = reindex kept"
    by (simp add: monitorList_def Let_def kept_def)
  have "\<forall>m\<in>set kept. placed m"
    using assms(1) placed_reindex unfolding ml by blast
  then have "sorted_wrt reading_order kept"
    unfolding kept_def by (simp add: set_Array_sort sorted_Array_sort)
  moreover have j: "j < length kept" using assms(3) by (simp add: ml length_reindex)
  ultimately have "reading_order (kept ! i) (kept ! j)"
    using assms(2) by (simp add: sorted_wrt_iff_nth_less)
  with assms(2) j show ?thesis
    by (simp add: ml nth_reindex reading_order_def)
qed

text \<open>
  C4, as amended. On the Windows family every monitor that \<open>getScreenInfo\<close> returns has
  \<open>width > 0\<close> and \<open>height > 0\<close>: the entries failing this are dropped by the filter of
  line 168. The macOS and Linux branches have no such filter (see the counterexample
  among the examples).
\<close>

theorem getScreenInfo_windows_positive:
  assumes "windows_family env w" "fst (getScreenInfo env w) = Inr ms" "m \<in> set ms"
  shows "js_gt (mon_width m) (Finite 0) \<and> js_gt (mon_height m) (Finite 0)"
proof -
  obtain platform where p: "getScreenInfo env w = getScreenInfo_windows env platform w"
    using assms(1) getScreenInfo_windows_family by blast
  have "returns (\<lambda>ms. \<forall>m\<in>set ms. js_gt (mon_width m) (Finite 0) \<and> js_gt (mon_height m) (Finite 0))
          (getScreenInfo_windows env platform)"
    by (rule returns_getScreenInfo_windows) (simp_all add: monitorList_positive)
  with p assms(2,3) show ?thesis
    unfolding returns_def by (metis prod.collapse)
qed

text \<open>
  C5. On the Windows family the list that \<open>getScreenInfo\<close> returns is re-indexed:
  the monitor at position \<open>i\<close> has index \<open>i + 1\<close>. When the coordinates of the
  returned monitors are numbers, the list is in reading order: for \<open>i < j\<close>,
  \<open>(y\<^sub>i, x\<^sub>i) \<le> (y\<^sub>j, x\<^sub>j)\<close> lexicographically.
\<close>

theorem getScreenInfo_windows_sorted:
  assumes "windows_family env w" "fst (getScreenInfo env w) = Inr ms"
  shows "(\<forall>i<length ms. mon_index (ms ! i) = i + 1) \<and>
         ((\<forall>m\<in>set ms. placed m) \<longrightarrow>
          (\<forall>i j. i < j \<and> j < length ms \<longrightarrow> reading_order (ms ! i) (ms ! j)))"
proof -
  obtain platform where p: "getScreenInfo env w = getScreenInfo_windows env platform w"
    using assms(1) getScreenInfo_windows_family by blast
  have "returns (\<lambda>ms. (\<forall>i<length ms. mon_index (ms ! i) = i + 1) \<and>
         ((\<forall>m\<in>set ms. placed m) \<longrightarrow>
          (\<forall>i j. i < j \<and> j < length ms \<longrightarrow> reading_order (ms ! i) (ms ! j))))
          (getScreenInfo_windows env platform)"
    by (rule returns_getScreenInfo_windows) (simp_all add: monitorList_indexed monitorList_sorted)
  with p assms(2) show ?thesis
    unfolding returns_def by (metis prod.collapse)
qed

subsection \<open>What a run adds to the trace\<close>

lemma adds_only_ret: "adds_only P (ret a)"
  by (simp add: adds_only_def ret_def)

lemma adds_only_throw: "adds_only P (throw e)"
  by (simp add: adds_only_def throw_def)

lemma adds_only_bind:
  assumes "adds_only P m" "\<And>a. adds_only P (f a)"
  shows "adds_only P (bind_io m f)"
  unfolding adds_only_def
proof
  fix w
  obtain r w1 where mw: "m w = (r, w1)" by (cases "m w")
  from assms(1) obtain evs where e1: "trace w1 = trace w @ evs" "list_all P evs"
    unfolding adds_only_def using mw by (metis snd_conv)
  show "\<exists>evs. trace (snd (bind_io m f w)) = trace w @ evs \<and> list_all P evs"
  proof (cases r)
    case (Inl e)
    with mw e1 show ?thesis by (auto simp: bind_io_def)
  next
    case (Inr a)
    from assms(2) [of a] obtain evs2 where "trace (snd (f a w1)) = trace w1 @ evs2" "list_all P evs2"
      unfolding adds_only_def by blast
    with Inr mw e1 show ?thesis by (auto simp: bind_io_def)
  qed
qed

lemma adds_only_catch:
  assumes "adds_only P m" "\<And>e. adds_only P (h e)"
  shows "adds_only P (catch_io m h)"
  unfolding adds_only_def
proof
  fix w
  obtain r w1 where mw: "m w = (r, w1)" by (cases "m w")
  from assms(1) obtain evs where e1: "trace w1 = trace w @ evs" "list_all P evs"
    unfolding adds_only_def using mw by (metis snd_conv)
  show "\<exists>evs. trace (snd (catch_io m h w)) = trace w @ evs \<and> list_all P evs"
  proof (cases r)
    case (Inr a)
    with mw e1 show ?thesis by (auto simp: catch_io_def)
  next
    case (Inl e)
    from assms(2) [of e] obtain evs2 where "trace (snd (h e w1)) = trace w1 @ evs2" "list_all P evs2"
      unfolding adds_only_def by blast
    with Inl mw e1 show ?thesis by (auto simp: catch_io_def)
  qed
qed

lemma adds_only_prod: "(\<And>a b. adds_only P (f a b)) \<Longrightarrow> adds_only P (case_prod f x)"
  by (cases x) simp

lemma adds_only_if:
  "(c \<Longrightarrow> adds_only P a) \<Longrightarrow> (\<not> c \<Longrightarrow> adds_only P b) \<Longrightarrow> adds_only P (if c then a else b)"
  by simp

lemma adds_only_option:
  "(x = None \<Longrightarrow> adds_only P a) \<Longrightarrow> (\<And>v. x = Some v \<Longrightarrow> adds_only P (b v)) \<Longrightarrow>
   adds_only P (case x of None \<Rightarrow> a | Some v \<Rightarrow> b v)"
  by (cases x) simp_all

lemma adds_only_let: "adds_only P (f v) \<Longrightarrow> adds_only P (Let v f)"
  by simp

lemma adds_only_one:
  assumes "\<And>w. \<exists>r w'. m w = (r, w'\<lparr>trace := trace w @ [e]\<rparr>)" "P e"
  shows "adds_only P m"
  unfolding adds_only_def
proof
  fix w
  from assms(1) [of w] obtain r w' where "m w = (r, w'\<lparr>trace := trace w @ [e]\<rparr>)" by blast
  with assms(2) show "\<exists>evs. trace (snd (m w)) = trace w @ evs \<and> list_all P evs"
    by (intro exI [of _ "[e]"]) simp
qed

lemma adds_only_console_log: "P (ConsoleLog s) \<Longrightarrow> adds_only P (console_log s)"
  by (rule adds_only_one [where e = "ConsoleLog s"]) (auto simp: console_log_def emit_def)

lemma adds_only_console_error: "P (ConsoleError s) \<Longrightarrow> adds_only P (console_error s)"
  by (rule adds_only_one [where e = "ConsoleError s"]) (auto simp: console_error_def emit_def)

lemma adds_only_Date_now: "adds_only P (Date_now_io env)"
  by (simp add: adds_only_def Date_now_io_def)

lemma adds_only_access: "adds_only P (fs_access env p)"
  by (simp add: adds_only_def fs_access_def)

lemma adds_only_writeFile: "P (WriteFile p c) \<Longrightarrow> adds_only P (fs_writeFile env p c)"
  by (rule adds_only_one [where e = "WriteFile p c"])
     (auto simp: fs_writeFile_def emit_def split: option.splits intro: exI [of _ "w\<lparr>files := X\<rparr>" for w X])


lemma adds_only_unlink: "P (Unlink p) \<Longrightarrow> adds_only P (fs_unlink env p)"
  by (auto simp: adds_only_def fs_unlink_def emit_def split: option.splits)

lemma adds_only_copyFile: "P (CopyFile src dst) \<Longrightarrow> adds_only P (fs_copyFile env src dst)"
  by (auto simp: adds_only_def fs_copyFile_def emit_def split: option.splits)

lemma adds_only_mkdir: "P (Mkdir p) \<Longrightarrow> adds_only P (fs_mkdir env p)"
  by (auto simp: adds_only_def fs_mkdir_def emit_def split: option.splits)

lemma adds_only_exec: "P (Exec cmd) \<Longrightarrow> adds_only P (execAsync env cmd)"
  by (auto simp: adds_only_def execAsync_def emit_def Let_def split: option.splits)

lemma adds_only_Jimp_read: "P (JimpRead p) \<Longrightarrow> adds_only P (Jimp_read env p)"
  by (auto simp: adds_only_def Jimp_read_def emit_def split: option.splits)

lemma adds_only_Jimp_write: "P (JimpWrite p q) \<Longrightarrow> adds_only P (Jimp_write env p q)"
  by (auto simp: adds_only_def Jimp_write_def emit_def split: option.splits)

lemma adds_only_unlink_quiet: "P (Unlink p) \<Longrightarrow> adds_only P (unlink_quiet env p)"
  unfolding unlink_quiet_def by (intro adds_only_catch adds_only_unlink adds_only_ret)

lemma adds_only_detectPlatform: "adds_only P (detectPlatform env)"
  unfolding detectPlatform_def Let_def
  by (intro adds_only_if adds_only_catch adds_only_bind adds_only_access adds_only_ret)

lemma adds_only_tempPaths: "adds_only P (tempPaths env platform name ext)"
  unfolding tempPaths_def Let_def
  by (intro adds_only_if adds_only_catch adds_only_bind adds_only_access adds_only_Date_now
      adds_only_ret)

lemma adds_only_getScreenInfo:
  assumes "\<And>e. housekeeping e \<Longrightarrow> P e"
  shows "adds_only P (getScreenInfo env)"
  unfolding getScreenInfo_def getScreenInfo_windows_def getScreenInfo_darwin_def
    getScreenInfo_linux_def
  by (intro adds_only_bind adds_only_detectPlatform adds_only_if adds_only_tempPaths
      adds_only_prod adds_only_catch adds_only_writeFile adds_only_exec adds_only_console_error
      adds_only_unlink_quiet adds_only_option adds_only_ret adds_only_throw assms) simp_all

lemma adds_only_captureScreen:
  assumes "\<And>e. housekeeping e \<Longrightarrow> P e"
  shows "adds_only P (captureScreen env monitor)"
  unfolding captureScreen_def captureScreen_windows_def
  by (intro adds_only_bind adds_only_detectPlatform adds_only_if adds_only_tempPaths
      adds_only_prod adds_only_catch adds_only_writeFile adds_only_exec adds_only_console_error
      adds_only_unlink_quiet adds_only_option adds_only_access adds_only_ret adds_only_throw assms)
     simp_all

lemma adds_only_convertImage:
  assumes "P (JimpRead inputPath)" "\<And>q. P (JimpWrite outputPath q)"
  shows "adds_only P (convertImage env inputPath outputPath format quality)"
  unfolding convertImage_def
  by (intro adds_only_catch adds_only_bind adds_only_if adds_only_Jimp_read adds_only_Jimp_write
      adds_only_throw assms)

lemma adds_only_placeImage:
  assumes "P (Unlink screenshot)"
    and "format = ''png'' \<Longrightarrow> P (CopyFile screenshot output)"
    and "format \<noteq> ''png'' \<Longrightarrow> P (JimpRead screenshot)"
    and "\<And>q. format \<noteq> ''png'' \<Longrightarrow> P (JimpWrite output q)"
  shows "adds_only P (placeImage env screenshot output format quality)"
  unfolding placeImage_def
  by (intro adds_only_if adds_only_bind adds_only_convertImage adds_only_copyFile
      adds_only_unlink assms) simp_all

lemma adds_only_log_files: "(\<And>s. P (ConsoleLog s)) \<Longrightarrow> adds_only P (log_files fs)"
  by (induction fs) (auto intro!: adds_only_ret adds_only_bind adds_only_console_log)

lemma adds_only_report: "(\<And>s. P (ConsoleLog s)) \<Longrightarrow> adds_only P (report fs)"
  unfolding report_def
  by (intro adds_only_bind adds_only_console_log adds_only_log_files adds_only_ret)

text \<open>What a run may add to the trace when it places images of format \<open>format\<close> under the
  names \<open>good\<close>.\<close>

lemma adds_only_captureDisplay:
  assumes "\<And>e. housekeeping e \<Longrightarrow> P e"
    and "\<And>src. format = ''png'' \<Longrightarrow> P (CopyFile src (displayOutput env outputDir format ts m))"
    and "\<And>src. format \<noteq> ''png'' \<Longrightarrow> P (JimpRead src)"
    and "\<And>q. format \<noteq> ''png'' \<Longrightarrow> P (JimpWrite (displayOutput env outputDir format ts m) q)"
  shows "adds_only P (captureDisplay env outputDir format quality ts m screenshots)"
  unfolding captureDisplay_def Let_def
  by (intro adds_only_catch adds_only_bind adds_only_captureScreen adds_only_placeImage
      adds_only_console_log adds_only_console_error adds_only_ret assms) simp_all

lemma adds_only_captureDisplays:
  assumes "\<And>e. housekeeping e \<Longrightarrow> P e"
    and "\<And>src m. format = ''png'' \<Longrightarrow> P (CopyFile src (displayOutput env outputDir format ts m))"
    and "\<And>src. format \<noteq> ''png'' \<Longrightarrow> P (JimpRead src)"
    and "\<And>q m. format \<noteq> ''png'' \<Longrightarrow> P (JimpWrite (displayOutput env outputDir format ts m) q)"
  shows "adds_only P (captureDisplays env outputDir format quality ts ms screenshots)"
proof (induction ms arbitrary: screenshots)
  case Nil
  show ?case by (simp add: adds_only_ret)
next
  case (Cons m ms)
  show ?case
    unfolding captureDisplays.simps
    by (intro adds_only_bind adds_only_captureDisplay assms Cons.IH)
qed


lemma adds_only_singleDisplay:
  assumes "\<And>e. housekeeping e \<Longrightarrow> P e"
    and "\<And>src m. format = ''png'' \<Longrightarrow> P (CopyFile src (displayOutput env outputDir format ts m))"
    and "\<And>src. format \<noteq> ''png'' \<Longrightarrow> P (JimpRead src)"
    and "\<And>q m. format \<noteq> ''png'' \<Longrightarrow> P (JimpWrite (displayOutput env outputDir format ts m) q)"
  shows "adds_only P (singleDisplay env outputDir format quality ts displayNumber monitors)"
  unfolding singleDisplay_def Let_def
  by (intro adds_only_if adds_only_bind adds_only_console_error adds_only_console_log
      adds_only_captureScreen adds_only_option adds_only_throw adds_only_placeImage
      adds_only_report adds_only_ret assms) simp_all

lemma adds_only_allDisplays:
  assumes "\<And>e. housekeeping e \<Longrightarrow> P e"
    and "\<And>src m. format = ''png'' \<Longrightarrow> P (CopyFile src (displayOutput env outputDir format ts m))"
    and "\<And>src. format = ''png'' \<Longrightarrow>
           P (CopyFile src (path_join env outputDir (generateFilename ''DesktopImage'' format ts)))"
    and "\<And>src. format \<noteq> ''png'' \<Longrightarrow> P (JimpRead src)"
    and "\<And>q m. format \<noteq> ''png'' \<Longrightarrow> P (JimpWrite (displayOutput env outputDir format ts m) q)"
    and "\<And>q. format \<noteq> ''png'' \<Longrightarrow>
           P (JimpWrite (path_join env outputDir (generateFilename ''DesktopImage'' format ts)) q)"
  shows "adds_only P (allDisplays env outputDir format quality ts monitors)"
  unfolding allDisplays_def Let_def
  by (intro adds_only_if adds_only_bind adds_only_console_log adds_only_captureScreen
      adds_only_placeImage adds_only_captureDisplays adds_only_report adds_only_ret assms)
     simp_all

lemma displayOutput_image_name:
  "displayOutput env (outputDir_of env args) (arg_format args) (getTimestamp env w) m =
   image_name env args w (Some m)"
  by (simp add: displayOutput_def image_name_def target_prefix_def)

lemma desktop_image_name:
  "path_join env (outputDir_of env args)
     (generateFilename ''DesktopImage'' (arg_format args) (getTimestamp env w)) =
   image_name env args w None"
  by (simp add: image_name_def target_prefix_def)

lemma adds_only_main_body:
  assumes "\<And>e. housekeeping e \<Longrightarrow> P e"
    and "\<And>src m. fmt = ''png'' \<Longrightarrow> P (CopyFile src (displayOutput env dir fmt ts m))"
    and "\<And>src. fmt = ''png'' \<Longrightarrow>
           P (CopyFile src (path_join env dir (generateFilename ''DesktopImage'' fmt ts)))"
    and "\<And>src. fmt \<noteq> ''png'' \<Longrightarrow> P (JimpRead src)"
    and "\<And>q m. fmt \<noteq> ''png'' \<Longrightarrow> P (JimpWrite (displayOutput env dir fmt ts m) q)"
    and "\<And>q. fmt \<noteq> ''png'' \<Longrightarrow>
           P (JimpWrite (path_join env dir (generateFilename ''DesktopImage'' fmt ts)) q)"
  shows "adds_only P
           (bind_io (fs_mkdir env dir) (\<lambda>_.
            bind_io (getScreenInfo env) (\<lambda>monitors.
            if d \<noteq> Undefined
            then singleDisplay env dir fmt quality ts d monitors
            else allDisplays env dir fmt quality ts monitors)))"
  by (intro adds_only_bind adds_only_mkdir adds_only_getScreenInfo adds_only_if
      adds_only_singleDisplay adds_only_allDisplays assms) simp_all

lemma main_new_events:
  assumes "\<And>e. housekeeping e \<Longrightarrow> P e"
    and "\<And>src m. arg_format args = ''png'' \<Longrightarrow> P (CopyFile src (image_name env args w (Some m)))"
    and "\<And>src. arg_format args = ''png'' \<Longrightarrow> P (CopyFile src (image_name env args w None))"
    and "\<And>src. arg_format args \<noteq> ''png'' \<Longrightarrow> P (JimpRead src)"
    and "\<And>q m. arg_format args \<noteq> ''png'' \<Longrightarrow> P (JimpWrite (image_name env args w (Some m)) q)"
    and "\<And>q. arg_format args \<noteq> ''png'' \<Longrightarrow> P (JimpWrite (image_name env args w None) q)"
  shows "list_all P (new_events w (snd (main env args w)))"
proof -
  have "adds_only P
           (bind_io (fs_mkdir env (outputDir_of env args)) (\<lambda>_.
            bind_io (getScreenInfo env) (\<lambda>monitors.
            if arg_display args \<noteq> Undefined
            then singleDisplay env (outputDir_of env args) (arg_format args) (arg_quality args)
                   (getTimestamp env w) (arg_display args) monitors
            else allDisplays env (outputDir_of env args) (arg_format args) (arg_quality args)
                   (getTimestamp env w) monitors)))"
  proof (rule adds_only_main_body)
    show "housekeeping e \<Longrightarrow> P e" for e by (rule assms(1))
    show "P (CopyFile src (displayOutput env (outputDir_of env args) (arg_format args)
                (getTimestamp env w) m))" if "arg_format args = ''png''" for src m
      unfolding displayOutput_image_name using that by (rule assms(2))
    show "P (CopyFile src (path_join env (outputDir_of env args)
                (generateFilename ''DesktopImage'' (arg_format args) (getTimestamp env w))))"
      if "arg_format args = ''png''" for src
      unfolding desktop_image_name using that by (rule assms(3))
    show "P (JimpRead src)" if "arg_format args \<noteq> ''png''" for src
      using that by (rule assms(4))
    show "P (JimpWrite (displayOutput env (outputDir_of env args) (arg_format args)
                (getTimestamp env w) m) q)" if "arg_format args \<noteq> ''png''" for q m
      unfolding displayOutput_image_name using that by (rule assms(5))
    show "P (JimpWrite (path_join env (outputDir_of env args)
                (generateFilename ''DesktopImage'' (arg_format args) (getTimestamp env w))) q)"
      if "arg_format args \<noteq> ''png''" for q
      unfolding desktop_image_name using that by (rule assms(6))
  qed
  then obtain evs where evs: "trace (snd (main_try env args w)) = trace w @ evs" "list_all P evs"
    unfolding adds_only_def main_try_def Let_def by blast
  have ce: "P (ConsoleError s)" for s by (rule assms(1)) simp
  obtain r w1 where r: "main_try env args w = (r, w1)" by (cases "main_try env args w")
  show ?thesis
  proof (cases r)
    case (Inl message)
    with r evs ce show ?thesis
      by (simp add: main_def new_events_def emit_def)
  next
    case (Inr code)
    with r evs show ?thesis
      by (simp add: main_def new_events_def)
  qed
qed

lemma any_placeImage: "adds_only (\<lambda>e. True) (placeImage env shot out fmt q)"
  by (rule adds_only_placeImage) simp_all

lemma any_captureDisplays: "adds_only (\<lambda>e. True) (captureDisplays env dir fmt q ts ms s)"
  by (rule adds_only_captureDisplays) simp_all

lemma any_report: "adds_only (\<lambda>e. True) (report fs)"
  by (rule adds_only_report) simp

lemma any_console_log: "adds_only (\<lambda>e. True) (console_log s)"
  by (rule adds_only_console_log) simp

lemma any_console_error: "adds_only (\<lambda>e. True) (console_error s)"
  by (rule adds_only_console_error) simp

subsection \<open>Where a run captures an image\<close>

lemma bind_io_assoc: "bind_io (bind_io m f) g = bind_io m (\<lambda>a. bind_io (f a) g)"
  by (rule ext) (simp add: bind_io_def split: prod.splits sum.splits)

lemma bind_io_ret: "bind_io (ret a) f = f a"
  by (rule ext) (simp add: bind_io_def ret_def)

lemma captureDisplays_split:
  "j < length ms \<Longrightarrow>
   captureDisplays env dir fmt q ts ms s =
     bind_io (captureDisplays env dir fmt q ts (take j ms) s) (\<lambda>s1.
     bind_io (captureDisplay env dir fmt q ts (ms ! j) s1)
       (captureDisplays env dir fmt q ts (drop (Suc j) ms)))"
proof (induction ms arbitrary: j s)
  case Nil
  then show ?case by simp
next
  case (Cons m ms)
  show ?case
  proof (cases j)
    case 0
    then show ?thesis by (simp add: bind_io_ret)
  next
    case (Suc i)
    with Cons.prems have "i < length ms" by simp
    then have "captureDisplays env dir fmt q ts ms =
        (\<lambda>s. bind_io (captureDisplays env dir fmt q ts (take i ms) s) (\<lambda>s1.
              bind_io (captureDisplay env dir fmt q ts (ms ! i) s1)
                (captureDisplays env dir fmt q ts (drop (Suc i) ms))))"
      using Cons.IH by blast
    then have "bind_io (captureDisplay env dir fmt q ts m s) (captureDisplays env dir fmt q ts ms) =
        bind_io (captureDisplay env dir fmt q ts m s)
          (\<lambda>s. bind_io (captureDisplays env dir fmt q ts (take i ms) s) (\<lambda>s1.
              bind_io (captureDisplay env dir fmt q ts (ms ! i) s1)
                (captureDisplays env dir fmt q ts (drop (Suc i) ms))))"
      by simp
    with Suc show ?thesis
      by (simp add: bind_io_assoc)
  qed
qed

lemma adds_only_extends: "adds_only P m \<Longrightarrow> \<exists>rest. trace (snd (m w)) = trace w @ rest"
  unfolding adds_only_def by blast

lemma bind_extends:
  assumes "\<And>a. adds_only P (k a)"
  shows "\<exists>rest. trace (snd (bind_io m k w)) = trace (snd (m w)) @ rest"
proof -
  obtain r w1 where mw: "m w = (r, w1)" by (cases "m w")
  show ?thesis
  proof (cases r)
    case (Inl e)
    with mw show ?thesis by (simp add: bind_io_def)
  next
    case (Inr a)
    with mw adds_only_extends [OF assms, of a w1] show ?thesis by (simp add: bind_io_def)
  qed
qed

lemma catch_extends:
  assumes "\<And>e. adds_only P (h e)"
  shows "\<exists>rest. trace (snd (catch_io m h w)) = trace (snd (m w)) @ rest"
proof -
  obtain r w1 where mw: "m w = (r, w1)" by (cases "m w")
  show ?thesis
  proof (cases r)
    case (Inr a)
    with mw show ?thesis by (simp add: catch_io_def)
  next
    case (Inl e)
    with mw adds_only_extends [OF assms, of e w1] show ?thesis by (simp add: catch_io_def)
  qed
qed

lemma main_extends:
  "\<exists>rest. trace (snd (main env args w)) = trace (snd (main_try env args w)) @ rest"
  by (auto simp: main_def emit_def split: prod.splits sum.splits)

lemma catch_bind_Inr:
  "m w = (Inr a, w1) \<Longrightarrow> catch_io (bind_io m f) h w = catch_io (f a) h w1"
  by (simp add: catch_io_def bind_io_def)

lemma catch_bind_Inl:
  "m w = (Inl e, w1) \<Longrightarrow> catch_io (bind_io m f) h w = h e w1"
  by (simp add: catch_io_def bind_io_def)

lemma display_site_run:
  assumes "fs_mkdir env (outputDir_of env args) w = (Inr (), w1)"
    and "getScreenInfo env w1 = (Inr monitors, w2)"
    and "arg_display args \<noteq> Undefined"
    and "\<not> js_lt (arg_display args) (Finite 1)"
    and "\<not> js_gt (arg_display args) (Finite (of_nat (length monitors)))"
    and "find (\<lambda>m. js_seq (Finite (of_nat (mon_index m))) (arg_display args)) monitors = Some m"
  shows "main_try env args w =
     bind_io (captureScreen env (Some m)) (\<lambda>shot.
     bind_io (placeImage env shot (image_name env args w (Some m)) (arg_format args) (arg_quality args)) (\<lambda>_.
     bind_io (console_log (check_mark @ '' Display '' @ String_nat (mon_index m) @
                           '' screenshot saved: '' @ image_name env args w (Some m))) (\<lambda>_.
     report [image_name env args w (Some m)])))
     (emit (ConsoleLog (''Capturing display '' @ js_tostring env (arg_display args) @ ''...'')) w2)"
  using assms
  by (simp add: main_try_def singleDisplay_def Let_def displayOutput_image_name
      bind_io_Inr [where m = "fs_mkdir env (outputDir_of env args)"]
      bind_io_Inr [where m = "getScreenInfo env"]
      bind_io_Inr [where m = "console_log s" for s] console_log_def)

lemma desktop_site_run:
  assumes "fs_mkdir env (outputDir_of env args) w = (Inr (), w1)"
    and "getScreenInfo env w1 = (Inr monitors, w2)"
    and "arg_display args = Undefined"
  shows "main_try env args w =
     bind_io (captureScreen env None) (\<lambda>shot.
     bind_io (placeImage env shot (image_name env args w None) (arg_format args) (arg_quality args)) (\<lambda>_.
     bind_io (console_log (check_mark @ '' Main desktop screenshot saved: '' @ image_name env args w None)) (\<lambda>_.
     bind_io (if monitors \<noteq> [] then
                bind_io (console_log (''Capturing '' @ String_nat (length monitors) @
                                      '' individual displays...'')) (\<lambda>_.
                captureDisplays env (outputDir_of env args) (arg_format args) (arg_quality args)
                  (getTimestamp env w) monitors [image_name env args w None])
              else ret [image_name env args w None]) report)))
     (emit (ConsoleLog ''Capturing desktop screenshot...'') w2)"
  using assms
  by (simp add: main_try_def allDisplays_def Let_def desktop_image_name
      bind_io_Inr [where m = "fs_mkdir env (outputDir_of env args)"]
      bind_io_Inr [where m = "getScreenInfo env"]
      bind_io_Inr [where m = "console_log s" for s] console_log_def)

lemma monitor_site_run:
  assumes "fs_mkdir env (outputDir_of env args) w = (Inr (), w1)"
    and "getScreenInfo env w1 = (Inr monitors, w2)"
    and "arg_display args = Undefined"
    and "captureScreen env None (emit (ConsoleLog ''Capturing desktop screenshot...'') w2) =
           (Inr mainScreenshot, w3)"
    and "placeImage env mainScreenshot (image_name env args w None) (arg_format args)
           (arg_quality args) w3 = (Inr (), w4)"
    and "j < length monitors"
    and "captureDisplays env (outputDir_of env args) (arg_format args) (arg_quality args)
           (getTimestamp env w) (take j monitors) [image_name env args w None]
           (emit (ConsoleLog (''Capturing '' @ String_nat (length monitors) @ '' individual displays...''))
              (emit (ConsoleLog (check_mark @ '' Main desktop screenshot saved: '' @
                                 image_name env args w None)) w4)) = (Inr shots, W0)"
  shows "main_try env args w =
     bind_io (captureDisplay env (outputDir_of env args) (arg_format args) (arg_quality args)
                (getTimestamp env w) (monitors ! j) shots) (\<lambda>s.
     bind_io (captureDisplays env (outputDir_of env args) (arg_format args) (arg_quality args)
                (getTimestamp env w) (drop (Suc j) monitors) s) report) W0"
proof -
  let ?dir = "outputDir_of env args" and ?fmt = "arg_format args" and ?q = "arg_quality args"
  let ?ts = "getTimestamp env w"
  let ?w5 = "emit (ConsoleLog (''Capturing '' @ String_nat (length monitors) @ '' individual displays...''))
              (emit (ConsoleLog (check_mark @ '' Main desktop screenshot saved: '' @
                                 image_name env args w None)) w4)"
  from assms(6) have ne: "monitors \<noteq> []" by auto
  have "main_try env args w =
          bind_io (captureDisplays env ?dir ?fmt ?q ?ts monitors [image_name env args w None]) report ?w5"
    using assms(1-5) ne
    by (simp add: desktop_site_run [OF assms(1-3)] bind_io_Inr [where m = "captureScreen env None"]
        bind_io_Inr [where m = "placeImage env mainScreenshot (image_name env args w None)
           (arg_format args) (arg_quality args)"]
        bind_io_Inr [where m = "console_log s" for s] console_log_def bind_io_assoc)
  also have "\<dots> = bind_io (captureDisplays env ?dir ?fmt ?q ?ts (take j monitors) [image_name env args w None])
            (\<lambda>s1. bind_io (bind_io (captureDisplay env ?dir ?fmt ?q ?ts (monitors ! j) s1)
                       (captureDisplays env ?dir ?fmt ?q ?ts (drop (Suc j) monitors))) report) ?w5"
    by (simp add: captureDisplays_split [OF assms(6), of env ?dir ?fmt ?q ?ts] bind_io_assoc)
  also have "\<dots> = bind_io (bind_io (captureDisplay env ?dir ?fmt ?q ?ts (monitors ! j) shots)
                       (captureDisplays env ?dir ?fmt ?q ?ts (drop (Suc j) monitors))) report W0"
    using assms(7) by (rule bind_io_Inr)
  finally show ?thesis by (simp add: bind_io_assoc)
qed

lemma site_places:
  assumes "capture_site env args w target W0" and "captureScreen env target W0 = (Inr shot, W1)"
  shows "\<exists>rest. trace (snd (main env args w)) =
           trace (snd (placeImage env shot (image_name env args w target) (arg_format args)
                         (arg_quality args) W1)) @ rest"
proof -
  let ?place = "placeImage env shot (image_name env args w target) (arg_format args) (arg_quality args)"
  have "\<exists>rest. trace (snd (main_try env args w)) = trace (snd (?place W1)) @ rest"
    using assms(1)
  proof cases
    case (display_site w1 monitors w2 m)
    let ?K = "\<lambda>_::unit. bind_io (console_log (check_mark @ '' Display '' @ String_nat (mon_index m) @
                           '' screenshot saved: '' @ image_name env args w (Some m))) (\<lambda>_.
                 report [image_name env args w (Some m)])"
    have "main_try env args w = bind_io ?place ?K W1"
      using display_site assms(2)
      by (simp add: display_site_run [OF display_site(3-8)]
          bind_io_Inr [where m = "captureScreen env (Some m)"])
    moreover have "adds_only (\<lambda>e. True) (?K a)" for a
      by (intro adds_only_bind any_console_log any_report)
    ultimately show ?thesis
      using bind_extends [of "\<lambda>e. True" ?K ?place W1] by simp
  next
    case (desktop_site w1 monitors w2)
    let ?K = "\<lambda>_::unit.
       bind_io (console_log (check_mark @ '' Main desktop screenshot saved: '' @ image_name env args w None)) (\<lambda>_.
       bind_io (if monitors \<noteq> [] then
                bind_io (console_log (''Capturing '' @ String_nat (length monitors) @
                                      '' individual displays...'')) (\<lambda>_.
                captureDisplays env (outputDir_of env args) (arg_format args) (arg_quality args)
                  (getTimestamp env w) monitors [image_name env args w None])
              else ret [image_name env args w None]) report)"
    have "main_try env args w = bind_io ?place ?K W1"
      using desktop_site assms(2)
      by (simp add: desktop_site_run [OF desktop_site(3-5)]
          bind_io_Inr [where m = "captureScreen env None"])
    moreover have "adds_only (\<lambda>e. True) (?K a)" for a
      by (intro adds_only_bind adds_only_if any_console_log any_report any_captureDisplays
          adds_only_ret)
    ultimately show ?thesis
      using bind_extends [of "\<lambda>e. True" ?K ?place W1] by simp
  next
    case (monitor_site w1 monitors w2 mainScreenshot w3 w4 j shots)
    let ?m = "monitors ! j"
    let ?K = "\<lambda>_::unit.
        bind_io (console_log (check_mark @ '' Display '' @ String_nat (mon_index ?m) @
                              '' screenshot saved: '' @ image_name env args w (Some ?m))) (\<lambda>_.
        ret (shots @ [image_name env args w (Some ?m)]))"
    let ?H = "\<lambda>message.
        bind_io (console_error (cross_mark @ '' Failed to capture display '' @
                                String_nat (mon_index ?m) @ '': '' @ message)) (\<lambda>_.
        ret shots)"
    let ?K2 = "\<lambda>s. bind_io (captureDisplays env (outputDir_of env args) (arg_format args) (arg_quality args)
                (getTimestamp env w) (drop (Suc j) monitors) s) report"
    have "main_try env args w = bind_io (catch_io (bind_io ?place ?K) ?H) ?K2 W1"
      using assms(2) monitor_site(1)
      by (simp add: monitor_site_run [OF monitor_site(2-8)] captureDisplay_def Let_def
          displayOutput_image_name bind_io_def catch_io_def)
    moreover have "adds_only (\<lambda>e. True) (?K a)" for a
      by (intro adds_only_bind any_console_log adds_only_ret)
    moreover have "adds_only (\<lambda>e. True) (?H e)" for e
      by (intro adds_only_bind any_console_error adds_only_ret)
    moreover have "adds_only (\<lambda>e. True) (?K2 s)" for s
      by (intro adds_only_bind any_captureDisplays any_report)
    ultimately show ?thesis
      using bind_extends [of "\<lambda>e. True" ?K2 "catch_io (bind_io ?place ?K) ?H" W1]
        catch_extends [of "\<lambda>e. True" ?H "bind_io ?place ?K" W1]
        bind_extends [of "\<lambda>e. True" ?K ?place W1]
      by auto
  qed
  with main_extends [of env args w] show ?thesis by auto
qed

subsection \<open>Placing and naming the outputs\<close>

lemma placeImage_png_trace:
  "\<exists>rest. trace (snd (placeImage env shot out ''png'' q w)) = trace w @ CopyFile shot out # rest"
  by (auto simp: placeImage_def bind_io_def fs_copyFile_def fs_unlink_def emit_def
      split: option.splits)

lemma placeImage_convert_trace:
  assumes "fmt \<noteq> ''png''"
  shows "\<exists>rest. trace (snd (placeImage env shot out fmt q w)) = trace w @ JimpRead shot # rest \<and>
     (fst (Jimp_read env shot w) = Inr () \<longrightarrow>
        (\<exists>rest'. rest = JimpWrite out (if fmt = ''jpg'' \<or> fmt = ''jpeg'' then Some q else None) # rest'))"
  using assms
  by (auto simp: placeImage_def bind_io_def convertImage_def catch_io_def throw_def Jimp_read_def
      Jimp_write_def fs_unlink_def emit_def split: option.splits)


lemma padStart2_two_digits: "n < 100 \<Longrightarrow> padStart2 (String_nat n) = two_digits n"
proof (cases "n < 10")
  case True
  then show ?thesis
    by (simp add: String_nat.simps padStart2_def two_digits_def digit_char_def)
next
  case False
  assume "n < 100"
  with False have "n div 10 < 10" by simp
  with False show ?thesis
    by (simp add: String_nat.simps [of n] String_nat.simps [of "n div 10"] padStart2_def two_digits_def)
qed

lemma length_String_nat_four: "1000 \<le> n \<Longrightarrow> n < 10000 \<Longrightarrow> length (String_nat n) = 4"
proof -
  assume a: "1000 \<le> n" "n < 10000"
  then have "10 \<le> n" "10 \<le> n div 10" "10 \<le> n div 10 div 10" "\<not> 10 \<le> n div 10 div 10 div 10"
    by simp_all
  then show ?thesis
    by (simp add: String_nat.simps [of n] String_nat.simps [of "n div 10"]
        String_nat.simps [of "n div 10 div 10"] String_nat.simps [of "n div 10 div 10 div 10"])
qed

lemma four_digit_year:
  "1000 \<le> y \<Longrightarrow> y \<le> 9999 \<Longrightarrow> length (String_int y) = 4"
  by (simp add: String_int_def length_String_nat_four)

text \<open>
  C7. The name of an output depends on the prefix, the timestamp and the format only, and
  has the shape \<open>{prefix}_{year}-{MM}-{DD}_{HH}-{MM}-{SS}.{format}\<close>, the five fields after
  the year being two decimal digits each and the year four digits from 1000 to 9999. Every
  file a run places, by a copy or by the codec, is named in the output directory by this
  function, with the timestamp of the world in which the run started. Wherever a run calls
  \<open>captureScreen\<close> for an image it goes on to place and the capture succeeds, the file placed
  next is the one named for that very target, \<open>DesktopImage\<close> for the whole desktop and
  \<open>DisplayImage{index}\<close> for a monitor, still with the timestamp read at the start, whatever
  the clock says in the world of the capture.
\<close>

theorem output_names:
  "(calendar (new_Date env w) \<longrightarrow>
      generateFilename prefix format (getTimestamp env w) =
        prefix @ ''_'' @ String_int (getFullYear (new_Date env w)) @ ''-'' @
        two_digits (getMonth (new_Date env w) + 1) @ ''-'' @ two_digits (getDate (new_Date env w)) @
        ''_'' @ two_digits (getHours (new_Date env w)) @ ''-'' @
        two_digits (getMinutes (new_Date env w)) @ ''-'' @ two_digits (getSeconds (new_Date env w)) @
        ''.'' @ format) \<and>
   (1000 \<le> getFullYear (new_Date env w) \<and> getFullYear (new_Date env w) \<le> 9999 \<longrightarrow>
      length (String_int (getFullYear (new_Date env w))) = 4) \<and>
   list_all (\<lambda>e. \<forall>p. output_of e = Some p \<longrightarrow>
               (\<exists>prefix. image_prefix prefix \<and>
                  p = path_join env (outputDir_of env args)
                        (generateFilename prefix (arg_format args) (getTimestamp env w))))
     (new_events w (snd (main env args w))) \<and>
   (capture_site env args w target W0 \<and> captureScreen env target W0 = (Inr shot, W1) \<longrightarrow>
      (arg_format args = ''png'' \<longrightarrow>
         (\<exists>rest. new_events W1 (snd (main env args w)) =
            CopyFile shot
              (path_join env (outputDir_of env args)
                 (generateFilename
                    (case target of None \<Rightarrow> ''DesktopImage''
                     | Some m \<Rightarrow> ''DisplayImage'' @ String_nat (mon_index m))
                    (arg_format args) (getTimestamp env w))) # rest)) \<and>
      (arg_format args \<noteq> ''png'' \<longrightarrow>
         (\<exists>rest. new_events W1 (snd (main env args w)) = JimpRead shot # rest \<and>
            (fst (Jimp_read env shot W1) = Inr () \<longrightarrow>
               (\<exists>quality rest'. rest =
                  JimpWrite
                    (path_join env (outputDir_of env args)
                       (generateFilename
                          (case target of None \<Rightarrow> ''DesktopImage''
                           | Some m \<Rightarrow> ''DisplayImage'' @ String_nat (mon_index m))
                          (arg_format args) (getTimestamp env w))) quality # rest')))))"
proof (intro conjI impI)
  assume "calendar (new_Date env w)"
  then show "generateFilename prefix format (getTimestamp env w) =
        prefix @ ''_'' @ String_int (getFullYear (new_Date env w)) @ ''-'' @
        two_digits (getMonth (new_Date env w) + 1) @ ''-'' @ two_digits (getDate (new_Date env w)) @
        ''_'' @ two_digits (getHours (new_Date env w)) @ ''-'' @
        two_digits (getMinutes (new_Date env w)) @ ''-'' @ two_digits (getSeconds (new_Date env w)) @
        ''.'' @ format"
    by (simp add: generateFilename_def getTimestamp_def calendar_def padStart2_two_digits Let_def)
next
  assume "1000 \<le> getFullYear (new_Date env w) \<and> getFullYear (new_Date env w) \<le> 9999"
  then show "length (String_int (getFullYear (new_Date env w))) = 4"
    by (simp add: four_digit_year)
next
  let ?P = "\<lambda>e. \<forall>p. output_of e = Some p \<longrightarrow>
               (\<exists>prefix. image_prefix prefix \<and>
                  p = path_join env (outputDir_of env args)
                        (generateFilename prefix (arg_format args) (getTimestamp env w)))"
  have desktop: "image_prefix ''DesktopImage''" by (simp add: image_prefix_def)
  have display: "image_prefix (''DisplayImage'' @ String_nat i)" for i
    by (auto simp: image_prefix_def)
  show "list_all ?P (new_events w (snd (main env args w)))"
  proof (rule main_new_events)
    fix e show "housekeeping e \<Longrightarrow> ?P e" by (cases e) simp_all
  qed (use desktop display in \<open>auto simp: image_name_def target_prefix_def\<close>)
next
  assume site: "capture_site env args w target W0 \<and> captureScreen env target W0 = (Inr shot, W1)"
    and png: "arg_format args = ''png''"
  let ?name = "path_join env (outputDir_of env args)
                 (generateFilename
                    (case target of None \<Rightarrow> ''DesktopImage''
                     | Some m \<Rightarrow> ''DisplayImage'' @ String_nat (mon_index m))
                    (arg_format args) (getTimestamp env w))"
  have name: "image_name env args w target = ?name"
    by (simp add: image_name_def target_prefix_def)
  let ?place = "placeImage env shot (image_name env args w target) (arg_format args) (arg_quality args)"
  from site site_places obtain rest where
    r: "trace (snd (main env args w)) = trace (snd (?place W1)) @ rest" by blast
  from placeImage_png_trace png obtain rest0 where
    "trace (snd (?place W1)) = trace W1 @ CopyFile shot (image_name env args w target) # rest0"
    by metis
  with r have "new_events W1 (snd (main env args w)) =
      CopyFile shot (image_name env args w target) # (rest0 @ rest)"
    by (simp add: new_events_def)
  then show "\<exists>rest. new_events W1 (snd (main env args w)) = CopyFile shot ?name # rest"
    unfolding name by blast
next
  assume site: "capture_site env args w target W0 \<and> captureScreen env target W0 = (Inr shot, W1)"
    and other: "arg_format args \<noteq> ''png''"
  let ?name = "path_join env (outputDir_of env args)
                 (generateFilename
                    (case target of None \<Rightarrow> ''DesktopImage''
                     | Some m \<Rightarrow> ''DisplayImage'' @ String_nat (mon_index m))
                    (arg_format args) (getTimestamp env w))"
  have name: "image_name env args w target = ?name"
    by (simp add: image_name_def target_prefix_def)
  let ?place = "placeImage env shot (image_name env args w target) (arg_format args) (arg_quality args)"
  from site site_places obtain rest where
    r: "trace (snd (main env args w)) = trace (snd (?place W1)) @ rest" by blast
  from placeImage_convert_trace [OF other] obtain rest0 where
    p: "trace (snd (?place W1)) = trace W1 @ JimpRead shot # rest0"
       "fst (Jimp_read env shot W1) = Inr () \<longrightarrow>
          (\<exists>rest'. rest0 = JimpWrite (image_name env args w target)
                      (if arg_format args = ''jpg'' \<or> arg_format args = ''jpeg''
                       then Some (arg_quality args) else None) # rest')"
    by blast
  from r p(1) have "new_events W1 (snd (main env args w)) = JimpRead shot # (rest0 @ rest)"
    by (simp add: new_events_def)
  moreover from p(2) have "fst (Jimp_read env shot W1) = Inr () \<longrightarrow>
      (\<exists>quality rest'. rest0 @ rest = JimpWrite ?name quality # rest')"
    unfolding name by auto
  ultimately show "\<exists>rest. new_events W1 (snd (main env args w)) = JimpRead shot # rest \<and>
            (fst (Jimp_read env shot W1) = Inr () \<longrightarrow>
               (\<exists>quality rest'. rest = JimpWrite ?name quality # rest'))"
    by blast
qed

subsection \<open>The \<open>--display\<close> option\<close>

lemma js_lt_Undefined [simp]: "js_lt Undefined b = False" "js_lt a Undefined = False"
  by (cases b; simp) (cases a; simp)

text \<open>
  When the guard of line 430 fires, that is when \<open>displayNumber < 1\<close> or
  \<open>displayNumber > monitors.length\<close> holds in JavaScript, the run ends with exit code 1, and
  all it does after the enumeration is to print
  \<open>Error: Display <N> not found. Available displays: 1-<count>\<close>: no capture, no file.
\<close>

lemma display_out_of_range:
  assumes "fs_mkdir env (outputDir_of env args) w = (Inr (), w1)"
    and "getScreenInfo env w1 = (Inr monitors, w2)"
    and "js_lt (arg_display args) (Finite 1) \<or>
         js_gt (arg_display args) (Finite (of_nat (length monitors)))"
  shows "main env args w =
           (1, emit (ConsoleError (''Error: Display '' @ js_tostring env (arg_display args) @
                       '' not found. Available displays: 1-'' @ String_nat (length monitors))) w2)"
proof -
  from assms(3) have "arg_display args \<noteq> Undefined"
    by (auto simp: js_gt_def)
  with assms show ?thesis
    by (simp add: main_def main_try_def singleDisplay_def bind_io_def console_error_def ret_def
        Let_def)
qed

text \<open>
  C3. The claim fails on the code for \<open>NaN\<close>, which is what \<open>yargs\<close> gives for a
  \<open>--display\<close> that is no number (\<open>--display abc\<close>). \<open>NaN\<close> is not in the range from 1 to the
  number of monitors, but both comparisons of the guard are false for it, so the guard does
  not fire. The run goes on as for a display it knows: it announces the capture, calls
  \<open>captureScreen\<close> (without a monitor, since no monitor has that index), and ends with exit
  code 1 and the message of the capture's own error or of the \<open>TypeError\<close> of reading
  \<open>monitor.index\<close>, not with \<open>Display <N> not found\<close>.
\<close>

theorem display_guard_misses_nan:
  assumes "fs_mkdir env (outputDir_of env args) w = (Inr (), w1)"
    and "getScreenInfo env w1 = (Inr monitors, w2)"
    and "arg_display args = NaN"
    and "captureScreen env None (emit (ConsoleLog ''Capturing display NaN...'') w2) = (result, w3)"
  shows "\<not> (js_le (Finite 1) (arg_display args) \<and>
             js_le (arg_display args) (Finite (of_nat (length monitors)))) \<and>
         main env args w =
           (1, emit (ConsoleError (''Error: '' @
                       (case result of Inl message \<Rightarrow> message | Inr tempFile \<Rightarrow> typeerror_msg env))) w3)"
proof -
  have none: "find (\<lambda>m. js_seq (Finite (of_nat (mon_index m))) NaN) monitors = None"
    by (induction monitors) (simp_all add: js_seq_def)
  have "main env args w =
           (1, emit (ConsoleError (''Error: '' @
                       (case result of Inl message \<Rightarrow> message | Inr tempFile \<Rightarrow> typeerror_msg env))) w3)"
    using assms none
    by (cases result)
       (simp_all add: main_def main_try_def singleDisplay_def bind_io_def console_log_def throw_def
          Let_def js_gt_def js_tostring_def)
  with assms(3) show ?thesis by (simp add: js_le_def)
qed

text \<open>
  C10. The range check of \<open>--display\<close> does not ask for an integer. For a number that is
  not an integer and lies between 1 and the number of monitors, no monitor has that
  index, \<open>captureScreen\<close> is called without a monitor, and the run then ends with exit
  code 1, whatever the capture did: with the capture's own error, or with the
  \<open>TypeError\<close> of reading \<open>monitor.index\<close>.
\<close>

theorem fractional_display:
  assumes "fs_mkdir env (outputDir_of env args) w = (Inr (), w1)"
    and "getScreenInfo env w1 = (Inr monitors, w2)"
    and "arg_display args = Finite r" "of_int \<lfloor>r\<rfloor> \<noteq> r"
    and "1 \<le> r" "r \<le> of_nat (length monitors)"
    and "captureScreen env None
           (emit (ConsoleLog (''Capturing display '' @ js_tostring env (Finite r) @ ''...'')) w2) =
         (result, w3)"
  shows "find (\<lambda>m. js_seq (Finite (of_nat (mon_index m))) (Finite r)) monitors = None \<and>
         main env args w =
           (1, emit (ConsoleError (''Error: '' @
                       (case result of Inl message \<Rightarrow> message | Inr tempFile \<Rightarrow> typeerror_msg env))) w3)"
proof -
  have ne: "\<not> js_seq (Finite (of_nat (mon_index m))) (Finite r)" for m
  proof
    assume "js_seq (Finite (of_nat (mon_index m))) (Finite r)"
    then have "r = of_nat (mon_index m)" by (simp add: js_seq_def)
    then have "of_int \<lfloor>r\<rfloor> = r" by simp
    with assms(4) show False by simp
  qed
  have none: "find (\<lambda>m. js_seq (Finite (of_nat (mon_index m))) (Finite r)) monitors = None"
    by (induction monitors) (simp_all add: ne)
  have range: "\<not> (js_lt (Finite r) (Finite 1) \<or> js_gt (Finite r) (Finite (of_nat (length monitors))))"
    using assms(5,6) by (simp add: js_gt_def)
  have "main env args w =
           (1, emit (ConsoleError (''Error: '' @
                       (case result of Inl message \<Rightarrow> message | Inr tempFile \<Rightarrow> typeerror_msg env))) w3)"
    using assms(1,2,3,7) none range
    by (cases result)
       (simp_all add: main_def main_try_def singleDisplay_def bind_io_def console_log_def throw_def
          Let_def del: js_lt.simps)
  with none show ?thesis by simp
qed

subsection \<open>Capture on the Windows family\<close>

lemma tempPaths_result:
  "\<exists>p q. tempPaths env platform name ext w = (Inr (p, q), w\<lparr>ticks := Suc (ticks w)\<rparr>)"
  by (simp add: tempPaths_def Let_def catch_io_def bind_io_def fs_access_def Date_now_io_def ret_def)

lemma catch_rethrow_world: "snd (catch_io m (\<lambda>message. throw (f message)) w) = snd (m w)"
  by (simp add: catch_io_def throw_def split: prod.splits sum.splits)

lemma writeFile_first:
  assumes "\<And>a. adds_only (\<lambda>e. True) (F a)"
  shows "\<exists>rest. trace (snd (bind_io (fs_writeFile env p c) F w)) = trace w @ WriteFile p c # rest"
proof -
  obtain r w1 where r: "fs_writeFile env p c w = (r, w1)" by (cases "fs_writeFile env p c w")
  have "trace (snd (fs_writeFile env p c w)) = trace w @ [WriteFile p c]"
    by (simp add: fs_writeFile_def emit_def split: option.splits)
  with r have t: "trace w1 = trace w @ [WriteFile p c]" by simp
  show ?thesis
  proof (cases r)
    case (Inl e)
    with r t show ?thesis by (simp add: bind_io_def)
  next
    case (Inr a)
    from assms [of a] obtain evs where "trace (snd (F a w1)) = trace w1 @ evs"
      unfolding adds_only_def by blast
    with Inr r t show ?thesis by (simp add: bind_io_def)
  qed
qed

lemma Math_max0_nonneg: "is_number v \<Longrightarrow> js_le (Finite 0) (Math_max0 v)"
  by (cases v) (simp_all add: js_le_def)

lemma exec_first:
  assumes "\<And>a. adds_only (\<lambda>e. True) (F a)"
  shows "\<exists>rest. trace (snd (bind_io (execAsync env cmd) F w)) = trace w @ Exec cmd # rest"
proof -
  obtain r w1 where r: "execAsync env cmd w = (r, w1)" by (cases "execAsync env cmd w")
  have "trace (snd (execAsync env cmd w)) = trace w @ [Exec cmd]"
    by (simp add: execAsync_def emit_def Let_def split: option.splits)
  with r have t: "trace w1 = trace w @ [Exec cmd]" by simp
  show ?thesis
  proof (cases r)
    case (Inl e)
    with r t show ?thesis by (simp add: bind_io_def)
  next
    case (Inr a)
    from assms [of a] obtain evs where "trace (snd (F a w1)) = trace w1 @ evs"
      unfolding adds_only_def by blast
    with Inr r t show ?thesis by (simp add: bind_io_def)
  qed
qed

lemma monitor_psContent_text:
  \<open>monitor_psContent x y width height savePath =
     concat (map (\<lambda>l. l @ [CHR 0x0A])
       ['''',
        ''Add-Type -AssemblyName System.Drawing'',
        ''Add-Type -AssemblyName System.Windows.Forms'',
        ''$x = '' @ x,
        ''$y = '' @ y,
        ''$width = '' @ width,
        ''$height = '' @ height,
        ''if ($width -le 0 -or $height -le 0) {'',
        ''    Write-Error "Invalid dimensions: $width x $height"'',
        ''    exit 1'',
        ''}'',
        ''$bounds = [System.Drawing.Rectangle]::FromLTRB($x, $y, ($x + $width), ($y + $height))'',
        ''$bitmap = New-Object System.Drawing.Bitmap($width, $height)'',
        ''$graphics = [System.Drawing.Graphics]::FromImage($bitmap)'',
        ''$graphics.CopyFromScreen($bounds.Location, [System.Drawing.Point]::Empty, $bounds.Size)'',
        ''$bitmap.Save('' @ [CHR 0x27] @ savePath @ [CHR 0x27] @ '', [System.Drawing.Imaging.ImageFormat]::Png)'',
        ''$graphics.Dispose()'',
        ''$bitmap.Dispose()''])\<close>
  by (simp add: monitor_psContent_def template_lines_def)

text \<open>
  C6. On the Windows family, a monitor with \<open>width <= 0\<close> or \<open>height <= 0\<close> makes
  \<open>captureScreen\<close> fail with the message \<open>Invalid monitor dimensions: WxH\<close> (inside the
  wrapper \<open>Failed to capture screen:\<close>), and nothing was written or run: the trace and the
  files are as before. For any other monitor the first operation is the writing of the
  capture script, and the script is the text below: it sets \<open>$x\<close> and \<open>$y\<close> to
  \<open>Math.max(0, x)\<close> and \<open>Math.max(0, y)\<close>, which are not below 0 when the coordinate is a
  number, sets \<open>$width\<close> and \<open>$height\<close> to the monitor's own, copies the rectangle of these
  four from the screen, and saves it at the temporary path of the screenshot. If the
  script could be written, the next operation is PowerShell running it.
\<close>

theorem captureScreen_windows_validation:
  assumes "windows_family env w"
  shows \<open>(js_le (mon_width m) (Finite 0) \<or> js_le (mon_height m) (Finite 0) \<longrightarrow>
            (\<exists>w'. captureScreen env (Some m) w =
                    (Inl (''Failed to capture screen: Invalid monitor dimensions: '' @
                          js_tostring env (mon_width m) @ ''x'' @ js_tostring env (mon_height m)), w') \<and>
                  trace w' = trace w \<and> files w' = files w)) \<and>
         (\<not> (js_le (mon_width m) (Finite 0) \<or> js_le (mon_height m) (Finite 0)) \<longrightarrow>
            (\<exists>platform tempFile windowsTempFile psScript psScriptWin script rest.
               fst (detectPlatform env w) = Inr platform \<and>
               fst (tempPaths env platform ''screenshot_'' ''.png'' w) = Inr (tempFile, windowsTempFile) \<and>
               fst (tempPaths env platform ''capture_'' ''.ps1'' (w\<lparr>ticks := Suc (ticks w)\<rparr>)) =
                 Inr (psScript, psScriptWin) \<and>
               script =
                 concat (map (\<lambda>l. l @ [CHR 0x0A])
                   ['''',
                    ''Add-Type -AssemblyName System.Drawing'',
                    ''Add-Type -AssemblyName System.Windows.Forms'',
                    ''$x = '' @ js_tostring env (Math_max0 (mon_x m)),
                    ''$y = '' @ js_tostring env (Math_max0 (mon_y m)),
                    ''$width = '' @ js_tostring env (mon_width m),
                    ''$height = '' @ js_tostring env (mon_height m),
                    ''if ($width -le 0 -or $height -le 0) {'',
                    ''    Write-Error "Invalid dimensions: $width x $height"'',
                    ''    exit 1'',
                    ''}'',
                    ''$bounds = [System.Drawing.Rectangle]::FromLTRB($x, $y, ($x + $width), ($y + $height))'',
                    ''$bitmap = New-Object System.Drawing.Bitmap($width, $height)'',
                    ''$graphics = [System.Drawing.Graphics]::FromImage($bitmap)'',
                    ''$graphics.CopyFromScreen($bounds.Location, [System.Drawing.Point]::Empty, $bounds.Size)'',
                    ''$bitmap.Save('' @ [CHR 0x27] @
                      replace_all_char (CHR 0x5C) [CHR 0x5C, CHR 0x5C] windowsTempFile @ [CHR 0x27] @
                      '', [System.Drawing.Imaging.ImageFormat]::Png)'',
                    ''$graphics.Dispose()'',
                    ''$bitmap.Dispose()'']) \<and>
               new_events w (snd (captureScreen env (Some m) w)) = WriteFile psScript script # rest \<and>
               (fails env (w\<lparr>ticks := Suc (Suc (ticks w))\<rparr>) (WriteFile psScript script) = None \<longrightarrow>
                  (\<exists>rest'. rest = Exec (powershell_cmd platform psScriptWin) # rest')))) \<and>
         (is_number (mon_x m) \<longrightarrow> js_le (Finite 0) (Math_max0 (mon_x m))) \<and>
         (is_number (mon_y m) \<longrightarrow> js_le (Finite 0) (Math_max0 (mon_y m))) \<and>
         (\<forall>a. mon_x m = Finite a \<longrightarrow> Math_max0 (mon_x m) = Finite (max 0 a)) \<and>
         (\<forall>b. mon_y m = Finite b \<longrightarrow> Math_max0 (mon_y m) = Finite (max 0 b))\<close>
proof -
  from assms obtain platform where
    d: "detectPlatform env w = (Inr platform, w)" and p: "platform = ''win32'' \<or> platform = ''wsl''"
    by (auto simp: windows_family_def detectPlatform_eq split: if_splits)
  obtain tempFile windowsTempFile where
    t1: "tempPaths env platform ''screenshot_'' ''.png'' w =
           (Inr (tempFile, windowsTempFile), w\<lparr>ticks := Suc (ticks w)\<rparr>)"
    using tempPaths_result by blast
  obtain psScript psScriptWin where
    t2: "tempPaths env platform ''capture_'' ''.ps1'' (w\<lparr>ticks := Suc (ticks w)\<rparr>) =
           (Inr (psScript, psScriptWin), w\<lparr>ticks := Suc (Suc (ticks w))\<rparr>)"
    using tempPaths_result [of env platform "''capture_''" "''.ps1''" "w\<lparr>ticks := Suc (ticks w)\<rparr>"]
    by auto
  let ?w2 = "w\<lparr>ticks := Suc (Suc (ticks w))\<rparr>"
  let ?script = "capture_psContent env (Some m) windowsTempFile"
  let ?G = "\<lambda>(stdout :: string, stderr).
                  bind_io (if stderr \<noteq> [] \<and> \<not> js_includes ''DeprecationWarning'' stderr
                           then console_error (''PowerShell stderr: '' @ stderr) else ret ()) (\<lambda>_.
                  bind_io (unlink_quiet env psScript) (\<lambda>_.
                  bind_io (fs_access env tempFile) (\<lambda>_.
                  ret tempFile)))"
  let ?F = "\<lambda>_::unit. bind_io (execAsync env (powershell_cmd platform psScriptWin)) ?G"
  have cs: "captureScreen env (Some m) w =
              catch_io (captureScreen_windows env platform (Some m) tempFile windowsTempFile)
                (\<lambda>message. throw (''Failed to capture screen: '' @ message))
                (w\<lparr>ticks := Suc (ticks w)\<rparr>)"
    using d p t1 by (auto simp: captureScreen_def bind_io_def)
  have cw: "captureScreen_windows env platform (Some m) tempFile windowsTempFile (w\<lparr>ticks := Suc (ticks w)\<rparr>) =
              (case dimension_error env (Some m) of
                 Some message \<Rightarrow> throw message
               | None \<Rightarrow> bind_io (fs_writeFile env psScript ?script) ?F) ?w2"
    using t2 by (simp add: captureScreen_windows_def bind_io_def)
  have invalid: "\<exists>w'. captureScreen env (Some m) w =
                    (Inl (''Failed to capture screen: Invalid monitor dimensions: '' @
                          js_tostring env (mon_width m) @ ''x'' @ js_tostring env (mon_height m)), w') \<and>
                  trace w' = trace w \<and> files w' = files w"
    if "js_le (mon_width m) (Finite 0) \<or> js_le (mon_height m) (Finite 0)"
    using that by (simp add: cs cw catch_io_def throw_def dimension_error_def)
  have G: "adds_only (\<lambda>e. True) (?G a)" for a
    by (cases a)
       (auto intro!: adds_only_bind adds_only_if adds_only_console_error adds_only_unlink_quiet
          adds_only_access adds_only_ret)
  have Fa: "adds_only (\<lambda>e. True) (?F a)" for a
    by (intro adds_only_bind adds_only_exec G) simp
  have valid: "\<exists>rest. new_events w (snd (captureScreen env (Some m) w)) = WriteFile psScript ?script # rest \<and>
               (fails env ?w2 (WriteFile psScript ?script) = None \<longrightarrow>
                  (\<exists>rest'. rest = Exec (powershell_cmd platform psScriptWin) # rest'))"
    if ok: "\<not> (js_le (mon_width m) (Finite 0) \<or> js_le (mon_height m) (Finite 0))"
  proof -
    have run: "snd (captureScreen env (Some m) w) = snd (bind_io (fs_writeFile env psScript ?script) ?F ?w2)"
      using ok by (simp add: cs cw catch_rethrow_world dimension_error_def)
    obtain rest where
      first: "trace (snd (bind_io (fs_writeFile env psScript ?script) ?F ?w2)) =
              trace w @ WriteFile psScript ?script # rest"
      using writeFile_first [of ?F env psScript ?script ?w2] Fa by auto
    have "\<exists>rest'. rest = Exec (powershell_cmd platform psScriptWin) # rest'"
      if written: "fails env ?w2 (WriteFile psScript ?script) = None"
    proof -
      let ?w3 = "emit (WriteFile psScript ?script) (?w2\<lparr>files := insert psScript (files ?w2)\<rparr>)"
      have "bind_io (fs_writeFile env psScript ?script) ?F ?w2 = ?F () ?w3"
        using written by (simp add: bind_io_def fs_writeFile_def)
      moreover obtain rest' where
        "trace (snd (?F () ?w3)) = trace ?w3 @ Exec (powershell_cmd platform psScriptWin) # rest'"
        using exec_first [of ?G env "powershell_cmd platform psScriptWin" ?w3] G by auto
      ultimately have "trace (snd (bind_io (fs_writeFile env psScript ?script) ?F ?w2)) =
          trace w @ WriteFile psScript ?script # Exec (powershell_cmd platform psScriptWin) # rest'"
        by (simp add: emit_def)
      with first have "rest = Exec (powershell_cmd platform psScriptWin) # rest'" by simp
      then show ?thesis by blast
    qed
    with run first show ?thesis by (simp add: new_events_def)
  qed
  have script_text: \<open>?script =
                 concat (map (\<lambda>l. l @ [CHR 0x0A])
                   ['''',
                    ''Add-Type -AssemblyName System.Drawing'',
                    ''Add-Type -AssemblyName System.Windows.Forms'',
                    ''$x = '' @ js_tostring env (Math_max0 (mon_x m)),
                    ''$y = '' @ js_tostring env (Math_max0 (mon_y m)),
                    ''$width = '' @ js_tostring env (mon_width m),
                    ''$height = '' @ js_tostring env (mon_height m),
                    ''if ($width -le 0 -or $height -le 0) {'',
                    ''    Write-Error "Invalid dimensions: $width x $height"'',
                    ''    exit 1'',
                    ''}'',
                    ''$bounds = [System.Drawing.Rectangle]::FromLTRB($x, $y, ($x + $width), ($y + $height))'',
                    ''$bitmap = New-Object System.Drawing.Bitmap($width, $height)'',
                    ''$graphics = [System.Drawing.Graphics]::FromImage($bitmap)'',
                    ''$graphics.CopyFromScreen($bounds.Location, [System.Drawing.Point]::Empty, $bounds.Size)'',
                    ''$bitmap.Save('' @ [CHR 0x27] @
                      replace_all_char (CHR 0x5C) [CHR 0x5C, CHR 0x5C] windowsTempFile @ [CHR 0x27] @
                      '', [System.Drawing.Imaging.ImageFormat]::Png)'',
                    ''$graphics.Dispose()'',
                    ''$bitmap.Dispose()''])\<close>
    unfolding capture_psContent_def Let_def option.case monitor_psContent_text backslash_def
    by simp
  have c2: \<open>\<exists>platform tempFile windowsTempFile psScript psScriptWin script rest.
               fst (detectPlatform env w) = Inr platform \<and>
               fst (tempPaths env platform ''screenshot_'' ''.png'' w) = Inr (tempFile, windowsTempFile) \<and>
               fst (tempPaths env platform ''capture_'' ''.ps1'' (w\<lparr>ticks := Suc (ticks w)\<rparr>)) =
                 Inr (psScript, psScriptWin) \<and>
               script =
                 concat (map (\<lambda>l. l @ [CHR 0x0A])
                   ['''',
                    ''Add-Type -AssemblyName System.Drawing'',
                    ''Add-Type -AssemblyName System.Windows.Forms'',
                    ''$x = '' @ js_tostring env (Math_max0 (mon_x m)),
                    ''$y = '' @ js_tostring env (Math_max0 (mon_y m)),
                    ''$width = '' @ js_tostring env (mon_width m),
                    ''$height = '' @ js_tostring env (mon_height m),
                    ''if ($width -le 0 -or $height -le 0) {'',
                    ''    Write-Error "Invalid dimensions: $width x $height"'',
                    ''    exit 1'',
                    ''}'',
                    ''$bounds = [System.Drawing.Rectangle]::FromLTRB($x, $y, ($x + $width), ($y + $height))'',
                    ''$bitmap = New-Object System.Drawing.Bitmap($width, $height)'',
                    ''$graphics = [System.Drawing.Graphics]::FromImage($bitmap)'',
                    ''$graphics.CopyFromScreen($bounds.Location, [System.Drawing.Point]::Empty, $bounds.Size)'',
                    ''$bitmap.Save('' @ [CHR 0x27] @
                      replace_all_char (CHR 0x5C) [CHR 0x5C, CHR 0x5C] windowsTempFile @ [CHR 0x27] @
                      '', [System.Drawing.Imaging.ImageFormat]::Png)'',
                    ''$graphics.Dispose()'',
                    ''$bitmap.Dispose()'']) \<and>
               new_events w (snd (captureScreen env (Some m) w)) = WriteFile psScript script # rest \<and>
               (fails env (w\<lparr>ticks := Suc (Suc (ticks w))\<rparr>) (WriteFile psScript script) = None \<longrightarrow>
                  (\<exists>rest'. rest = Exec (powershell_cmd platform psScriptWin) # rest'))\<close>
    if ok: "\<not> (js_le (mon_width m) (Finite 0) \<or> js_le (mon_height m) (Finite 0))"
  proof -
    from valid [OF ok] obtain rest where
      v0: "new_events w (snd (captureScreen env (Some m) w)) = WriteFile psScript ?script # rest \<and>
         (fails env ?w2 (WriteFile psScript ?script) = None \<longrightarrow>
                  (\<exists>rest'. rest = Exec (powershell_cmd platform psScriptWin) # rest'))"
      ..
    note v = conjunct1 [OF v0] conjunct2 [OF v0]
    have a: "fst (detectPlatform env w) = Inr platform" by (simp add: d)
    have b: "fst (tempPaths env platform ''screenshot_'' ''.png'' w) = Inr (tempFile, windowsTempFile)"
      by (simp add: t1)
    have c: "fst (tempPaths env platform ''capture_'' ''.ps1'' (w\<lparr>ticks := Suc (ticks w)\<rparr>)) =
                 Inr (psScript, psScriptWin)"
      by (simp add: t2)
    show ?thesis
      apply (rule exI [of _ platform], rule exI [of _ tempFile], rule exI [of _ windowsTempFile],
          rule exI [of _ psScript], rule exI [of _ psScriptWin], rule exI [of _ ?script],
          rule exI [of _ rest])
      apply (intro conjI a b c script_text v)
      done
  qed
  have c5: "\<forall>a. mon_x m = Finite a \<longrightarrow> Math_max0 (mon_x m) = Finite (max 0 a)"
    and c6: "\<forall>b. mon_y m = Finite b \<longrightarrow> Math_max0 (mon_y m) = Finite (max 0 b)"
    by simp_all
  from invalid c2 Math_max0_nonneg c5 c6 show ?thesis by blast
qed

subsection \<open>What a run leaves in the file system\<close>

lemma tidy_ret: "tidy (ret a)"
  by (simp add: tidy_def ret_def)

lemma tidy_throw: "tidy (throw e)"
  by (simp add: tidy_def throw_def)

lemma tidy_bind:
  assumes "tidy m" "\<And>a. tidy (f a)"
  shows "tidy (bind_io m f)"
  unfolding tidy_def
proof
  fix w
  obtain r w1 where mw: "m w = (r, w1)" by (cases "m w")
  from assms(1) obtain evs where e1: "trace w1 = trace w @ evs"
    "\<forall>p\<in>files w. p \<in> files w1 \<or> Unlink p \<in> set evs"
    unfolding tidy_def using mw by (metis snd_conv)
  show "\<exists>evs. trace (snd (bind_io m f w)) = trace w @ evs \<and>
              (\<forall>p\<in>files w. p \<in> files (snd (bind_io m f w)) \<or> Unlink p \<in> set evs)"
  proof (cases r)
    case (Inl e)
    with mw e1 show ?thesis by (auto simp: bind_io_def)
  next
    case (Inr a)
    from assms(2) [of a] obtain evs2 where e2: "trace (snd (f a w1)) = trace w1 @ evs2"
      "\<forall>p\<in>files w1. p \<in> files (snd (f a w1)) \<or> Unlink p \<in> set evs2"
      unfolding tidy_def by blast
    have "trace (snd (bind_io m f w)) = trace w @ (evs @ evs2)"
      using Inr mw e1(1) e2(1) by (simp add: bind_io_def)
    moreover have "\<forall>p\<in>files w. p \<in> files (snd (bind_io m f w)) \<or> Unlink p \<in> set (evs @ evs2)"
      using Inr mw e1(2) e2(2) by (auto simp: bind_io_def)
    ultimately show ?thesis by blast
  qed
qed

lemma tidy_catch:
  assumes "tidy m" "\<And>e. tidy (h e)"
  shows "tidy (catch_io m h)"
  unfolding tidy_def
proof
  fix w
  obtain r w1 where mw: "m w = (r, w1)" by (cases "m w")
  from assms(1) obtain evs where e1: "trace w1 = trace w @ evs"
    "\<forall>p\<in>files w. p \<in> files w1 \<or> Unlink p \<in> set evs"
    unfolding tidy_def using mw by (metis snd_conv)
  show "\<exists>evs. trace (snd (catch_io m h w)) = trace w @ evs \<and>
              (\<forall>p\<in>files w. p \<in> files (snd (catch_io m h w)) \<or> Unlink p \<in> set evs)"
  proof (cases r)
    case (Inr a)
    with mw e1 show ?thesis by (auto simp: catch_io_def)
  next
    case (Inl e)
    from assms(2) [of e] obtain evs2 where e2: "trace (snd (h e w1)) = trace w1 @ evs2"
      "\<forall>p\<in>files w1. p \<in> files (snd (h e w1)) \<or> Unlink p \<in> set evs2"
      unfolding tidy_def by blast
    have "trace (snd (catch_io m h w)) = trace w @ (evs @ evs2)"
      using Inl mw e1(1) e2(1) by (simp add: catch_io_def)
    moreover have "\<forall>p\<in>files w. p \<in> files (snd (catch_io m h w)) \<or> Unlink p \<in> set (evs @ evs2)"
      using Inl mw e1(2) e2(2) by (auto simp: catch_io_def)
    ultimately show ?thesis by blast
  qed
qed

lemma tidy_prod: "(\<And>a b. tidy (f a b)) \<Longrightarrow> tidy (case_prod f x)"
  by (cases x) simp

lemma tidy_if: "(c \<Longrightarrow> tidy a) \<Longrightarrow> (\<not> c \<Longrightarrow> tidy b) \<Longrightarrow> tidy (if c then a else b)"
  by simp

lemma tidy_option:
  "(x = None \<Longrightarrow> tidy a) \<Longrightarrow> (\<And>v. x = Some v \<Longrightarrow> tidy (b v)) \<Longrightarrow>
   tidy (case x of None \<Rightarrow> a | Some v \<Rightarrow> b v)"
  by (cases x) simp_all

lemma tidy_console_log: "tidy (console_log s)"
  by (simp add: tidy_def console_log_def emit_def)

lemma tidy_console_error: "tidy (console_error s)"
  by (simp add: tidy_def console_error_def emit_def)

lemma tidy_Date_now: "tidy (Date_now_io env)"
  by (simp add: tidy_def Date_now_io_def)

lemma tidy_access: "tidy (fs_access env p)"
  by (simp add: tidy_def fs_access_def)

lemma tidy_writeFile: "tidy (fs_writeFile env p c)"
  by (auto simp: tidy_def fs_writeFile_def emit_def split: option.splits)

lemma tidy_unlink: "tidy (fs_unlink env p)"
  by (auto simp: tidy_def fs_unlink_def emit_def split: option.splits)

lemma tidy_copyFile: "tidy (fs_copyFile env src dst)"
  by (auto simp: tidy_def fs_copyFile_def emit_def split: option.splits)

lemma tidy_exec: "tidy (execAsync env cmd)"
  by (auto simp: tidy_def execAsync_def emit_def Let_def split: option.splits)

lemma tidy_Jimp_read: "tidy (Jimp_read env p)"
  by (auto simp: tidy_def Jimp_read_def emit_def split: option.splits)

lemma tidy_Jimp_write: "tidy (Jimp_write env p q)"
  by (auto simp: tidy_def Jimp_write_def emit_def split: option.splits)

lemma tidy_unlink_quiet: "tidy (unlink_quiet env p)"
  unfolding unlink_quiet_def by (intro tidy_catch tidy_unlink tidy_ret)

lemma tidy_detectPlatform: "tidy (detectPlatform env)"
  unfolding detectPlatform_def Let_def
  by (intro tidy_if tidy_catch tidy_bind tidy_access tidy_ret)

lemma tidy_tempPaths: "tidy (tempPaths env platform name ext)"
  unfolding tempPaths_def Let_def
  by (intro tidy_if tidy_catch tidy_bind tidy_access tidy_Date_now tidy_ret)

lemma tidy_captureScreen: "tidy (captureScreen env monitor)"
  unfolding captureScreen_def captureScreen_windows_def
  by (intro tidy_bind tidy_detectPlatform tidy_if tidy_tempPaths tidy_prod tidy_catch
      tidy_writeFile tidy_exec tidy_console_error tidy_unlink_quiet tidy_option tidy_access
      tidy_ret tidy_throw)

lemma tidy_convertImage: "tidy (convertImage env inputPath outputPath format quality)"
  unfolding convertImage_def
  by (intro tidy_catch tidy_bind tidy_if tidy_Jimp_read tidy_Jimp_write tidy_throw)

lemma tidy_placeImage: "tidy (placeImage env screenshot output format quality)"
  unfolding placeImage_def
  by (intro tidy_if tidy_bind tidy_convertImage tidy_copyFile tidy_unlink)

lemma tidy_log_files: "tidy (log_files fs)"
  by (induction fs) (auto intro!: tidy_ret tidy_bind tidy_console_log)

lemma tidy_report: "tidy (report fs)"
  unfolding report_def
  by (intro tidy_bind tidy_console_log tidy_log_files tidy_ret)

lemma tidy_captureDisplay: "tidy (captureDisplay env dir fmt q ts m shots)"
  unfolding captureDisplay_def Let_def
  by (intro tidy_catch tidy_bind tidy_captureScreen tidy_placeImage tidy_console_log
      tidy_console_error tidy_ret)

lemma tidy_captureDisplays: "tidy (captureDisplays env dir fmt q ts ms shots)"
proof (induction ms arbitrary: shots)
  case Nil
  show ?case by (simp add: tidy_ret)
next
  case (Cons m ms)
  show ?case
    unfolding captureDisplays.simps
    by (intro tidy_bind tidy_captureDisplay Cons.IH)
qed

lemma tidy_keeps:
  assumes "tidy m" "p \<in> files w"
  shows "p \<in> files (snd (m w)) \<or> Unlink p \<in> set (new_events w (snd (m w)))"
proof -
  from assms(1) obtain evs where "trace (snd (m w)) = trace w @ evs"
    "\<forall>p\<in>files w. p \<in> files (snd (m w)) \<or> Unlink p \<in> set evs"
    unfolding tidy_def by blast
  with assms(2) show ?thesis by (auto simp: new_events_def)
qed

lemma tidy_extends: "tidy m \<Longrightarrow> \<exists>rest. trace (snd (m w)) = trace w @ rest"
  unfolding tidy_def by blast

lemma placeImage_kept:
  assumes "placeImage env shot out fmt q w = (Inr (), w')"
  shows "Unlink shot \<in> set (new_events w w') \<and> (shot \<noteq> out \<longrightarrow> out \<in> files w')"
  using assms
  by (auto simp: placeImage_def bind_io_def convertImage_def catch_io_def throw_def Jimp_read_def
      Jimp_write_def fs_copyFile_def fs_unlink_def emit_def new_events_def
      split: option.splits if_splits)

subsection \<open>The loop over the monitors\<close>

lemma adds_only_subset: "adds_only P m \<Longrightarrow> set (trace w) \<subseteq> set (trace (snd (m w)))"
  unfolding adds_only_def by (metis set_append sup_ge1)

lemma log_files_result:
  "log_files fs w = (Inr (), w\<lparr>trace := trace w @ map (\<lambda>f. ConsoleLog (''  - '' @ f)) fs\<rparr>)"
  by (induction fs arbitrary: w) (simp_all add: ret_def bind_io_def console_log_def emit_def)

lemma report_result:
  "\<exists>w'. report fs w = (Inr 0, w') \<and> set (trace w) \<subseteq> set (trace w') \<and>
        (\<forall>f\<in>set fs. ConsoleLog (''  - '' @ f) \<in> set (trace w'))"
  by (auto simp: report_def bind_io_def console_log_def emit_def log_files_result ret_def)

lemma captureDisplay_outcome:
  "\<exists>shots' w'. captureDisplay env outputDir format quality ts m shots w = (Inr shots', w') \<and>
     (shots' = shots @ [displayOutput env outputDir format ts m] \<or>
      shots' = shots \<and>
      (\<exists>message. ConsoleError (cross_mark @ '' Failed to capture display '' @
                     String_nat (mon_index m) @ '': '' @ message) \<in> set (trace w')))"
proof -
  let ?B = "bind_io (captureScreen env (Some m)) (\<lambda>monitorScreenshot.
        let monitorOutput = displayOutput env outputDir format ts m in
        bind_io (placeImage env monitorScreenshot monitorOutput format quality) (\<lambda>_.
        bind_io (console_log (check_mark @ '' Display '' @ String_nat (mon_index m) @
                              '' screenshot saved: '' @ monitorOutput)) (\<lambda>_.
        ret (shots @ [monitorOutput]))))"
  have ret: "returns (\<lambda>s. s = shots @ [displayOutput env outputDir format ts m]) ?B"
    unfolding Let_def by (intro returns_bind returns_ret) simp
  obtain r w1 where r: "?B w = (r, w1)" by (cases "?B w")
  show ?thesis
  proof (cases r)
    case (Inl message)
    with r show ?thesis
      by (auto simp: captureDisplay_def catch_io_def bind_io_def console_error_def emit_def ret_def)
  next
    case (Inr s)
    with r ret have "s = shots @ [displayOutput env outputDir format ts m]"
      unfolding returns_def by blast
    with r Inr show ?thesis
      by (simp add: captureDisplay_def catch_io_def)
  qed
qed

lemma captureDisplays_outcome:
  "\<exists>shots' w'. captureDisplays env outputDir format quality ts ms shots w = (Inr shots', w') \<and>
     set shots \<subseteq> set shots' \<and>
     (\<forall>m\<in>set ms. displayOutput env outputDir format ts m \<in> set shots' \<or>
        (\<exists>message. ConsoleError (cross_mark @ '' Failed to capture display '' @
                     String_nat (mon_index m) @ '': '' @ message) \<in> set (trace w')))"
proof (induction ms arbitrary: shots w)
  case Nil
  show ?case by (simp add: ret_def)
next
  case (Cons m ms)
  obtain s1 w1 where
    one: "captureDisplay env outputDir format quality ts m shots w = (Inr s1, w1)" and
    out: "s1 = shots @ [displayOutput env outputDir format ts m] \<or>
          s1 = shots \<and>
          (\<exists>message. ConsoleError (cross_mark @ '' Failed to capture display '' @
                     String_nat (mon_index m) @ '': '' @ message) \<in> set (trace w1))"
    using captureDisplay_outcome by blast
  obtain s2 w2 where
    rest: "captureDisplays env outputDir format quality ts ms s1 w1 = (Inr s2, w2)" and
    sub: "set s1 \<subseteq> set s2" and
    all: "\<forall>m\<in>set ms. displayOutput env outputDir format ts m \<in> set s2 \<or>
        (\<exists>message. ConsoleError (cross_mark @ '' Failed to capture display '' @
                     String_nat (mon_index m) @ '': '' @ message) \<in> set (trace w2))"
    using Cons.IH by blast
  have "adds_only (\<lambda>e. True) (captureDisplays env outputDir format quality ts ms s1)"
    by (rule adds_only_captureDisplays) simp_all
  then have grow: "set (trace w1) \<subseteq> set (trace w2)"
    using adds_only_subset [of "\<lambda>e. True" _ w1] rest by fastforce
  have "captureDisplays env outputDir format quality ts (m # ms) shots w = (Inr s2, w2)"
    using one rest by (simp add: bind_io_def)
  moreover have "set shots \<subseteq> set s2" using out sub by auto
  moreover have "displayOutput env outputDir format ts m \<in> set s2 \<or>
        (\<exists>message. ConsoleError (cross_mark @ '' Failed to capture display '' @
                     String_nat (mon_index m) @ '': '' @ message) \<in> set (trace w2))"
    using out sub grow by auto
  ultimately show ?case using all by simp
qed

lemma loop_report:
  "\<exists>W7. bind_io (captureDisplays env dir fmt q ts ms s) report W = (Inr 0, W7) \<and>
        (\<exists>rest. trace W7 = trace W @ rest) \<and>
        (\<forall>f\<in>set s. ConsoleLog (''  - '' @ f) \<in> set (trace W7)) \<and>
        (\<forall>m\<in>set ms. ConsoleLog (''  - '' @ displayOutput env dir fmt ts m) \<in> set (trace W7) \<or>
           (\<exists>message. ConsoleError (cross_mark @ '' Failed to capture display '' @
                          String_nat (mon_index m) @ '': '' @ message) \<in> set (trace W7))) \<and>
        (\<forall>p\<in>files W. p \<in> files W7 \<or> Unlink p \<in> set (new_events W W7))"
proof -
  obtain sF WF where
    loop: "captureDisplays env dir fmt q ts ms s W = (Inr sF, WF)" and
    sub: "set s \<subseteq> set sF" and
    each: "\<forall>m\<in>set ms. displayOutput env dir fmt ts m \<in> set sF \<or>
        (\<exists>message. ConsoleError (cross_mark @ '' Failed to capture display '' @
                     String_nat (mon_index m) @ '': '' @ message) \<in> set (trace WF))"
    using captureDisplays_outcome by blast
  obtain W7 where
    rep: "report sF WF = (Inr 0, W7)" and grow: "set (trace WF) \<subseteq> set (trace W7)" and
    listed: "\<forall>f\<in>set sF. ConsoleLog (''  - '' @ f) \<in> set (trace W7)"
    using report_result by blast
  have run: "bind_io (captureDisplays env dir fmt q ts ms s) report W = (Inr 0, W7)"
    using loop rep by (simp add: bind_io_def)
  have t: "tidy (bind_io (captureDisplays env dir fmt q ts ms s) report)"
    by (intro tidy_bind tidy_captureDisplays tidy_report)
  from tidy_extends [OF t, of W] run have ext: "\<exists>rest. trace W7 = trace W @ rest" by simp
  have keep: "\<forall>p\<in>files W. p \<in> files W7 \<or> Unlink p \<in> set (new_events W W7)"
    using tidy_keeps [OF t, of _ W] run by simp
  have "\<forall>m\<in>set ms. ConsoleLog (''  - '' @ displayOutput env dir fmt ts m) \<in> set (trace W7) \<or>
           (\<exists>message. ConsoleError (cross_mark @ '' Failed to capture display '' @
                          String_nat (mon_index m) @ '': '' @ message) \<in> set (trace W7))"
    using each listed grow by blast
  with run ext keep listed sub show ?thesis by blast
qed

lemma captureDisplay_capture_failed:
  assumes "captureScreen env (Some m) w = (Inl e, w1)"
  shows "captureDisplay env dir fmt q ts m shots w =
           (Inr shots, emit (ConsoleError (cross_mark @ '' Failed to capture display '' @
                               String_nat (mon_index m) @ '': '' @ e)) w1)"
  using assms
  by (simp add: captureDisplay_def catch_bind_Inl bind_io_def console_error_def ret_def)

lemma captureDisplay_place_failed:
  assumes "captureScreen env (Some m) w = (Inr shot, w1)"
    and "placeImage env shot (displayOutput env dir fmt ts m) fmt q w1 = (Inl e, w2)"
  shows "captureDisplay env dir fmt q ts m shots w =
           (Inr shots, emit (ConsoleError (cross_mark @ '' Failed to capture display '' @
                               String_nat (mon_index m) @ '': '' @ e)) w2)"
  using assms
  by (simp add: captureDisplay_def catch_bind_Inr catch_bind_Inl Let_def bind_io_def
      console_error_def ret_def)

lemma captureDisplay_placed:
  assumes "captureScreen env (Some m) w = (Inr shot, w1)"
    and "placeImage env shot (displayOutput env dir fmt ts m) fmt q w1 = (Inr (), w2)"
  shows "captureDisplay env dir fmt q ts m shots w =
           (Inr (shots @ [displayOutput env dir fmt ts m]),
            emit (ConsoleLog (check_mark @ '' Display '' @ String_nat (mon_index m) @
                              '' screenshot saved: '' @ displayOutput env dir fmt ts m)) w2)"
  using assms
  by (simp add: captureDisplay_def catch_io_def Let_def bind_io_def console_log_def ret_def)

text \<open>
  C2. Without \<open>--display\<close>, once the directory is made and the whole desktop is captured
  and placed, the run ends with exit code 0 whatever happens to the monitors. The desktop
  file is in the final list of saved files and, unless the run itself unlinks that path,
  in the file system at the end. The loop reaches every monitor: for each position \<open>j\<close>
  there is a world \<open>W0\<close> that the loop reaches after the monitors before it, whatever
  became of them; there \<open>captureScreen\<close> is called for the monitor at \<open>j\<close>, and the run
  goes on from the outcome. If that capture fails, or the placing of its image fails, the
  next operation of the run is the printing of the failure of that monitor. If both
  succeed, the next operation is the printing of the saved file; the file of that monitor
  is in the final list and, unless the run itself unlinks that path, in the file system
  at the end.
\<close>

theorem partial_failure_tolerated:
  assumes "arg_display args = Undefined"
    and "fs_mkdir env (outputDir_of env args) w = (Inr (), w1)"
    and "getScreenInfo env w1 = (Inr monitors, w2)"
    and "captureScreen env None (emit (ConsoleLog ''Capturing desktop screenshot...'') w2) =
           (Inr mainScreenshot, w3)"
    and "placeImage env mainScreenshot (image_name env args w None) (arg_format args)
           (arg_quality args) w3 = (Inr (), w4)"
  shows "fst (main env args w) = 0 \<and>
         ConsoleLog (''  - '' @ image_name env args w None) \<in> set (trace (snd (main env args w))) \<and>
         (Unlink (image_name env args w None) \<notin> set (new_events w3 (snd (main env args w))) \<longrightarrow>
            image_name env args w None \<in> files (snd (main env args w))) \<and>
         (\<forall>m\<in>set monitors.
            ConsoleLog (''  - '' @ image_name env args w (Some m))
              \<in> set (trace (snd (main env args w))) \<or>
            (\<exists>message. ConsoleError (cross_mark @ '' Failed to capture display '' @
                          String_nat (mon_index m) @ '': '' @ message)
              \<in> set (trace (snd (main env args w))))) \<and>
         (\<forall>j shots W0.
            j < length monitors \<and>
            captureDisplays env (outputDir_of env args) (arg_format args) (arg_quality args)
              (getTimestamp env w) (take j monitors) [image_name env args w None]
              (emit (ConsoleLog (''Capturing '' @ String_nat (length monitors) @ '' individual displays...''))
                 (emit (ConsoleLog (check_mark @ '' Main desktop screenshot saved: '' @
                                    image_name env args w None)) w4)) = (Inr shots, W0) \<longrightarrow>
            (\<forall>e W1. captureScreen env (Some (monitors ! j)) W0 = (Inl e, W1) \<longrightarrow>
               (\<exists>rest. trace (snd (main env args w)) =
                  trace W1 @ ConsoleError (cross_mark @ '' Failed to capture display '' @
                    String_nat (mon_index (monitors ! j)) @ '': '' @ e) # rest)) \<and>
            (\<forall>shot W1 e W2.
               captureScreen env (Some (monitors ! j)) W0 = (Inr shot, W1) \<and>
               placeImage env shot (image_name env args w (Some (monitors ! j))) (arg_format args)
                 (arg_quality args) W1 = (Inl e, W2) \<longrightarrow>
               (\<exists>rest. trace (snd (main env args w)) =
                  trace W2 @ ConsoleError (cross_mark @ '' Failed to capture display '' @
                    String_nat (mon_index (monitors ! j)) @ '': '' @ e) # rest)) \<and>
            (\<forall>shot W1 W2.
               captureScreen env (Some (monitors ! j)) W0 = (Inr shot, W1) \<and>
               placeImage env shot (image_name env args w (Some (monitors ! j))) (arg_format args)
                 (arg_quality args) W1 = (Inr (), W2) \<longrightarrow>
               (\<exists>rest. trace (snd (main env args w)) =
                  trace W2 @ ConsoleLog (check_mark @ '' Display '' @
                    String_nat (mon_index (monitors ! j)) @ '' screenshot saved: '' @
                    image_name env args w (Some (monitors ! j))) # rest) \<and>
               ConsoleLog (''  - '' @ image_name env args w (Some (monitors ! j)))
                 \<in> set (trace (snd (main env args w))) \<and>
               (Unlink (image_name env args w (Some (monitors ! j)))
                  \<notin> set (new_events W1 (snd (main env args w))) \<longrightarrow>
                image_name env args w (Some (monitors ! j)) \<in> files (snd (main env args w))))) \<and>
         (\<forall>j. j < length monitors \<longrightarrow>
            (\<exists>shots W0.
               captureDisplays env (outputDir_of env args) (arg_format args) (arg_quality args)
                 (getTimestamp env w) (take j monitors) [image_name env args w None]
                 (emit (ConsoleLog (''Capturing '' @ String_nat (length monitors) @ '' individual displays...''))
                    (emit (ConsoleLog (check_mark @ '' Main desktop screenshot saved: '' @
                                       image_name env args w None)) w4)) = (Inr shots, W0)))"
proof -
  let ?dir = "outputDir_of env args" and ?fmt = "arg_format args" and ?q = "arg_quality args"
  let ?ts = "getTimestamp env w"
  let ?main = "image_name env args w None"
  let ?w5a = "emit (ConsoleLog (check_mark @ '' Main desktop screenshot saved: '' @ ?main)) w4"
  let ?w5 = "emit (ConsoleLog (''Capturing '' @ String_nat (length monitors) @ '' individual displays...'')) ?w5a"
  let ?W = "if monitors \<noteq> [] then ?w5 else ?w5a"
  let ?fail = "\<lambda>m e. ConsoleError (cross_mark @ '' Failed to capture display '' @
                          String_nat (mon_index m) @ '': '' @ e)"
  note mk = assms(2) and en = assms(3) and undef = assms(1) and cap = assms(4) and pl = assms(5)
  have exit0: "main env args w = (0, W7)" if "main_try env args w = (Inr 0, W7)" for W7
    using that by (simp add: main_def)
  have run: "main_try env args w =
               bind_io (captureDisplays env ?dir ?fmt ?q ?ts monitors [?main]) report ?W"
    using cap pl
    by (cases "monitors = []")
       (simp_all add: desktop_site_run [OF mk en undef] bind_io_Inr [where m = "captureScreen env None"]
          bind_io_Inr [where m = "placeImage env mainScreenshot (image_name env args w None)
            (arg_format args) (arg_quality args)"]
          bind_io_Inr [where m = "console_log s" for s] console_log_def bind_io_ret bind_io_assoc)
  obtain W7 where
    r7: "bind_io (captureDisplays env ?dir ?fmt ?q ?ts monitors [?main]) report ?W = (Inr 0, W7)" and
    ext7: "\<exists>rest. trace W7 = trace ?W @ rest" and
    listed7: "\<forall>f\<in>set [?main]. ConsoleLog (''  - '' @ f) \<in> set (trace W7)" and
    each7: "\<forall>m\<in>set monitors. ConsoleLog (''  - '' @ displayOutput env ?dir ?fmt ?ts m) \<in> set (trace W7) \<or>
           (\<exists>message. ?fail m message \<in> set (trace W7))" and
    keep7: "\<forall>p\<in>files ?W. p \<in> files W7 \<or> Unlink p \<in> set (new_events ?W W7)"
    using loop_report [of env ?dir ?fmt ?q ?ts monitors "[?main]" ?W] by blast
  have F: "main env args w = (0, W7)"
    using run r7 by (simp add: exit0)
  have c1: "fst (main env args w) = 0" by (simp add: F)
  have c2: "ConsoleLog (''  - '' @ ?main) \<in> set (trace (snd (main env args w)))"
    using listed7 by (simp add: F)
  have c4: "\<forall>m\<in>set monitors.
            ConsoleLog (''  - '' @ image_name env args w (Some m)) \<in> set (trace (snd (main env args w))) \<or>
            (\<exists>message. ?fail m message \<in> set (trace (snd (main env args w))))"
    using each7 by (simp add: F displayOutput_image_name)
  have c3: "image_name env args w None \<in> files (snd (main env args w))"
    if never: "Unlink ?main \<notin> set (new_events w3 (snd (main env args w)))"
  proof -
    obtain r34 where t34: "trace w4 = trace w3 @ r34"
      using adds_only_extends [OF any_placeImage, of env mainScreenshot ?main ?fmt ?q w3] pl by auto
    have t4W: "\<exists>r. trace ?W = trace w4 @ r" by (simp add: emit_def)
    then obtain r4W where r4W: "trace ?W = trace w4 @ r4W" by blast
    from ext7 obtain rW7 where rW7: "trace W7 = trace ?W @ rW7" by blast
    have all: "new_events w3 W7 = r34 @ r4W @ rW7"
      using t34 r4W rW7 by (simp add: new_events_def)
    have "new_events w3 w4 = r34" using t34 by (simp add: new_events_def)
    with placeImage_kept [OF pl] have u: "Unlink mainScreenshot \<in> set r34"
      and k: "mainScreenshot \<noteq> ?main \<longrightarrow> ?main \<in> files w4" by simp_all
    from never all u have "mainScreenshot \<noteq> ?main" by (auto simp: F)
    with k have "?main \<in> files ?W" by (simp add: emit_def)
    with keep7 have "?main \<in> files W7 \<or> Unlink ?main \<in> set (new_events ?W W7)" by blast
    moreover have "new_events ?W W7 = rW7" using rW7 by (simp add: new_events_def)
    ultimately show ?thesis using never all by (auto simp: F)
  qed
  have c5: "(\<forall>e W1. captureScreen env (Some (monitors ! j)) W0 = (Inl e, W1) \<longrightarrow>
               (\<exists>rest. trace (snd (main env args w)) = trace W1 @ ?fail (monitors ! j) e # rest)) \<and>
            (\<forall>shot W1 e W2.
               captureScreen env (Some (monitors ! j)) W0 = (Inr shot, W1) \<and>
               placeImage env shot (image_name env args w (Some (monitors ! j))) ?fmt ?q W1 = (Inl e, W2) \<longrightarrow>
               (\<exists>rest. trace (snd (main env args w)) = trace W2 @ ?fail (monitors ! j) e # rest)) \<and>
            (\<forall>shot W1 W2.
               captureScreen env (Some (monitors ! j)) W0 = (Inr shot, W1) \<and>
               placeImage env shot (image_name env args w (Some (monitors ! j))) ?fmt ?q W1 = (Inr (), W2) \<longrightarrow>
               (\<exists>rest. trace (snd (main env args w)) =
                  trace W2 @ ConsoleLog (check_mark @ '' Display '' @
                    String_nat (mon_index (monitors ! j)) @ '' screenshot saved: '' @
                    image_name env args w (Some (monitors ! j))) # rest) \<and>
               ConsoleLog (''  - '' @ image_name env args w (Some (monitors ! j)))
                 \<in> set (trace (snd (main env args w))) \<and>
               (Unlink (image_name env args w (Some (monitors ! j)))
                  \<notin> set (new_events W1 (snd (main env args w))) \<longrightarrow>
                image_name env args w (Some (monitors ! j)) \<in> files (snd (main env args w))))"
    if j: "j < length monitors" and
      pre: "captureDisplays env ?dir ?fmt ?q ?ts (take j monitors) [?main] ?w5 = (Inr shots, W0)"
    for j shots W0
  proof -
    let ?m = "monitors ! j"
    let ?name = "image_name env args w (Some ?m)"
    let ?K2 = "\<lambda>s. bind_io (captureDisplays env ?dir ?fmt ?q ?ts (drop (Suc j) monitors) s) report"
    have site: "main_try env args w = bind_io (captureDisplay env ?dir ?fmt ?q ?ts ?m shots) ?K2 W0"
      by (rule monitor_site_run [OF mk en undef cap pl j pre])
    have after: "\<exists>W8. main env args w = (0, W8) \<and> (\<exists>rest. trace W8 = trace Wn @ rest) \<and>
        (\<forall>f\<in>set s1. ConsoleLog (''  - '' @ f) \<in> set (trace W8)) \<and>
        (\<forall>p\<in>files Wn. p \<in> files W8 \<or> Unlink p \<in> set (new_events Wn W8))"
      if step: "captureDisplay env ?dir ?fmt ?q ?ts ?m shots W0 = (Inr s1, Wn)" for s1 Wn
    proof -
      obtain W8 where
        r8: "?K2 s1 Wn = (Inr 0, W8)" and
        rest8: "(\<exists>rest. trace W8 = trace Wn @ rest)"
          "(\<forall>f\<in>set s1. ConsoleLog (''  - '' @ f) \<in> set (trace W8))"
          "(\<forall>p\<in>files Wn. p \<in> files W8 \<or> Unlink p \<in> set (new_events Wn W8))"
        using loop_report [of env ?dir ?fmt ?q ?ts "drop (Suc j) monitors" s1 Wn] by blast
      have "main_try env args w = (Inr 0, W8)"
        using site step r8 by (simp add: bind_io_def)
      with rest8 show ?thesis using exit0 by blast
    qed
    have failed: "\<exists>rest. trace (snd (main env args w)) = trace W1 @ ?fail ?m e # rest"
      if "captureScreen env (Some ?m) W0 = (Inl e, W1)" for e W1
    proof -
      from after [OF captureDisplay_capture_failed [OF that]]
      obtain W8 rest where "main env args w = (0, W8)"
        "trace W8 = trace (emit (?fail ?m e) W1) @ rest"
        by blast
      then show ?thesis by (simp add: emit_def)
    qed
    have unplaced: "\<exists>rest. trace (snd (main env args w)) = trace W2 @ ?fail ?m e # rest"
      if c: "captureScreen env (Some ?m) W0 = (Inr shot, W1)"
        and p: "placeImage env shot ?name ?fmt ?q W1 = (Inl e, W2)" for shot W1 e W2
    proof -
      from p have p': "placeImage env shot (displayOutput env ?dir ?fmt ?ts ?m) ?fmt ?q W1 = (Inl e, W2)"
        by (simp add: displayOutput_image_name)
      from after [OF captureDisplay_place_failed [OF c p']]
      obtain W8 rest where "main env args w = (0, W8)"
        "trace W8 = trace (emit (?fail ?m e) W2) @ rest"
        by blast
      then show ?thesis by (simp add: emit_def)
    qed
    have placed: "(\<exists>rest. trace (snd (main env args w)) =
                  trace W2 @ ConsoleLog (check_mark @ '' Display '' @ String_nat (mon_index ?m) @
                    '' screenshot saved: '' @ ?name) # rest) \<and>
               ConsoleLog (''  - '' @ ?name) \<in> set (trace (snd (main env args w))) \<and>
               (Unlink ?name \<notin> set (new_events W1 (snd (main env args w))) \<longrightarrow>
                ?name \<in> files (snd (main env args w)))"
      if c: "captureScreen env (Some ?m) W0 = (Inr shot, W1)"
        and p: "placeImage env shot ?name ?fmt ?q W1 = (Inr (), W2)" for shot W1 W2
    proof -
      let ?saved = "ConsoleLog (check_mark @ '' Display '' @ String_nat (mon_index ?m) @
                    '' screenshot saved: '' @ ?name)"
      from p have p': "placeImage env shot (displayOutput env ?dir ?fmt ?ts ?m) ?fmt ?q W1 = (Inr (), W2)"
        by (simp add: displayOutput_image_name)
      have step: "captureDisplay env ?dir ?fmt ?q ?ts ?m shots W0 =
                    (Inr (shots @ [?name]), emit ?saved W2)"
        using captureDisplay_placed [OF c p', of shots] by (simp add: displayOutput_image_name)
      from after [OF step]
      obtain W8 rest where
        F8: "main env args w = (0, W8)" and
        t8: "trace W8 = trace (emit ?saved W2) @ rest" and
        l8: "\<forall>f\<in>set (shots @ [?name]). ConsoleLog (''  - '' @ f) \<in> set (trace W8)" and
        k8: "\<forall>p\<in>files (emit ?saved W2). p \<in> files W8 \<or> Unlink p \<in> set (new_events (emit ?saved W2) W8)"
        by blast
      have a: "\<exists>rest. trace (snd (main env args w)) = trace W2 @ ?saved # rest"
        using F8 t8 by (simp add: emit_def)
      have b: "ConsoleLog (''  - '' @ ?name) \<in> set (trace (snd (main env args w)))"
        using F8 l8 by simp
      have d: "?name \<in> files (snd (main env args w))"
        if never: "Unlink ?name \<notin> set (new_events W1 (snd (main env args w)))"
      proof -
        obtain r12 where t12: "trace W2 = trace W1 @ r12"
          using adds_only_extends [OF any_placeImage, of env shot ?name ?fmt ?q W1] p by auto
        have all: "new_events W1 W8 = r12 @ ?saved # rest"
          using t12 t8 by (simp add: new_events_def emit_def)
        have "new_events W1 W2 = r12" using t12 by (simp add: new_events_def)
        with placeImage_kept [OF p] have u: "Unlink shot \<in> set r12"
          and k: "shot \<noteq> ?name \<longrightarrow> ?name \<in> files W2" by simp_all
        from never all u have "shot \<noteq> ?name" by (auto simp: F8)
        with k have "?name \<in> files (emit ?saved W2)" by (simp add: emit_def)
        with k8 have "?name \<in> files W8 \<or> Unlink ?name \<in> set (new_events (emit ?saved W2) W8)"
          by blast
        moreover have "new_events (emit ?saved W2) W8 = rest" using t8 by (simp add: new_events_def)
        ultimately show ?thesis using never all by (auto simp: F8)
      qed
      from a b d show ?thesis by blast
    qed
    from failed unplaced placed show ?thesis by blast
  qed
  have c6: "\<exists>shots W0.
      captureDisplays env ?dir ?fmt ?q ?ts (take j monitors) [?main] ?w5 = (Inr shots, W0)" for j
    using captureDisplays_outcome [of env ?dir ?fmt ?q ?ts "take j monitors" "[?main]" ?w5] by blast
  from c1 c2 c3 c4 c5 c6 show ?thesis by blast
qed

section \<open>Examples\<close>

subsection \<open>Running the scripted machines\<close>

lemma scripted_fields:
  "os_platform (scripted plan je) = ''win32''"
  "os_tmpdir (scripted plan je) = ''/tmp''"
  "process_cwd (scripted plan je) = ''/work''"
  "path_join (scripted plan je) a b = a @ ''/'' @ b"
  "Date_now (scripted plan je) n = 1700000000000 + n"
  "new_Date (scripted plan je) w = noon\<lparr>getSeconds := 5 + ticks w\<rparr>"
  "exec_result (scripted plan je) w cmd = plan (execs w) w"
  "fails (scripted plan je) w e = (case e of JimpRead p \<Rightarrow> je | _ \<Rightarrow> None)"
  "js_Number (scripted plan je) = Number_literal"
  "typeerror_msg (scripted plan je) = ''Cannot read properties of undefined''"
  by (simp_all add: scripted_def base_env_def posix_join_def noon_def)

lemma execs_emit:
  "execs (emit e w) = (case e of Exec cmd \<Rightarrow> Suc (execs w) | _ \<Rightarrow> execs w)"
  by (cases e) (simp_all add: execs_def emit_def)

lemma execs_fields [simp]:
  "execs (w\<lparr>ticks := t\<rparr>) = execs w" "execs (w\<lparr>files := fs\<rparr>) = execs w"
  by (simp_all add: execs_def)

lemma scripted_detect: "detectPlatform (scripted plan je) w = (Inr ''win32'', w)"
  by (simp add: detectPlatform_eq scripted_fields)

lemma scripted_tempPaths:
  "tempPaths (scripted plan je) ''win32'' name ext w =
     (Inr (''/tmp/'' @ name @ String_nat (1700000000000 + ticks w) @ ext,
           ''/tmp/'' @ name @ String_nat (1700000000000 + ticks w) @ ext),
      w\<lparr>ticks := Suc (ticks w)\<rparr>)"
  by (simp add: tempPaths_def bind_io_def Date_now_io_def ret_def scripted_fields Let_def)

lemma two_screens_parsed:
  "js_Number env = Number_literal \<Longrightarrow> monitorList env two_screens_stdout = two_monitors"
  by (simp add: monitorList_def two_screens_stdout_def crlf_def js_trim_def js_space_def js_split_def
      starts_with_def parseMonitorLine_def Number_literal_def unsigned_literal_def
      re_digit_def digits_value_def js_nth_def Array_sort_def compareMonitors_def
      js_seq_def js_gt_def reindex_def Let_def two_monitors_def)

lemma two_screens_nonempty: "two_screens_stdout \<noteq> [] \<and> js_trim two_screens_stdout \<noteq> []"
  by (simp add: two_screens_stdout_def crlf_def js_trim_def js_space_def)

lemma scripted_enumerate:
  assumes "plan (execs w) = enumerate_ok"
  shows "getScreenInfo (scripted plan je) w =
     (Inr two_monitors,
      w\<lparr>files := insert (''/tmp/getmonitors_'' @ String_nat (1700000000000 + ticks w) @ ''.ps1'') (files w)
                  - {''/tmp/getmonitors_'' @ String_nat (1700000000000 + ticks w) @ ''.ps1''},
        trace := trace w @
          [WriteFile (''/tmp/getmonitors_'' @ String_nat (1700000000000 + ticks w) @ ''.ps1'') getmonitors_psContent,
           Exec (powershell_cmd ''win32'' (''/tmp/getmonitors_'' @ String_nat (1700000000000 + ticks w) @ ''.ps1'')),
           Unlink (''/tmp/getmonitors_'' @ String_nat (1700000000000 + ticks w) @ ''.ps1'')],
        ticks := Suc (ticks w)\<rparr>)"
  using assms [unfolded execs_def] two_screens_nonempty
  by (simp add: execs_def getScreenInfo_def getScreenInfo_windows_def bind_io_def catch_io_def ret_def
      scripted_detect scripted_tempPaths fs_writeFile_def execAsync_def unlink_quiet_def fs_unlink_def
      scripted_fields execs_emit emit_def enumerate_ok_def silent_def two_screens_parsed Let_def)


lemma scripted_capture_ok:
  assumes "plan (execs w) = capture_ok" "dimension_error (scripted plan je) mon = None"
  shows "captureScreen (scripted plan je) mon w =
     (Inr (''/tmp/screenshot_'' @ String_nat (1700000000000 + ticks w) @ ''.png''),
      w\<lparr>files := insert (''/tmp/screenshot_'' @ String_nat (1700000000000 + ticks w) @ ''.png'')
                    (insert (''/tmp/capture_'' @ String_nat (1700000000001 + ticks w) @ ''.ps1'') (files w))
                  - {''/tmp/capture_'' @ String_nat (1700000000001 + ticks w) @ ''.ps1''},
        trace := trace w @
          [WriteFile (''/tmp/capture_'' @ String_nat (1700000000001 + ticks w) @ ''.ps1'')
             (capture_psContent (scripted plan je) mon
                (''/tmp/screenshot_'' @ String_nat (1700000000000 + ticks w) @ ''.png'')),
           Exec (powershell_cmd ''win32'' (''/tmp/capture_'' @ String_nat (1700000000001 + ticks w) @ ''.ps1'')),
           Unlink (''/tmp/capture_'' @ String_nat (1700000000001 + ticks w) @ ''.ps1'')],
        ticks := Suc (Suc (ticks w))\<rparr>)"
  using assms [unfolded execs_def]
  by (simp add: execs_def captureScreen_def captureScreen_windows_def bind_io_def catch_io_def ret_def
      scripted_detect scripted_tempPaths fs_writeFile_def execAsync_def unlink_quiet_def fs_unlink_def
      fs_access_def scripted_fields emit_def capture_ok_def silent_def Let_def base_env_def)

lemma scripted_capture_failed:
  assumes "plan (execs w) = tool_failed" "dimension_error (scripted plan je) mon = None"
  shows "captureScreen (scripted plan je) mon w =
     (Inl ''Failed to capture screen: Command failed'',
      w\<lparr>files := insert (''/tmp/capture_'' @ String_nat (1700000000001 + ticks w) @ ''.ps1'') (files w),
        trace := trace w @
          [WriteFile (''/tmp/capture_'' @ String_nat (1700000000001 + ticks w) @ ''.ps1'')
             (capture_psContent (scripted plan je) mon
                (''/tmp/screenshot_'' @ String_nat (1700000000000 + ticks w) @ ''.png'')),
           Exec (powershell_cmd ''win32'' (''/tmp/capture_'' @ String_nat (1700000000001 + ticks w) @ ''.ps1''))],
        ticks := Suc (Suc (ticks w))\<rparr>)"
  using assms [unfolded execs_def]
  by (simp add: execs_def captureScreen_def captureScreen_windows_def bind_io_def catch_io_def throw_def
      scripted_detect scripted_tempPaths fs_writeFile_def execAsync_def
      scripted_fields emit_def tool_failed_def silent_def Let_def)

lemma scripted_place_png:
  assumes "shot \<in> files w"
  shows "placeImage (scripted plan je) shot out ''png'' q w =
     (Inr (), w\<lparr>files := insert out (files w) - {shot},
               trace := trace w @ [CopyFile shot out, Unlink shot]\<rparr>)"
  using assms
  by (simp add: placeImage_def bind_io_def fs_copyFile_def fs_unlink_def scripted_fields emit_def)

lemma scripted_convert_failed:
  assumes "format \<noteq> ''png''"
  shows "placeImage (scripted plan (Some message)) shot out format q w =
     (Inl (''Failed to convert image: '' @ message), w\<lparr>trace := trace w @ [JimpRead shot]\<rparr>)"
  using assms
  by (simp add: placeImage_def bind_io_def convertImage_def catch_io_def throw_def Jimp_read_def
      scripted_fields emit_def)

lemma scripted_mkdir:
  "fs_mkdir (scripted plan je) p w =
     (Inr (), w\<lparr>files := insert p (files w), trace := trace w @ [Mkdir p]\<rparr>)"
  by (simp add: fs_mkdir_def scripted_fields emit_def)

lemmas run_simps = main_def main_try_def allDisplays_def singleDisplay_def bind_io_def
  console_log_def console_error_def emit_def ret_def throw_def scripted_mkdir scripted_enumerate
  scripted_capture_ok scripted_capture_failed scripted_place_png scripted_convert_failed
  execs_def run_args_def outputDir_of_def scripted_fields empty_world_def dimension_error_def
  String_nat.simps digit_char_def Let_def plan_ok_def plan_first_fails_def plan_capture_fails_def
  world_made_def world_enumerated_def world_captured_def world_placed_def insert_Diff_if

lemma step_made: "fs_mkdir (scripted plan je) ''/work'' empty_world = (Inr (), world_made)"
  by (simp add: run_simps)

lemma step_enumerated:
  "plan 0 = enumerate_ok \<Longrightarrow> getScreenInfo (scripted plan je) world_made = (Inr two_monitors, world_enumerated)"
  by (simp add: run_simps)

lemma step_captured:
  "plan 1 = capture_ok \<Longrightarrow>
   captureScreen (scripted plan je) None (emit (ConsoleLog announcement) world_enumerated) =
     (Inr ''/tmp/screenshot_1700000000001.png'', world_captured (scripted plan je) announcement)"
  by (simp add: run_simps)

lemma step_placed:
  "placeImage (scripted plan je) ''/tmp/screenshot_1700000000001.png''
     ''/work/DesktopImage_2024-01-20_14-30-05.png'' ''png'' q
     (world_captured (scripted plan je) ''Capturing desktop screenshot...'') =
   (Inr (), world_placed (scripted plan je))"
  by (simp add: run_simps)

lemma desktop_name:
  "ticks w = 0 \<Longrightarrow>
   generateFilename ''DesktopImage'' ''png'' (getTimestamp (scripted plan je) w) =
     ''DesktopImage_2024-01-20_14-30-05.png''"
  by (simp add: generateFilename_def getTimestamp_def scripted_fields noon_def String_int_def
      padStart2_def String_nat.simps digit_char_def)

lemmas loop_simps = captureDisplays.simps captureDisplay_def catch_io_def displayOutput_def
  generateFilename_def getTimestamp_def noon_def String_int_def padStart2_def report_def
  log_files.simps two_monitors_def js_le_def

lemma args_simps:
  "arg_display (run_args d f) = d" "arg_format (run_args d f) = f"
  "arg_quality (run_args d f) = Finite 100" "outputDir_of (scripted plan je) (run_args d f) = ''/work''"
  by (simp_all add: run_args_def outputDir_of_def scripted_fields)

lemma run_capture_fails:
  "\<exists>W. main (scripted plan_capture_fails None) (run_args Undefined ''png'') empty_world = (1, W) \<and>
        files W = {''/tmp/capture_1700000000002.ps1'', ''/work''}"
  by (simp add: run_simps)



lemma image_name_desktop:
  "ticks w = 0 \<Longrightarrow>
   image_name (scripted plan je) (run_args d ''png'') w None =
     ''/work/DesktopImage_2024-01-20_14-30-05.png''"
  by (simp add: image_name_def target_prefix_def args_simps scripted_fields desktop_name)

lemma image_name_display2:
  "ticks w = 0 \<Longrightarrow>
   image_name (scripted plan je) (run_args d ''png'') w (Some (two_monitors ! 1)) =
     ''/work/DisplayImage2_2024-01-20_14-30-05.png''"
  by (simp add: image_name_def target_prefix_def args_simps scripted_fields generateFilename_def
      getTimestamp_def noon_def String_int_def padStart2_def String_nat.simps digit_char_def
      two_monitors_def)

lemma first_stuck:
  "captureScreen (scripted plan_first_fails je) (Some (two_monitors ! 0)) (world_listed (scripted plan_first_fails je)) =
     (Inl ''Failed to capture screen: Command failed'', world_stuck (scripted plan_first_fails je))"
  by (simp add: run_simps world_listed_def world_stuck_def plan_first_fails_def two_monitors_def
      js_le_def)

lemma second_captured:
  "captureScreen (scripted plan_first_fails je) (Some (two_monitors ! 1)) (world_skipped (scripted plan_first_fails je)) =
     (Inr ''/tmp/screenshot_1700000000005.png'', world_second (scripted plan_first_fails je))"
  by (simp add: run_simps world_listed_def world_stuck_def world_skipped_def world_second_def
      plan_first_fails_def two_monitors_def js_le_def)

lemma second_placed:
  "placeImage (scripted plan_first_fails je) ''/tmp/screenshot_1700000000005.png''
     ''/work/DisplayImage2_2024-01-20_14-30-05.png'' ''png'' q (world_second (scripted plan_first_fails je)) =
   (Inr (), world_second_placed (scripted plan_first_fails je))"
  by (simp add: run_simps world_second_def world_second_placed_def)

lemma first_skipped:
  "captureDisplays (scripted plan_first_fails je) dir fmt q ts (take 1 two_monitors) shots
     (world_listed (scripted plan_first_fails je)) =
   (Inr shots, world_skipped (scripted plan_first_fails je))"
proof -
  have t: "take 1 two_monitors = [two_monitors ! 0]" by (simp add: two_monitors_def)
  have i: "String_nat (mon_index (two_monitors ! 0)) = ''1''"
    by (simp add: two_monitors_def String_nat.simps digit_char_def)
  show ?thesis
    unfolding t
    by (simp add: bind_io_def ret_def captureDisplay_capture_failed [OF first_stuck] world_skipped_def i)
qed

lemma run_first_fails:
  "main (scripted plan_first_fails None) (run_args Undefined ''png'') empty_world =
     (0, world_done (scripted plan_first_fails None))"
  by (simp add: run_simps loop_simps plan_first_fails_def world_listed_def world_stuck_def
      world_skipped_def world_second_def world_second_placed_def world_done_def)




lemma display2_name:
  "ticks w = 0 \<Longrightarrow>
   path_join (scripted plan je) (outputDir_of (scripted plan je) (run_args d ''png''))
     (generateFilename (''DisplayImage'' @ String_nat (mon_index (two_monitors ! 1)))
        (arg_format (run_args d ''png'')) (getTimestamp (scripted plan je) w)) =
   ''/work/DisplayImage2_2024-01-20_14-30-05.png''"
  by (simp add: args_simps scripted_fields generateFilename_def getTimestamp_def noon_def
      String_int_def padStart2_def String_nat.simps digit_char_def two_monitors_def)

subsection \<open>Temporary files\<close>

lemma run_convert_fails:
  "\<exists>W. main (scripted plan_ok (Some ''Unsupported MIME type'')) (run_args Undefined ''jpg'') empty_world = (1, W) \<and>
        files W = {''/tmp/screenshot_1700000000001.png'', ''/work''}"
  by (simp add: run_simps)

text \<open>
  C1. The claim fails on the code in two places. When the capture script exits with an
  error, \<open>captureScreen\<close> rethrows without unlinking the script it wrote (the \<open>catch\<close> of
  \<open>getScreenInfo\<close> does unlink its script): the run ends with the script still there.
  When the codec fails, \<open>main\<close> never reaches the \<open>unlink\<close> that follows \<open>convertImage\<close>:
  the run ends with the temporary screenshot still there.
\<close>

theorem temporary_files_left_behind:
  "fst (main (scripted plan_capture_fails None) (run_args Undefined ''png'') empty_world) = 1 \<and>
   files (snd (main (scripted plan_capture_fails None) (run_args Undefined ''png'') empty_world)) =
     {''/tmp/capture_1700000000002.ps1'', ''/work''} \<and>
   fst (main (scripted plan_ok (Some ''Unsupported MIME type'')) (run_args Undefined ''jpg'') empty_world) = 1 \<and>
   files (snd (main (scripted plan_ok (Some ''Unsupported MIME type'')) (run_args Undefined ''jpg'') empty_world)) =
     {''/tmp/screenshot_1700000000001.png'', ''/work''}"
proof -
  from run_capture_fails obtain W1 where
    a: "main (scripted plan_capture_fails None) (run_args Undefined ''png'') empty_world = (1, W1)"
       "files W1 = {''/tmp/capture_1700000000002.ps1'', ''/work''}"
    by blast
  from run_convert_fails obtain W2 where
    b: "main (scripted plan_ok (Some ''Unsupported MIME type'')) (run_args Undefined ''jpg'') empty_world = (1, W2)"
       "files W2 = {''/tmp/screenshot_1700000000001.png'', ''/work''}"
    by blast
  show ?thesis
    by (simp only: a b fst_conv snd_conv simp_thms)
qed

subsection \<open>Enumeration\<close>

lemma scripted_windows_family: "windows_family (scripted plan je) w"
  by (simp add: windows_family_def scripted_detect)

lemma enumerated_from_empty:
  "fst (getScreenInfo (scripted plan_ok None) empty_world) = Inr two_monitors"
  by (simp add: scripted_enumerate plan_ok_def execs_def empty_world_def)

text \<open>The two screens of the scripted machine, enumerated: both have positive sizes.\<close>

theorem getScreenInfo_windows_positive_witness:
  "windows_family (scripted plan_ok None) empty_world \<and>
   fst (getScreenInfo (scripted plan_ok None) empty_world) = Inr two_monitors \<and>
   two_monitors ! 1 \<in> set two_monitors \<and>
   js_gt (mon_width (two_monitors ! 1)) (Finite 0) \<and>
   js_gt (mon_height (two_monitors ! 1)) (Finite 0)"
proof -
  have m: "two_monitors ! 1 \<in> set two_monitors" by (simp add: two_monitors_def)
  from getScreenInfo_windows_positive [OF scripted_windows_family enumerated_from_empty m]
  show ?thesis
    by (intro conjI scripted_windows_family enumerated_from_empty m) simp_all
qed

text \<open>On Linux nothing is dropped: an \<open>xrandr\<close> line \<open>X connected 0x0+0+0\<close> matches the
  pattern, and the monitor of width 0 and height 0 is returned.\<close>

theorem getScreenInfo_all_platforms_counterexample:
  "fst (getScreenInfo xrandr_zero_env empty_world) = Inr [zero_monitor] \<and>
   js_le (mon_width zero_monitor) (Finite 0) \<and> js_le (mon_height zero_monitor) (Finite 0)"
  by (simp add: getScreenInfo_def getScreenInfo_linux_def detectPlatform_eq bind_io_def catch_io_def
      ret_def execAsync_def emit_def xrandr_zero_env_def base_env_def silent_def empty_world_def
      Let_def js_split_def starts_with_def re_search_def xrandr_re_def re_digit_def re_dot_def
      js_space_def parseInt_literal_def unsigned_literal_def digits_value_def zero_monitor_def
      js_le_def)

text \<open>The script printed the right-hand screen first; the left-hand one comes first in the
  result, with index 1.\<close>

theorem getScreenInfo_windows_sorted_witness:
  "windows_family (scripted plan_ok None) empty_world \<and>
   fst (getScreenInfo (scripted plan_ok None) empty_world) = Inr two_monitors \<and>
   mon_index (two_monitors ! 0) = 1 \<and> mon_index (two_monitors ! 1) = 2 \<and>
   placed (two_monitors ! 0) \<and> placed (two_monitors ! 1) \<and>
   reading_order (two_monitors ! 0) (two_monitors ! 1)"
proof -
  have p: "\<forall>m\<in>set two_monitors. placed m" by (simp add: two_monitors_def placed_def)
  have p0: "placed (two_monitors ! 0)" and p1: "placed (two_monitors ! 1)"
    by (simp_all add: two_monitors_def placed_def)
  have l0: "0 < length two_monitors" and l1: "1 < length two_monitors"
    by (simp_all add: two_monitors_def)
  note sorted = getScreenInfo_windows_sorted [OF scripted_windows_family enumerated_from_empty]
  from sorted have idx: "\<forall>i<length two_monitors. mon_index (two_monitors ! i) = i + 1"
    by blast
  from idx l0 have c1: "mon_index (two_monitors ! 0) = 1" by auto
  from idx l1 have c2: "mon_index (two_monitors ! 1) = 2" by auto
  from sorted p l1 have c3: "reading_order (two_monitors ! 0) (two_monitors ! 1)" by auto
  note c = c1 c2 c3
  show ?thesis
    by (intro conjI scripted_windows_family enumerated_from_empty c p0 p1)
qed

subsection \<open>Capture and placing\<close>

lemma tostring_small:
  "js_tostring env (Finite 0) = ''0''" "js_tostring env (Finite 1080) = ''1080''"
  "js_tostring env (Finite 1920) = ''1920''"
  by (simp_all add: js_tostring_def String_int_def String_nat.simps digit_char_def)

lemma tostring_left:
  "js_tostring env (Math_max0 (mon_x left_monitor)) = ''0''"
  "js_tostring env (Math_max0 (mon_y left_monitor)) = ''0''"
  "js_tostring env (mon_width left_monitor) = ''1920''"
  "js_tostring env (mon_height left_monitor) = ''1080''"
  by (simp_all add: left_monitor_def tostring_small)

text \<open>A monitor of width 0 is refused before anything is written. A monitor at
  \<open>x = -1920\<close> is captured by a script that starts at \<open>$x = 0\<close> with the monitor's own width
  and height, and PowerShell runs that script next.\<close>

theorem captureScreen_windows_validation_witness:
  \<open>windows_family (scripted plan_capture None) empty_world \<and>
   (js_le (mon_width flat_monitor) (Finite 0) \<or> js_le (mon_height flat_monitor) (Finite 0)) \<and>
   (\<exists>w'. captureScreen (scripted plan_capture None) (Some flat_monitor) empty_world =
           (Inl ''Failed to capture screen: Invalid monitor dimensions: 0x1080'', w') \<and>
         trace w' = trace empty_world \<and> files w' = files empty_world) \<and>
   \<not> (js_le (mon_width left_monitor) (Finite 0) \<or> js_le (mon_height left_monitor) (Finite 0)) \<and>
   mon_x left_monitor = Finite (- 1920) \<and> Math_max0 (mon_x left_monitor) = Finite 0 \<and>
   js_le (Finite 0) (Math_max0 (mon_x left_monitor)) \<and>
   (\<exists>rest.
      new_events empty_world (snd (captureScreen (scripted plan_capture None) (Some left_monitor) empty_world)) =
      WriteFile ''/tmp/capture_1700000000001.ps1''
        (concat (map (\<lambda>l. l @ [CHR 0x0A])
           ['''',
            ''Add-Type -AssemblyName System.Drawing'',
            ''Add-Type -AssemblyName System.Windows.Forms'',
            ''$x = 0'',
            ''$y = 0'',
            ''$width = 1920'',
            ''$height = 1080'',
            ''if ($width -le 0 -or $height -le 0) {'',
            ''    Write-Error "Invalid dimensions: $width x $height"'',
            ''    exit 1'',
            ''}'',
            ''$bounds = [System.Drawing.Rectangle]::FromLTRB($x, $y, ($x + $width), ($y + $height))'',
            ''$bitmap = New-Object System.Drawing.Bitmap($width, $height)'',
            ''$graphics = [System.Drawing.Graphics]::FromImage($bitmap)'',
            ''$graphics.CopyFromScreen($bounds.Location, [System.Drawing.Point]::Empty, $bounds.Size)'',
            ''$bitmap.Save('' @ [CHR 0x27] @ ''/tmp/screenshot_1700000000000.png'' @ [CHR 0x27] @
              '', [System.Drawing.Imaging.ImageFormat]::Png)'',
            ''$graphics.Dispose()'',
            ''$bitmap.Dispose()''])) #
      Exec (powershell_cmd ''win32'' ''/tmp/capture_1700000000001.ps1'') # rest)\<close>
proof -
  let ?E = "scripted plan_capture None"
  have f: "js_le (mon_width flat_monitor) (Finite 0) \<or> js_le (mon_height flat_monitor) (Finite 0)"
    by (simp add: flat_monitor_def js_le_def)
  have l: "\<not> (js_le (mon_width left_monitor) (Finite 0) \<or> js_le (mon_height left_monitor) (Finite 0))"
    by (simp add: left_monitor_def js_le_def)
  have x: "mon_x left_monitor = Finite (- 1920)"
    by (simp add: left_monitor_def)
  note flat = captureScreen_windows_validation
    [where env = ?E and w = empty_world and m = flat_monitor, OF scripted_windows_family]
  note left = captureScreen_windows_validation
    [where env = ?E and w = empty_world and m = left_monitor, OF scripted_windows_family]
  from flat f have c1: "\<exists>w'. captureScreen ?E (Some flat_monitor) empty_world =
           (Inl ''Failed to capture screen: Invalid monitor dimensions: 0x1080'', w') \<and>
         trace w' = trace empty_world \<and> files w' = files empty_world"
    by (simp add: flat_monitor_def tostring_small)
  from left x have m0: "Math_max0 (mon_x left_monitor) = Finite 0"
    by simp
  from left x have c3: "js_le (Finite 0) (Math_max0 (mon_x left_monitor))"
    by simp
  note valid = left [THEN conjunct2, THEN conjunct1, rule_format, OF l]
  have t1: "fst (tempPaths ?E ''win32'' ''screenshot_'' ''.png'' empty_world) =
              Inr (''/tmp/screenshot_1700000000000.png'', ''/tmp/screenshot_1700000000000.png'')"
    by (simp add: scripted_tempPaths empty_world_def String_nat.simps digit_char_def)
  have t2: "fst (tempPaths ?E ''win32'' ''capture_'' ''.ps1'' (empty_world\<lparr>ticks := Suc (ticks empty_world)\<rparr>)) =
              Inr (''/tmp/capture_1700000000001.ps1'', ''/tmp/capture_1700000000001.ps1'')"
    by (simp add: scripted_tempPaths empty_world_def String_nat.simps digit_char_def)
  have dp: "fst (detectPlatform ?E empty_world) = Inr ''win32''"
    by (simp add: scripted_detect)
  have sp: "replace_all_char (CHR 0x5C) [CHR 0x5C, CHR 0x5C] ''/tmp/screenshot_1700000000000.png'' =
            ''/tmp/screenshot_1700000000000.png''"
    by (simp add: replace_all_char_def)
  from valid obtain platform tempFile windowsTempFile psScript psScriptWin script rest where
    v: \<open>fst (detectPlatform ?E empty_world) = Inr platform \<and>
       fst (tempPaths ?E platform ''screenshot_'' ''.png'' empty_world) = Inr (tempFile, windowsTempFile) \<and>
       fst (tempPaths ?E platform ''capture_'' ''.ps1'' (empty_world\<lparr>ticks := Suc (ticks empty_world)\<rparr>)) =
         Inr (psScript, psScriptWin) \<and>
       script =
         concat (map (\<lambda>l. l @ [CHR 0x0A])
           ['''',
            ''Add-Type -AssemblyName System.Drawing'',
            ''Add-Type -AssemblyName System.Windows.Forms'',
            ''$x = '' @ js_tostring ?E (Math_max0 (mon_x left_monitor)),
            ''$y = '' @ js_tostring ?E (Math_max0 (mon_y left_monitor)),
            ''$width = '' @ js_tostring ?E (mon_width left_monitor),
            ''$height = '' @ js_tostring ?E (mon_height left_monitor),
            ''if ($width -le 0 -or $height -le 0) {'',
            ''    Write-Error "Invalid dimensions: $width x $height"'',
            ''    exit 1'',
            ''}'',
            ''$bounds = [System.Drawing.Rectangle]::FromLTRB($x, $y, ($x + $width), ($y + $height))'',
            ''$bitmap = New-Object System.Drawing.Bitmap($width, $height)'',
            ''$graphics = [System.Drawing.Graphics]::FromImage($bitmap)'',
            ''$graphics.CopyFromScreen($bounds.Location, [System.Drawing.Point]::Empty, $bounds.Size)'',
            ''$bitmap.Save('' @ [CHR 0x27] @
              replace_all_char (CHR 0x5C) [CHR 0x5C, CHR 0x5C] windowsTempFile @ [CHR 0x27] @
              '', [System.Drawing.Imaging.ImageFormat]::Png)'',
            ''$graphics.Dispose()'',
            ''$bitmap.Dispose()'']) \<and>
       new_events empty_world (snd (captureScreen ?E (Some left_monitor) empty_world)) =
         WriteFile psScript script # rest \<and>
       (fails ?E (empty_world\<lparr>ticks := Suc (Suc (ticks empty_world))\<rparr>) (WriteFile psScript script) = None \<longrightarrow>
          (\<exists>rest'. rest = Exec (powershell_cmd platform psScriptWin) # rest'))\<close>
    by (elim exE) 
  note v1 = v [THEN conjunct1]
  note v2 = v [THEN conjunct2, THEN conjunct1]
  note v3 = v [THEN conjunct2, THEN conjunct2, THEN conjunct1]
  note v4 = v [THEN conjunct2, THEN conjunct2, THEN conjunct2, THEN conjunct1]
  note v5 = v [THEN conjunct2, THEN conjunct2, THEN conjunct2, THEN conjunct2, THEN conjunct1]
  note v6 = v [THEN conjunct2, THEN conjunct2, THEN conjunct2, THEN conjunct2, THEN conjunct2]
  from v1 dp have pl: "platform = ''win32''" by simp
  from v2 [unfolded pl t1] have tf: "windowsTempFile = ''/tmp/screenshot_1700000000000.png''"
    by auto
  from v3 [unfolded pl t2] have ps: "psScript = ''/tmp/capture_1700000000001.ps1''"
      "psScriptWin = ''/tmp/capture_1700000000001.ps1''"
    by auto
  have nofail: "fails ?E W (WriteFile psScript script) = None" for W
    by (simp add: scripted_fields)
  from v6 [rule_format, OF nofail] obtain rest' where
    r: "rest = Exec (powershell_cmd platform psScriptWin) # rest'" ..
  from v4 have sc: \<open>script =
         concat (map (\<lambda>l. l @ [CHR 0x0A])
           ['''',
            ''Add-Type -AssemblyName System.Drawing'',
            ''Add-Type -AssemblyName System.Windows.Forms'',
            ''$x = 0'',
            ''$y = 0'',
            ''$width = 1920'',
            ''$height = 1080'',
            ''if ($width -le 0 -or $height -le 0) {'',
            ''    Write-Error "Invalid dimensions: $width x $height"'',
            ''    exit 1'',
            ''}'',
            ''$bounds = [System.Drawing.Rectangle]::FromLTRB($x, $y, ($x + $width), ($y + $height))'',
            ''$bitmap = New-Object System.Drawing.Bitmap($width, $height)'',
            ''$graphics = [System.Drawing.Graphics]::FromImage($bitmap)'',
            ''$graphics.CopyFromScreen($bounds.Location, [System.Drawing.Point]::Empty, $bounds.Size)'',
            ''$bitmap.Save('' @ [CHR 0x27] @ ''/tmp/screenshot_1700000000000.png'' @ [CHR 0x27] @
              '', [System.Drawing.Imaging.ImageFormat]::Png)'',
            ''$graphics.Dispose()'',
            ''$bitmap.Dispose()''])\<close>
    unfolding tf sp tostring_left by simp
  from v5 have c2: \<open>\<exists>rest.
      new_events empty_world (snd (captureScreen ?E (Some left_monitor) empty_world)) =
      WriteFile ''/tmp/capture_1700000000001.ps1''
        (concat (map (\<lambda>l. l @ [CHR 0x0A])
           ['''',
            ''Add-Type -AssemblyName System.Drawing'',
            ''Add-Type -AssemblyName System.Windows.Forms'',
            ''$x = 0'',
            ''$y = 0'',
            ''$width = 1920'',
            ''$height = 1080'',
            ''if ($width -le 0 -or $height -le 0) {'',
            ''    Write-Error "Invalid dimensions: $width x $height"'',
            ''    exit 1'',
            ''}'',
            ''$bounds = [System.Drawing.Rectangle]::FromLTRB($x, $y, ($x + $width), ($y + $height))'',
            ''$bitmap = New-Object System.Drawing.Bitmap($width, $height)'',
            ''$graphics = [System.Drawing.Graphics]::FromImage($bitmap)'',
            ''$graphics.CopyFromScreen($bounds.Location, [System.Drawing.Point]::Empty, $bounds.Size)'',
            ''$bitmap.Save('' @ [CHR 0x27] @ ''/tmp/screenshot_1700000000000.png'' @ [CHR 0x27] @
              '', [System.Drawing.Imaging.ImageFormat]::Png)'',
            ''$graphics.Dispose()'',
            ''$bitmap.Dispose()''])) #
      Exec (powershell_cmd ''win32'' ''/tmp/capture_1700000000001.ps1'') # rest\<close>
    unfolding r ps pl sc by (rule exI)
  show ?thesis
    by (intro conjI scripted_windows_family f c1 l x m0 c3 c2)
qed


text \<open>The second monitor is captured five clock reads after the start of the run, when
  the calendar clock is five seconds further: its file still carries the timestamp of the
  start, and the index 2 of its own monitor.\<close>

theorem output_names_witness:
  "calendar (new_Date (scripted plan_first_fails None) empty_world) \<and>
   generateFilename ''DisplayImage2'' ''png'' (getTimestamp (scripted plan_first_fails None) empty_world) =
     ''DisplayImage2'' @ ''_'' @ ''2024'' @ ''-'' @ ''01'' @ ''-'' @ ''20'' @ ''_'' @ ''14'' @ ''-'' @
     ''30'' @ ''-'' @ ''05'' @ ''.'' @ ''png'' \<and>
   1000 \<le> getFullYear (new_Date (scripted plan_first_fails None) empty_world) \<and>
   getFullYear (new_Date (scripted plan_first_fails None) empty_world) \<le> 9999 \<and>
   length (String_int (getFullYear (new_Date (scripted plan_first_fails None) empty_world))) = 4 \<and>
   capture_site (scripted plan_first_fails None) (run_args Undefined ''png'') empty_world
     (Some (two_monitors ! 1)) (world_skipped (scripted plan_first_fails None)) \<and>
   captureScreen (scripted plan_first_fails None) (Some (two_monitors ! 1))
     (world_skipped (scripted plan_first_fails None)) =
     (Inr ''/tmp/screenshot_1700000000005.png'', world_second (scripted plan_first_fails None)) \<and>
   arg_format (run_args Undefined ''png'') = ''png'' \<and>
   getSeconds (new_Date (scripted plan_first_fails None) empty_world) = 5 \<and>
   getSeconds (new_Date (scripted plan_first_fails None) (world_skipped (scripted plan_first_fails None))) = 10 \<and>
   (\<exists>rest. new_events (world_second (scripted plan_first_fails None))
             (snd (main (scripted plan_first_fails None) (run_args Undefined ''png'') empty_world)) =
           CopyFile ''/tmp/screenshot_1700000000005.png'' ''/work/DisplayImage2_2024-01-20_14-30-05.png''
             # rest) \<and>
   CopyFile ''/tmp/screenshot_1700000000001.png'' ''/work/DesktopImage_2024-01-20_14-30-05.png''
     \<in> set (new_events empty_world
              (snd (main (scripted plan_first_fails None) (run_args Undefined ''png'') empty_world))) \<and>
   (\<exists>prefix. image_prefix prefix \<and>
      ''/work/DesktopImage_2024-01-20_14-30-05.png'' =
        ''/work'' @ ''/'' @
        generateFilename prefix ''png'' (getTimestamp (scripted plan_first_fails None) empty_world))"
proof -
  let ?E = "scripted plan_first_fails None" and ?A = "run_args Undefined ''png''"
  have tk: "ticks empty_world = 0" by (simp add: empty_world_def)
  note nD = image_name_desktop [OF tk, of plan_first_fails None Undefined]
  have cal: "calendar (new_Date ?E empty_world)"
    by (simp add: calendar_def scripted_fields noon_def empty_world_def)
  have y1: "1000 \<le> getFullYear (new_Date ?E empty_world)"
    and y2: "getFullYear (new_Date ?E empty_world) \<le> 9999"
    by (simp_all add: scripted_fields noon_def)
  have s0: "getSeconds (new_Date ?E empty_world) = 5"
    by (simp add: scripted_fields empty_world_def)
  have s1: "getSeconds (new_Date ?E (world_skipped ?E)) = 10"
    by (simp add: scripted_fields world_skipped_def world_stuck_def emit_def)
  have h1: "arg_display ?A = Undefined" by (simp add: args_simps)
  have h2: "fs_mkdir ?E (outputDir_of ?E ?A) empty_world = (Inr (), world_made)"
    by (simp add: args_simps step_made)
  have h3: "getScreenInfo ?E world_made = (Inr two_monitors, world_enumerated)"
    by (simp add: step_enumerated plan_first_fails_def)
  have h4: "captureScreen ?E None (emit (ConsoleLog ''Capturing desktop screenshot...'') world_enumerated) =
     (Inr ''/tmp/screenshot_1700000000001.png'', world_captured ?E ''Capturing desktop screenshot...'')"
    by (simp add: step_captured plan_first_fails_def)
  have h5: "placeImage ?E ''/tmp/screenshot_1700000000001.png'' (image_name ?E ?A empty_world None)
     (arg_format ?A) (arg_quality ?A) (world_captured ?E ''Capturing desktop screenshot...'') =
     (Inr (), world_placed ?E)"
    by (simp add: nD args_simps step_placed)
  have w5: "emit (ConsoleLog (''Capturing '' @ String_nat (length two_monitors) @ '' individual displays...''))
              (emit (ConsoleLog (check_mark @ '' Main desktop screenshot saved: '' @
                                 image_name ?E ?A empty_world None)) (world_placed ?E)) =
            world_listed ?E"
    by (simp add: nD world_listed_def two_monitors_def String_nat.simps digit_char_def)
  have len1: "1 < length two_monitors" by (simp add: two_monitors_def)
  have pre1: "captureDisplays ?E (outputDir_of ?E ?A) (arg_format ?A) (arg_quality ?A)
      (getTimestamp ?E empty_world) (take 1 two_monitors) [image_name ?E ?A empty_world None]
      (emit (ConsoleLog (''Capturing '' @ String_nat (length two_monitors) @ '' individual displays...''))
         (emit (ConsoleLog (check_mark @ '' Main desktop screenshot saved: '' @
                            image_name ?E ?A empty_world None)) (world_placed ?E))) =
      (Inr [image_name ?E ?A empty_world None], world_skipped ?E)"
    unfolding w5 by (rule first_skipped)
  have site: "capture_site ?E ?A empty_world (Some (two_monitors ! 1)) (world_skipped ?E)"
    by (rule monitor_site [OF h2 h3 h1 h4 h5 len1 pre1])
  have p: "arg_format ?A = ''png''" by (simp add: args_simps)
  note T = output_names [where env = ?E and w = empty_world and args = ?A
      and target = "Some (two_monitors ! 1)" and ?W0.0 = "world_skipped ?E"
      and shot = "''/tmp/screenshot_1700000000005.png''" and ?W1.0 = "world_second ?E"
      and ?prefix = "''DisplayImage2''" and ?format = "''png''"]
  from T cal have name: "generateFilename ''DisplayImage2'' ''png'' (getTimestamp ?E empty_world) =
     ''DisplayImage2'' @ ''_'' @ ''2024'' @ ''-'' @ ''01'' @ ''-'' @ ''20'' @ ''_'' @ ''14'' @ ''-'' @
     ''30'' @ ''-'' @ ''05'' @ ''.'' @ ''png''"
    by (simp add: scripted_fields noon_def empty_world_def two_digits_def digit_char_def String_int_def
        String_nat.simps)
  from T y1 y2 have y3: "length (String_int (getFullYear (new_Date ?E empty_world))) = 4" by blast
  note T4 = T [THEN conjunct2, THEN conjunct2, THEN conjunct2, rule_format,
      OF conjI [OF site second_captured], THEN conjunct1, rule_format, OF p]
  have c: "\<exists>rest. new_events (world_second ?E) (snd (main ?E ?A empty_world)) =
           CopyFile ''/tmp/screenshot_1700000000005.png'' ''/work/DisplayImage2_2024-01-20_14-30-05.png''
             # rest"
    using T4 unfolding option.case display2_name [OF tk] .
  have "length (trace empty_world) = 0" by (simp add: empty_world_def)
  then have ne: "new_events empty_world (snd (main ?E ?A empty_world)) = trace (world_done ?E)"
    by (simp add: run_first_fails new_events_def)
  have e1: "CopyFile ''/tmp/screenshot_1700000000001.png'' ''/work/DesktopImage_2024-01-20_14-30-05.png''
     \<in> set (new_events empty_world (snd (main ?E ?A empty_world)))"
    unfolding ne
    by (simp add: world_done_def world_second_placed_def world_second_def world_skipped_def
        world_stuck_def world_listed_def world_placed_def emit_def)
  from T [THEN conjunct2, THEN conjunct2, THEN conjunct1]
  have all: "\<forall>e\<in>set (new_events empty_world (snd (main ?E ?A empty_world))).
      \<forall>p. output_of e = Some p \<longrightarrow>
        (\<exists>prefix. image_prefix prefix \<and>
           p = ''/work'' @ ''/'' @ generateFilename prefix ''png'' (getTimestamp ?E empty_world))"
    by (simp add: list_all_iff args_simps scripted_fields)
  from all e1 have p1: "\<exists>prefix. image_prefix prefix \<and>
      ''/work/DesktopImage_2024-01-20_14-30-05.png'' =
        ''/work'' @ ''/'' @ generateFilename prefix ''png'' (getTimestamp ?E empty_world)"
    by fastforce
  show ?thesis by (intro conjI cal name y1 y2 y3 site second_captured p s0 s1 c e1 p1)
qed

subsection \<open>Whole runs\<close>

text \<open>The capture of the first of two monitors fails: the failure is printed, the second
  monitor is captured and placed all the same, and the run ends with code 0, with the
  desktop and the second monitor in the file system.\<close>

theorem partial_failure_tolerated_witness:
  "arg_display (run_args Undefined ''png'') = Undefined \<and>
   fs_mkdir (scripted plan_first_fails None) ''/work'' empty_world = (Inr (), world_made) \<and>
   getScreenInfo (scripted plan_first_fails None) world_made = (Inr two_monitors, world_enumerated) \<and>
   captureScreen (scripted plan_first_fails None) None
     (emit (ConsoleLog ''Capturing desktop screenshot...'') world_enumerated) =
     (Inr ''/tmp/screenshot_1700000000001.png'',
      world_captured (scripted plan_first_fails None) ''Capturing desktop screenshot...'') \<and>
   placeImage (scripted plan_first_fails None) ''/tmp/screenshot_1700000000001.png''
     ''/work/DesktopImage_2024-01-20_14-30-05.png'' ''png'' (Finite 100)
     (world_captured (scripted plan_first_fails None) ''Capturing desktop screenshot...'') =
     (Inr (), world_placed (scripted plan_first_fails None)) \<and>
   main (scripted plan_first_fails None) (run_args Undefined ''png'') empty_world =
     (0, world_done (scripted plan_first_fails None)) \<and>
   ConsoleLog ''  - /work/DesktopImage_2024-01-20_14-30-05.png''
     \<in> set (trace (world_done (scripted plan_first_fails None))) \<and>
   ''/work/DesktopImage_2024-01-20_14-30-05.png'' \<in> files (world_done (scripted plan_first_fails None)) \<and>
   captureScreen (scripted plan_first_fails None) (Some (two_monitors ! 0))
     (world_listed (scripted plan_first_fails None)) =
     (Inl ''Failed to capture screen: Command failed'', world_stuck (scripted plan_first_fails None)) \<and>
   (\<exists>rest. trace (world_done (scripted plan_first_fails None)) =
      trace (world_stuck (scripted plan_first_fails None)) @
      ConsoleError (cross_mark @ '' Failed to capture display 1: Failed to capture screen: Command failed'')
        # rest) \<and>
   captureDisplays (scripted plan_first_fails None) ''/work'' ''png'' (Finite 100)
     (getTimestamp (scripted plan_first_fails None) empty_world) (take 1 two_monitors)
     [''/work/DesktopImage_2024-01-20_14-30-05.png''] (world_listed (scripted plan_first_fails None)) =
     (Inr [''/work/DesktopImage_2024-01-20_14-30-05.png''], world_skipped (scripted plan_first_fails None)) \<and>
   captureScreen (scripted plan_first_fails None) (Some (two_monitors ! 1))
     (world_skipped (scripted plan_first_fails None)) =
     (Inr ''/tmp/screenshot_1700000000005.png'', world_second (scripted plan_first_fails None)) \<and>
   placeImage (scripted plan_first_fails None) ''/tmp/screenshot_1700000000005.png''
     ''/work/DisplayImage2_2024-01-20_14-30-05.png'' ''png'' (Finite 100)
     (world_second (scripted plan_first_fails None)) =
     (Inr (), world_second_placed (scripted plan_first_fails None)) \<and>
   (\<exists>rest. trace (world_done (scripted plan_first_fails None)) =
      trace (world_second_placed (scripted plan_first_fails None)) @
      ConsoleLog (check_mark @ '' Display 2 screenshot saved: /work/DisplayImage2_2024-01-20_14-30-05.png'')
        # rest) \<and>
   ConsoleLog ''  - /work/DisplayImage2_2024-01-20_14-30-05.png''
     \<in> set (trace (world_done (scripted plan_first_fails None))) \<and>
   ''/work/DisplayImage2_2024-01-20_14-30-05.png'' \<in> files (world_done (scripted plan_first_fails None)) \<and>
   files (world_done (scripted plan_first_fails None)) =
     {''/work/DisplayImage2_2024-01-20_14-30-05.png'', ''/tmp/capture_1700000000004.ps1'',
      ''/work/DesktopImage_2024-01-20_14-30-05.png'', ''/work''}"
proof -
  let ?E = "scripted plan_first_fails None" and ?A = "run_args Undefined ''png''"
  let ?D = "''/work/DesktopImage_2024-01-20_14-30-05.png''"
  let ?M = "''/work/DisplayImage2_2024-01-20_14-30-05.png''"
  have tk: "ticks empty_world = 0" by (simp add: empty_world_def)
  note nD = image_name_desktop [OF tk, of plan_first_fails None Undefined]
  note nM = image_name_display2 [OF tk, of plan_first_fails None Undefined]
  have h1: "arg_display ?A = Undefined" by (simp add: args_simps)
  have h2: "fs_mkdir ?E (outputDir_of ?E ?A) empty_world = (Inr (), world_made)"
    by (simp add: args_simps step_made)
  have h3: "getScreenInfo ?E world_made = (Inr two_monitors, world_enumerated)"
    by (simp add: step_enumerated plan_first_fails_def)
  have h4: "captureScreen ?E None (emit (ConsoleLog ''Capturing desktop screenshot...'') world_enumerated) =
     (Inr ''/tmp/screenshot_1700000000001.png'', world_captured ?E ''Capturing desktop screenshot...'')"
    by (simp add: step_captured plan_first_fails_def)
  have h5: "placeImage ?E ''/tmp/screenshot_1700000000001.png'' (image_name ?E ?A empty_world None)
     (arg_format ?A) (arg_quality ?A) (world_captured ?E ''Capturing desktop screenshot...'') =
     (Inr (), world_placed ?E)"
    by (simp add: nD args_simps step_placed)
  note run = run_first_fails
  note T = partial_failure_tolerated [OF h1 h2 h3 h4 h5]
  note T2 = T [THEN conjunct2, THEN conjunct1]
  note T3 = T [THEN conjunct2, THEN conjunct2, THEN conjunct1]
  note T5 = T [THEN conjunct2, THEN conjunct2, THEN conjunct2, THEN conjunct2, THEN conjunct1,
      rule_format]
  have w5: "emit (ConsoleLog (''Capturing '' @ String_nat (length two_monitors) @ '' individual displays...''))
              (emit (ConsoleLog (check_mark @ '' Main desktop screenshot saved: '' @
                                 image_name ?E ?A empty_world None)) (world_placed ?E)) =
            world_listed ?E"
    by (simp add: nD world_listed_def two_monitors_def String_nat.simps digit_char_def)
  have i1: "String_nat (mon_index (two_monitors ! 0)) = ''1''"
    and i2: "String_nat (mon_index (two_monitors ! 1)) = ''2''"
    by (simp_all add: two_monitors_def String_nat.simps digit_char_def)
  have c2: "ConsoleLog ''  - /work/DesktopImage_2024-01-20_14-30-05.png'' \<in> set (trace (world_done ?E))"
    using T2 by (simp add: run nD)
  have u1: "Unlink ?D \<notin> set (new_events (world_captured ?E ''Capturing desktop screenshot...'')
                               (world_done ?E))"
    by (simp add: new_events_def world_done_def world_second_placed_def world_second_def
        world_skipped_def world_stuck_def world_listed_def world_placed_def emit_def)
  have c3: "?D \<in> files (world_done ?E)"
    using T3 u1 by (simp add: run nD)
  have len0: "0 < length two_monitors" and len1: "1 < length two_monitors"
    by (simp_all add: two_monitors_def)
  have pre0: "captureDisplays ?E (outputDir_of ?E ?A) (arg_format ?A) (arg_quality ?A)
      (getTimestamp ?E empty_world) (take 0 two_monitors) [image_name ?E ?A empty_world None]
      (emit (ConsoleLog (''Capturing '' @ String_nat (length two_monitors) @ '' individual displays...''))
         (emit (ConsoleLog (check_mark @ '' Main desktop screenshot saved: '' @
                            image_name ?E ?A empty_world None)) (world_placed ?E))) =
      (Inr [image_name ?E ?A empty_world None], world_listed ?E)"
    unfolding w5 by (simp add: ret_def)
  have pre1: "captureDisplays ?E (outputDir_of ?E ?A) (arg_format ?A) (arg_quality ?A)
      (getTimestamp ?E empty_world) (take 1 two_monitors) [image_name ?E ?A empty_world None]
      (emit (ConsoleLog (''Capturing '' @ String_nat (length two_monitors) @ '' individual displays...''))
         (emit (ConsoleLog (check_mark @ '' Main desktop screenshot saved: '' @
                            image_name ?E ?A empty_world None)) (world_placed ?E))) =
      (Inr [image_name ?E ?A empty_world None], world_skipped ?E)"
    unfolding w5 by (rule first_skipped)
  note at0 = T5 [OF conjI [OF len0 pre0]]
  note at1 = T5 [OF conjI [OF len1 pre1]]
  note failed0 = at0 [THEN conjunct1, rule_format, OF first_stuck]
  have c5: "\<exists>rest. trace (world_done ?E) = trace (world_stuck ?E) @
      ConsoleError (cross_mark @ '' Failed to capture display 1: Failed to capture screen: Command failed'')
        # rest"
    using failed0 unfolding run i1 snd_conv by simp
  have p1: "placeImage ?E ''/tmp/screenshot_1700000000005.png''
      (image_name ?E ?A empty_world (Some (two_monitors ! 1))) (arg_format ?A) (arg_quality ?A)
      (world_second ?E) = (Inr (), world_second_placed ?E)"
    unfolding nM args_simps by (rule second_placed)
  note placed1 = at1 [THEN conjunct2, THEN conjunct2, rule_format, OF conjI [OF second_captured p1]]
  have c6: "\<exists>rest. trace (world_done ?E) = trace (world_second_placed ?E) @
      ConsoleLog (check_mark @ '' Display 2 screenshot saved: /work/DisplayImage2_2024-01-20_14-30-05.png'')
        # rest"
    using placed1 [THEN conjunct1] unfolding run nM i2 snd_conv by simp
  have c7: "ConsoleLog ''  - /work/DisplayImage2_2024-01-20_14-30-05.png'' \<in> set (trace (world_done ?E))"
    using placed1 [THEN conjunct2, THEN conjunct1] unfolding run nM snd_conv by simp
  have u2: "Unlink ?M \<notin> set (new_events (world_second ?E) (world_done ?E))"
    by (simp add: new_events_def world_done_def world_second_placed_def)
  have c8: "?M \<in> files (world_done ?E)"
    using placed1 [THEN conjunct2, THEN conjunct2] u2 unfolding run nM snd_conv by simp
  have c9: "files (world_done ?E) =
     {''/work/DisplayImage2_2024-01-20_14-30-05.png'', ''/tmp/capture_1700000000004.ps1'',
      ''/work/DesktopImage_2024-01-20_14-30-05.png'', ''/work''}"
    by (simp add: world_done_def)
  have h2': "fs_mkdir ?E ''/work'' empty_world = (Inr (), world_made)" by (rule step_made)
  have pre1': "captureDisplays ?E ''/work'' ''png'' (Finite 100) (getTimestamp ?E empty_world)
      (take 1 two_monitors) [?D] (world_listed ?E) = (Inr [?D], world_skipped ?E)"
    by (rule first_skipped)
  show ?thesis
    by (intro conjI h1 h2' h3 h4 step_placed run c2 c3 first_stuck c5 pre1' second_captured
        second_placed c6 c7 c8 c9)
qed

lemma tostring_5: "js_tostring env (Finite 5) = ''5''"
  by (simp add: js_tostring_def String_int_def String_nat.simps digit_char_def)

text \<open>\<open>--display 5\<close> with two monitors.\<close>

lemma display_out_of_range_example:
  "fs_mkdir (scripted plan_ok None) ''/work'' empty_world = (Inr (), world_made) \<and>
   getScreenInfo (scripted plan_ok None) world_made = (Inr two_monitors, world_enumerated) \<and>
   (js_lt (Finite 5) (Finite 1) \<or> js_gt (Finite 5) (Finite (of_nat (length two_monitors)))) \<and>
   main (scripted plan_ok None) (run_args (Finite 5) ''png'') empty_world =
     (1, emit (ConsoleError ''Error: Display 5 not found. Available displays: 1-2'') world_enumerated)"
proof -
  let ?E = "scripted plan_ok None" and ?A = "run_args (Finite 5) ''png''"
  have h1: "fs_mkdir ?E (outputDir_of ?E ?A) empty_world = (Inr (), world_made)"
    by (simp add: args_simps step_made)
  have h2: "getScreenInfo ?E world_made = (Inr two_monitors, world_enumerated)"
    by (simp add: step_enumerated plan_ok_def)
  have r: "js_lt (Finite 5) (Finite 1) \<or> js_gt (Finite 5) (Finite (of_nat (length two_monitors)))"
    by (simp add: js_gt_def two_monitors_def)
  then have h3: "js_lt (arg_display ?A) (Finite 1) \<or>
         js_gt (arg_display ?A) (Finite (of_nat (length two_monitors)))"
    by (simp only: args_simps)
  have len: "String_nat (length two_monitors) = ''2''"
    by (simp add: two_monitors_def String_nat.simps digit_char_def)
  from display_out_of_range [OF h1 h2 h3]
  have c: "main ?E ?A empty_world =
     (1, emit (ConsoleError ''Error: Display 5 not found. Available displays: 1-2'') world_enumerated)"
    by (simp add: args_simps tostring_5 len)
  have h1': "fs_mkdir ?E ''/work'' empty_world = (Inr (), world_made)" by (rule step_made)
  show ?thesis by (intro conjI h1' h2 r c)
qed

text \<open>\<open>--display abc\<close> with two monitors: the whole desktop is captured, the temporary
  screenshot stays, and the run fails with the \<open>TypeError\<close>.\<close>

theorem display_guard_misses_nan_witness:
  "fs_mkdir (scripted plan_ok None) ''/work'' empty_world = (Inr (), world_made) \<and>
   getScreenInfo (scripted plan_ok None) world_made = (Inr two_monitors, world_enumerated) \<and>
   arg_display (run_args NaN ''png'') = NaN \<and>
   captureScreen (scripted plan_ok None) None
     (emit (ConsoleLog ''Capturing display NaN...'') world_enumerated) =
     (Inr ''/tmp/screenshot_1700000000001.png'',
      world_captured (scripted plan_ok None) ''Capturing display NaN...'') \<and>
   \<not> (js_le (Finite 1) NaN \<and> js_le NaN (Finite (of_nat (length two_monitors)))) \<and>
   main (scripted plan_ok None) (run_args NaN ''png'') empty_world =
     (1, emit (ConsoleError ''Error: Cannot read properties of undefined'')
           (world_captured (scripted plan_ok None) ''Capturing display NaN...'')) \<and>
   Exec (powershell_cmd ''win32'' ''/tmp/capture_1700000000002.ps1'')
     \<in> set (trace (snd (main (scripted plan_ok None) (run_args NaN ''png'') empty_world))) \<and>
   files (snd (main (scripted plan_ok None) (run_args NaN ''png'') empty_world)) =
     {''/tmp/screenshot_1700000000001.png'', ''/work''}"
proof -
  let ?E = "scripted plan_ok None" and ?A = "run_args NaN ''png''"
  have h1: "fs_mkdir ?E (outputDir_of ?E ?A) empty_world = (Inr (), world_made)"
    by (simp add: args_simps step_made)
  have h2: "getScreenInfo ?E world_made = (Inr two_monitors, world_enumerated)"
    by (simp add: step_enumerated plan_ok_def)
  have h3: "arg_display ?A = NaN" by (simp add: args_simps)
  have h4: "captureScreen ?E None (emit (ConsoleLog ''Capturing display NaN...'') world_enumerated) =
     (Inr ''/tmp/screenshot_1700000000001.png'', world_captured ?E ''Capturing display NaN...'')"
    by (simp add: step_captured plan_ok_def)
  note T = display_guard_misses_nan [OF h1 h2 h3 h4]
  from T have c1: "\<not> (js_le (Finite 1) NaN \<and> js_le NaN (Finite (of_nat (length two_monitors))))"
    by (simp add: args_simps)
  from T have c2: "main ?E ?A empty_world =
     (1, emit (ConsoleError ''Error: Cannot read properties of undefined'')
           (world_captured ?E ''Capturing display NaN...''))"
    by (simp add: scripted_fields)
  have c3: "Exec (powershell_cmd ''win32'' ''/tmp/capture_1700000000002.ps1'')
     \<in> set (trace (snd (main ?E ?A empty_world)))"
    unfolding c2 snd_conv by (simp add: emit_def world_captured_def)
  have c4: "files (snd (main ?E ?A empty_world)) = {''/tmp/screenshot_1700000000001.png'', ''/work''}"
    unfolding c2 snd_conv by (simp add: emit_def world_captured_def)
  have h1': "fs_mkdir ?E ''/work'' empty_world = (Inr (), world_made)" by (rule step_made)
  show ?thesis by (intro conjI h1' h2 h3 h4 c1 c2 c3 c4)
qed

lemma floor_three_halves: "\<lfloor>3 / 2 :: rat\<rfloor> = 1"
  by (simp add: floor_eq_iff)

lemma tostring_three_halves: "js_tostring (scripted plan je) (Finite (3 / 2)) = ''1.5''"
  by (simp add: js_tostring_def floor_three_halves scripted_def base_env_def halves_numstr_def
      String_int_def String_nat.simps digit_char_def)

text \<open>\<open>--display 1.5\<close> with two monitors: the whole desktop is captured, then the run fails.\<close>

theorem fractional_display_witness:
  "fs_mkdir (scripted plan_ok None) ''/work'' empty_world = (Inr (), world_made) \<and>
   getScreenInfo (scripted plan_ok None) world_made = (Inr two_monitors, world_enumerated) \<and>
   arg_display (run_args (Finite (3 / 2)) ''png'') = Finite (3 / 2) \<and>
   of_int \<lfloor>3 / 2 :: rat\<rfloor> \<noteq> (3 / 2 :: rat) \<and> (1 :: rat) \<le> 3 / 2 \<and>
   (3 / 2 :: rat) \<le> of_nat (length two_monitors) \<and>
   captureScreen (scripted plan_ok None) None
     (emit (ConsoleLog ''Capturing display 1.5...'') world_enumerated) =
     (Inr ''/tmp/screenshot_1700000000001.png'',
      world_captured (scripted plan_ok None) ''Capturing display 1.5...'') \<and>
   find (\<lambda>m. js_seq (Finite (of_nat (mon_index m))) (Finite (3 / 2))) two_monitors = None \<and>
   main (scripted plan_ok None) (run_args (Finite (3 / 2)) ''png'') empty_world =
     (1, emit (ConsoleError ''Error: Cannot read properties of undefined'')
           (world_captured (scripted plan_ok None) ''Capturing display 1.5...''))"
proof -
  let ?E = "scripted plan_ok None" and ?A = "run_args (Finite (3 / 2)) ''png''"
  have h1: "fs_mkdir ?E (outputDir_of ?E ?A) empty_world = (Inr (), world_made)"
    by (simp add: args_simps step_made)
  have h2: "getScreenInfo ?E world_made = (Inr two_monitors, world_enumerated)"
    by (simp add: step_enumerated plan_ok_def)
  have h3: "arg_display ?A = Finite (3 / 2)" by (simp add: args_simps)
  have h4: "of_int \<lfloor>3 / 2 :: rat\<rfloor> \<noteq> (3 / 2 :: rat)" by (simp add: floor_three_halves)
  have h5: "(1 :: rat) \<le> 3 / 2" by simp
  have h6: "(3 / 2 :: rat) \<le> of_nat (length two_monitors)" by (simp add: two_monitors_def)
  have h7': "captureScreen ?E None (emit (ConsoleLog ''Capturing display 1.5...'') world_enumerated) =
     (Inr ''/tmp/screenshot_1700000000001.png'', world_captured ?E ''Capturing display 1.5...'')"
    by (simp add: step_captured plan_ok_def)
  then have h7: "captureScreen ?E None
      (emit (ConsoleLog (''Capturing display '' @ js_tostring ?E (Finite (3 / 2)) @ ''...'')) world_enumerated) =
     (Inr ''/tmp/screenshot_1700000000001.png'', world_captured ?E ''Capturing display 1.5...'')"
    by (simp add: tostring_three_halves)
  from fractional_display [OF h1 h2 h3 h4 h5 h6 h7]
  have c: "find (\<lambda>m. js_seq (Finite (of_nat (mon_index m))) (Finite (3 / 2))) two_monitors = None"
    "main ?E ?A empty_world =
     (1, emit (ConsoleError ''Error: Cannot read properties of undefined'')
           (world_captured ?E ''Capturing display 1.5...''))"
    by (simp_all add: scripted_fields)
  have h1': "fs_mkdir ?E ''/work'' empty_world = (Inr (), world_made)" by (rule step_made)
  show ?thesis by (intro conjI h1' h2 h3 h4 h5 h6 h7' c)
qed

end
